theory Spec2Isabelle
  imports Main "HOL-Library.Word" "HOL-Library.AList"
begin

unbundle bit_operations_syntax

section \<open>The static injector of \<^verbatim>\<open>packages/core/src/di/injector.ts\<close>\<close>

subsection \<open>Tokens, values and token identities\<close>

text \<open>
  A token is any JavaScript value.  Functions and objects carry the number of the
  reference they are; primitives carry their value.  \<^verbatim>\<open>Injector\<close> (the abstract
  class) is a function like any other, fixed here as function \<open>0\<close>.
\<close>

datatype token =
    TFunction nat
  | TObject nat
  | TString string
  | TNumber int
  | TBoolean bool
  | TNull
  | TUndefined

definition Injector :: token where
  "Injector = TFunction 0"

text \<open>JavaScript truthiness of a token (\<^verbatim>\<open>!obj\<close> in \<^verbatim>\<open>getId\<close>).\<close>

fun truthy :: "token \<Rightarrow> bool" where
  "truthy (TFunction _) = True"
| "truthy (TObject _) = True"
| "truthy (TString s) = (s \<noteq> [])"
| "truthy (TNumber n) = (n \<noteq> 0)"
| "truthy (TBoolean b) = b"
| "truthy TNull = False"
| "truthy TUndefined = False"

text \<open>
  Values held by records and handed to construction functions.  \<open>VObject a\<close> is the
  object at reference \<open>a\<close>, \<open>VInjector a\<close> the static injector at reference \<open>a\<close>, and
  \<open>THROW_IF_NOT_FOUND\<close> the sentinel object of that name.  \<open>VStringOfIDENT\<close> is the
  primitive string \<^verbatim>\<open>String(IDENT)\<close>, the source text of the private function
  \<^verbatim>\<open>IDENT\<close>; \<open>VString\<close> holds every other string.
\<close>

datatype val =
    VUndefined
  | VNull
  | VBoolean bool
  | VNumber int
  | VString string
  | VStringOfIDENT
  | VArray "val list"
  | VObject nat
  | VInjector nat
  | THROW_IF_NOT_FOUND

text \<open>
  \<^verbatim>\<open>getId\<close> returns the string \<^verbatim>\<open>typeof obj + '_' + ...\<close>, which is
  different for different truthy tokens; the key of a token is therefore the token
  itself (\<open>Key\<close>).  A contribution to a multi provider is stored under
  \<^verbatim>\<open>'_' + index + '_' + id\<close> (\<open>MultiKey\<close>), which no \<^verbatim>\<open>getId\<close> returns.
\<close>

datatype ident = Key token | MultiKey nat ident

subsection \<open>Records\<close>

datatype fn = IDENT | MULTI_PROVIDER_FN | UserFn nat

text \<open>
  The value slot of a record holds the private array \<^verbatim>\<open>EMPTY\<close>, the private function
  \<^verbatim>\<open>CIRCULAR\<close> (which is \<^verbatim>\<open>IDENT\<close>), or a value.  No caller can supply either
  object, so no value is \<^verbatim>\<open>=== EMPTY\<close>.  The mark is tested with \<^verbatim>\<open>value == CIRCULAR\<close>:
  loose equality of a function with a primitive string compares the string with the
  function's source text, so the test is also true of the value \<open>VStringOfIDENT\<close> (and
  of no other value: objects compare by identity, and the text is not a number).
\<close>

datatype slot = EMPTY | CIRCULAR | Resolved val

text \<open>\<^verbatim>\<open>value == CIRCULAR\<close>\<close>

definition eq_CIRCULAR :: "slot \<Rightarrow> bool" where
  "eq_CIRCULAR value = (value = CIRCULAR \<or> value = Resolved VStringOfIDENT)"

record DependencyRecord =
  dep_id :: ident
  dep_token :: token
  options :: "32 word"

record Record =
  r_token :: token
  r_fn :: fn
  r_useNew :: bool
  r_deps :: "DependencyRecord list"
  r_value :: slot

type_synonym Records = "(ident \<times> Record) list"

definition OPT_OPTIONAL :: "32 word" where "OPT_OPTIONAL = 1"
definition OPT_CHECK_SELF :: "32 word" where "OPT_CHECK_SELF = 2"
definition OPT_CHECK_PARENT :: "32 word" where "OPT_CHECK_PARENT = 4"
definition OPT_DEFAULT :: "32 word" where "OPT_DEFAULT = OPT_CHECK_PARENT OR OPT_CHECK_SELF"

text \<open>An injector: the terminal \<^verbatim>\<open>_NullInjector\<close>, or a \<^verbatim>\<open>StaticInjector\<close> with its own
  reference, its registry and its parent.\<close>

datatype injector =
    NULL_INJECTOR
  | StaticInjector nat Records injector

subsection \<open>Provider descriptions\<close>

text \<open>
  What a caller can put in a provider list: any JavaScript value.  An object is given by
  the keys the builder looks at; \<open>None\<close> is "the key is absent", and \<open>multi\<close> is
  whether \<^verbatim>\<open>provider.multi === true\<close>.  An entry of \<^verbatim>\<open>deps\<close> is a token, or an array
  of annotations (with the reference of the array, which is the token until an annotation
  sets one).  Forward references are taken as already dereferenced
  (\<^verbatim>\<open>resolveForwardRef\<close> is the identity).
\<close>

datatype annotation = Optional | SkipSelf | Self | Inject token | Other token

datatype depEntry = DepToken token | DepAnnotations nat "annotation list"

record providerObj =
  provide :: "token option"
  useValue :: "val option"
  useFactory :: "nat option"
  useExisting :: "token option"
  useClass :: "nat option"
  deps :: "depEntry list option"
  multi :: bool

datatype provider =
    PNull
  | PUndefined
  | PFalse
  | PZero
  | PEmptyString
  | PTruthyPrimitive val
  | PArray "provider list"
  | PFunction nat
  | PObject providerObj

subsection \<open>Errors\<close>

text \<open>
  An \<^verbatim>\<open>Error\<close> object: its message and the two path properties the resolver attaches.
  \<open>Formatted path m\<close> is the message \<^verbatim>\<open>staticError(m, path)\<close> that \<^verbatim>\<open>get\<close> writes.
\<close>

datatype message =
    NullInjectorError token
  | CircularDependency
  | TokenMustBeTruthy token
  | Thrown string
  | UnexpectedProvider provider
  | FunctionClassNotSupported provider
  | DepsRequired providerObj
  | NotNewable providerObj
  | MultiProviderMix token
  | Formatted "token list option" message

record error =
  msg :: message
  ngTempTokenPath :: "token list option"
  ngTokenPath :: "token list option"

definition newError :: "message \<Rightarrow> error" where
  "newError m = \<lparr>msg = m, ngTempTokenPath = None, ngTokenPath = None\<rparr>"

text \<open>The message an error had when it was first thrown.\<close>

fun cause :: "message \<Rightarrow> message" where
  "cause (Formatted p m) = cause m"
| "cause m = m"

subsection \<open>Token identity\<close>

definition getId :: "token \<Rightarrow> error + ident" where
  "getId obj = (if \<not> truthy obj then Inl (newError (TokenMustBeTruthy obj)) else Inr (Key obj))"

subsection \<open>The null injector\<close>

text \<open>The parameter default applies when the argument is \<^verbatim>\<open>undefined\<close>.\<close>

definition nullInjector_get :: "token \<Rightarrow> val \<Rightarrow> error + val" where
  "nullInjector_get token notFoundValue =
     (let notFoundValue = (if notFoundValue = VUndefined then THROW_IF_NOT_FOUND else notFoundValue)
      in if notFoundValue = THROW_IF_NOT_FOUND then Inl (newError (NullInjectorError token))
         else Inr notFoundValue)"

subsection \<open>The resolver\<close>

text \<open>
  A construction function is run by \<open>app\<close>, a parameter: \<open>app f this args\<close> is what
  user function \<open>f\<close> returns (\<open>Inr\<close>) or throws (\<open>Inl\<close>) when applied to \<open>args\<close> with
  the given \<^verbatim>\<open>this\<close>.  The functions are taken to be pure: they neither call an
  injector nor write to a record.
\<close>

type_synonym app = "nat \<Rightarrow> val \<Rightarrow> val list \<Rightarrow> string + val"

fun apply_fn :: "app \<Rightarrow> fn \<Rightarrow> val \<Rightarrow> val list \<Rightarrow> string + val" where
  "apply_fn app IDENT obj args = Inr (case args of [] \<Rightarrow> VUndefined | v # _ \<Rightarrow> v)"
| "apply_fn app MULTI_PROVIDER_FN obj args = Inr (VArray args)"
| "apply_fn app (UserFn f) obj args = app f obj args"

definition set_value :: "Records \<Rightarrow> ident \<Rightarrow> slot \<Rightarrow> Records" where
  "set_value records rid v = AList.map_entry rid (\<lambda>r. r\<lparr>r_value := v\<rparr>) records"

definition lookup_record :: "Records \<Rightarrow> ident \<Rightarrow> ident option" where
  "lookup_record records rid = (case map_of records rid of None \<Rightarrow> None | Some _ \<Rightarrow> Some rid)"

text \<open>\<^verbatim>\<open>record && record.value == CIRCULAR\<close>\<close>

definition is_circular :: "Records \<Rightarrow> ident option \<Rightarrow> bool" where
  "is_circular records record =
     (case record of None \<Rightarrow> False
      | Some rid \<Rightarrow> (case map_of records rid of None \<Rightarrow> False | Some r \<Rightarrow> eq_CIRCULAR (r_value r)))"

text \<open>\<^verbatim>\<open>token || record!.token\<close>\<close>

definition path_token :: "token \<Rightarrow> Records \<Rightarrow> ident option \<Rightarrow> token" where
  "path_token token records record =
     (if truthy token then token
      else case record of None \<Rightarrow> token
           | Some rid \<Rightarrow> (case map_of records rid of None \<Rightarrow> token | Some r \<Rightarrow> r_token r))"

text \<open>The \<^verbatim>\<open>catch\<close> block of \<^verbatim>\<open>StaticInjector.get\<close>.\<close>

definition get_catch :: "error \<Rightarrow> error" where
  "get_catch e = e\<lparr>msg := Formatted (ngTempTokenPath e) (msg e),
                   ngTokenPath := ngTempTokenPath e,
                   ngTempTokenPath := None\<rparr>"

type_synonym 'a outcome = "((error + 'a) \<times> Records \<times> injector \<times> nat) option"

text \<open>
  The four mutually recursive procedures, with fuel: \<open>None\<close> is "no result within
  this many nested calls".  The state is the registry, the parent chain (whose records a
  delegated \<^verbatim>\<open>get\<close> fills in) and the next free object reference.
\<close>

function (sequential) tryResolveToken :: "nat \<Rightarrow> app \<Rightarrow> token \<Rightarrow> ident option \<Rightarrow> Records \<Rightarrow> injector \<Rightarrow> val \<Rightarrow> nat \<Rightarrow> val outcome"
and resolveToken :: "nat \<Rightarrow> app \<Rightarrow> token \<Rightarrow> ident option \<Rightarrow> Records \<Rightarrow> injector \<Rightarrow> val \<Rightarrow> nat \<Rightarrow> val outcome"
and resolveDeps :: "nat \<Rightarrow> app \<Rightarrow> DependencyRecord list \<Rightarrow> Records \<Rightarrow> injector \<Rightarrow> nat \<Rightarrow> (val list) outcome"
and injector_get :: "nat \<Rightarrow> app \<Rightarrow> injector \<Rightarrow> token \<Rightarrow> val \<Rightarrow> nat \<Rightarrow> ((error + val) \<times> injector \<times> nat) option"
where
  "tryResolveToken 0 app token record records parent notFoundValue h = None"
| "tryResolveToken (Suc n) app token record records parent notFoundValue h =
     (case resolveToken n app token record records parent notFoundValue h of
        None \<Rightarrow> None
      | Some (Inr v, records', parent', h') \<Rightarrow> Some (Inr v, records', parent', h')
      | Some (Inl e, records', parent', h') \<Rightarrow>
          (let path = (case ngTempTokenPath e of None \<Rightarrow> [] | Some p \<Rightarrow> p);
               e' = e\<lparr>ngTempTokenPath := Some (path_token token records' record # path)\<rparr>;
               records'' = (if is_circular records' record
                            then set_value records' (the record) EMPTY else records')
           in Some (Inl e', records'', parent', h')))"
| "resolveToken 0 app token record records parent notFoundValue h = None"
| "resolveToken (Suc n) app token record records parent notFoundValue h =
     (case record of
        None \<Rightarrow>
          (case injector_get n app parent token notFoundValue h of
             None \<Rightarrow> None
           | Some (res, parent', h') \<Rightarrow> Some (res, records, parent', h'))
      | Some rid \<Rightarrow>
          (case map_of records rid of
             None \<Rightarrow> None
           | Some r \<Rightarrow>
               (if eq_CIRCULAR (r_value r)
                then Some (Inl (newError CircularDependency), records, parent, h)
                else case r_value r of
                  CIRCULAR \<Rightarrow> Some (Inl (newError CircularDependency), records, parent, h)
                | Resolved v \<Rightarrow> Some (Inr v, records, parent, h)
                | EMPTY \<Rightarrow>
                    (case resolveDeps n app (r_deps r) (set_value records rid CIRCULAR) parent h of
                       None \<Rightarrow> None
                     | Some (Inl e, records1, parent1, h1) \<Rightarrow> Some (Inl e, records1, parent1, h1)
                     | Some (Inr depValues, records1, parent1, h1) \<Rightarrow>
                         (let obj = (if r_useNew r then VObject h1 else VUndefined);
                              h2 = (if r_useNew r then Suc h1 else h1)
                          in case apply_fn app (r_fn r) obj depValues of
                               Inl t \<Rightarrow> Some (Inl (newError (Thrown t)), records1, parent1, h2)
                             | Inr v \<Rightarrow>
                                 (let v' = (if r_useNew r \<and> v = VUndefined then obj else v)
                                  in Some (Inr v', set_value records1 rid (Resolved v'), parent1, h2)))))))"
| "resolveDeps 0 app depRecords records parent h = None"
| "resolveDeps (Suc n) app [] records parent h = Some (Inr [], records, parent, h)"
| "resolveDeps (Suc n) app (depRecord # rest) records parent h =
     (let opts = options depRecord;
          childRecord = (if opts AND OPT_CHECK_SELF \<noteq> 0 then lookup_record records (dep_id depRecord) else None);
          useNull = (childRecord = None \<and> opts AND OPT_CHECK_PARENT = 0);
          notFoundValue = (if opts AND OPT_OPTIONAL \<noteq> 0 then VNull else THROW_IF_NOT_FOUND)
      in case tryResolveToken n app (dep_token depRecord) childRecord records
                (if useNull then NULL_INJECTOR else parent) notFoundValue h of
           None \<Rightarrow> None
         | Some (Inl e, records', parent', h') \<Rightarrow>
             Some (Inl e, records', if useNull then parent else parent', h')
         | Some (Inr v, records', parent', h') \<Rightarrow>
             (case resolveDeps n app rest records' (if useNull then parent else parent') h' of
                None \<Rightarrow> None
              | Some (Inl e, records2, parent2, h2) \<Rightarrow> Some (Inl e, records2, parent2, h2)
              | Some (Inr vs, records2, parent2, h2) \<Rightarrow> Some (Inr (v # vs), records2, parent2, h2)))"
| "injector_get 0 app this token notFoundValue h = None"
| "injector_get (Suc n) app NULL_INJECTOR token notFoundValue h =
     Some (nullInjector_get token notFoundValue, NULL_INJECTOR, h)"
| "injector_get (Suc n) app (StaticInjector a records parent) token notFoundValue h =
     (case getId token of
        Inl e \<Rightarrow> Some (Inl e, StaticInjector a records parent, h)
      | Inr rid \<Rightarrow>
          (case tryResolveToken n app token (lookup_record records rid) records parent notFoundValue h of
             None \<Rightarrow> None
           | Some (Inl e, records', parent', h') \<Rightarrow>
               Some (Inl (get_catch e), StaticInjector a records' parent', h')
           | Some (Inr v, records', parent', h') \<Rightarrow>
               Some (Inr v, StaticInjector a records' parent', h')))"

  by pat_completeness auto
termination
  by (relation "measure (\<lambda>x. case x of
        Inl (Inl (n, _)) \<Rightarrow> n | Inl (Inr (n, _)) \<Rightarrow> n
      | Inr (Inl (n, _)) \<Rightarrow> n | Inr (Inr (n, _)) \<Rightarrow> n)") simp_all

subsection \<open>The registry builder\<close>

text \<open>The inner loop of \<^verbatim>\<open>computeDeps\<close> over the annotations of one entry.\<close>

fun annotate :: "annotation list \<Rightarrow> 32 word \<Rightarrow> token \<Rightarrow> 32 word \<times> token" where
  "annotate [] opts token = (opts, token)"
| "annotate (Optional # as) opts token = annotate as (opts OR OPT_OPTIONAL) token"
| "annotate (SkipSelf # as) opts token = annotate as (opts AND NOT OPT_CHECK_SELF) token"
| "annotate (Self # as) opts token = annotate as (opts AND NOT OPT_CHECK_PARENT) token"
| "annotate (Inject t # as) opts token = annotate as opts t"
| "annotate (Other t # as) opts token = annotate as opts t"

fun computeDep :: "depEntry \<Rightarrow> error + DependencyRecord" where
  "computeDep (DepToken token) =
     (case getId token of Inl e \<Rightarrow> Inl e
      | Inr rid \<Rightarrow> Inr \<lparr>dep_id = rid, dep_token = token, options = OPT_DEFAULT\<rparr>)"
| "computeDep (DepAnnotations a annotations) =
     (case annotate annotations OPT_DEFAULT (TObject a) of
        (opts, token) \<Rightarrow>
          (case getId token of Inl e \<Rightarrow> Inl e
           | Inr rid \<Rightarrow> Inr \<lparr>dep_id = rid, dep_token = token, options = opts\<rparr>))"

fun computeDepsLoop :: "depEntry list \<Rightarrow> error + DependencyRecord list" where
  "computeDepsLoop [] = Inr []"
| "computeDepsLoop (d # ds) =
     (case computeDep d of Inl e \<Rightarrow> Inl e
      | Inr r \<Rightarrow> (case computeDepsLoop ds of Inl e \<Rightarrow> Inl e | Inr rs \<Rightarrow> Inr (r # rs)))"

definition computeDeps :: "providerObj \<Rightarrow> error + DependencyRecord list" where
  "computeDeps provider =
     (case deps provider of
        Some (d # ds) \<Rightarrow> computeDepsLoop (d # ds)
      | providerDeps \<Rightarrow>
          (case useExisting provider of
             Some token \<Rightarrow>
               (case getId token of Inl e \<Rightarrow> Inl e
                | Inr rid \<Rightarrow> Inr [\<lparr>dep_id = rid, dep_token = token, options = OPT_DEFAULT\<rparr>])
           | None \<Rightarrow>
               if providerDeps = None \<and> useValue provider = None
               then Inl (newError (DepsRequired provider))
               else Inr []))"

definition resolveProvider :: "providerObj \<Rightarrow> error + Record" where
  "resolveProvider provider =
     (case computeDeps provider of
        Inl e \<Rightarrow> Inl e
      | Inr ds \<Rightarrow>
          (let token = (case provide provider of None \<Rightarrow> TUndefined | Some t \<Rightarrow> t);
               mk = (\<lambda>f n v. Inr \<lparr>r_token = token, r_fn = f, r_useNew = n, r_deps = ds, r_value = v\<rparr>)
           in case useValue provider of
                Some v \<Rightarrow> mk IDENT False (Resolved v)
              | None \<Rightarrow>
                  (case useFactory provider of
                     Some f \<Rightarrow> mk (UserFn f) False EMPTY
                   | None \<Rightarrow>
                       (case useExisting provider of
                          Some _ \<Rightarrow> mk IDENT False EMPTY
                        | None \<Rightarrow>
                            (case useClass provider of
                               Some c \<Rightarrow> mk (UserFn c) True EMPTY
                             | None \<Rightarrow>
                                 (case token of
                                    TFunction c \<Rightarrow> mk (UserFn c) True EMPTY
                                  | _ \<Rightarrow> Inl (newError (NotNewable provider))))))))"

definition multiProviderMixError :: "token \<Rightarrow> error" where
  "multiProviderMixError token = newError (MultiProviderMix token)"

text \<open>\<^verbatim>\<open>records.hasOwnProperty(id) && records[id].fn == MULTI_PROVIDER_FN\<close>\<close>

definition holds_multi :: "Records \<Rightarrow> ident \<Rightarrow> bool" where
  "holds_multi records rid =
     (case map_of records rid of None \<Rightarrow> False | Some r \<Rightarrow> r_fn r = MULTI_PROVIDER_FN)"

text \<open>The body of \<^verbatim>\<open>recursivelyProcessProviders\<close> for an object with a \<^verbatim>\<open>provide\<close> key.\<close>

definition processProvider :: "Records \<Rightarrow> providerObj \<Rightarrow> token \<Rightarrow> error + Records" where
  "processProvider records provider token =
     (case getId token of
        Inl e \<Rightarrow> Inl e
      | Inr rid \<Rightarrow>
          (case resolveProvider provider of
             Inl e \<Rightarrow> Inl e
           | Inr resolvedProvider \<Rightarrow>
               if multi provider then
                 (case map_of records rid of
                    Some multiProvider \<Rightarrow>
                      if r_fn multiProvider \<noteq> MULTI_PROVIDER_FN then Inl (multiProviderMixError token)
                      else
                        (let rid' = MultiKey (length (r_deps multiProvider)) rid;
                             d = \<lparr>dep_id = rid', dep_token = token, options = OPT_DEFAULT\<rparr>;
                             records1 = AList.map_entry rid (\<lambda>r. r\<lparr>r_deps := r_deps r @ [d]\<rparr>) records
                         in if holds_multi records1 rid' then Inl (multiProviderMixError token)
                            else Inr (AList.update rid' resolvedProvider records1))
                  | None \<Rightarrow>
                      (let multiProvider = \<lparr>r_token = token, r_fn = MULTI_PROVIDER_FN, r_useNew = False,
                                             r_deps = [], r_value = EMPTY\<rparr>;
                           records0 = AList.update rid multiProvider records;
                           rid' = MultiKey (length (r_deps multiProvider)) rid;
                           d = \<lparr>dep_id = rid', dep_token = token, options = OPT_DEFAULT\<rparr>;
                           records1 = AList.map_entry rid (\<lambda>r. r\<lparr>r_deps := r_deps r @ [d]\<rparr>) records0
                       in if holds_multi records1 rid' then Inl (multiProviderMixError token)
                          else Inr (AList.update rid' resolvedProvider records1)))
               else if holds_multi records rid then Inl (multiProviderMixError token)
               else Inr (AList.update rid resolvedProvider records)))"

fun recursivelyProcessProviders :: "Records \<Rightarrow> provider \<Rightarrow> error + Records"
and processArray :: "Records \<Rightarrow> provider list \<Rightarrow> error + Records" where
  "recursivelyProcessProviders records PNull = Inr records"
| "recursivelyProcessProviders records PUndefined = Inr records"
| "recursivelyProcessProviders records PFalse = Inr records"
| "recursivelyProcessProviders records PZero = Inr records"
| "recursivelyProcessProviders records PEmptyString = Inr records"
| "recursivelyProcessProviders records (PArray ps) = processArray records ps"
| "recursivelyProcessProviders records (PFunction f) =
     Inl (newError (FunctionClassNotSupported (PFunction f)))"
| "recursivelyProcessProviders records (PObject provider) =
     (case provide provider of
        Some token \<Rightarrow> processProvider records provider token
      | None \<Rightarrow> Inl (newError (UnexpectedProvider (PObject provider))))"
| "recursivelyProcessProviders records (PTruthyPrimitive v) =
     Inl (newError (UnexpectedProvider (PTruthyPrimitive v)))"
| "processArray records [] = Inr records"
| "processArray records (p # ps) =
     (case recursivelyProcessProviders records p of
        Inl e \<Rightarrow> Inl e
      | Inr records' \<Rightarrow> processArray records' ps)"

subsection \<open>Scopes\<close>

text \<open>The constructor of \<^verbatim>\<open>StaticInjector\<close>; \<open>this\<close> is the reference of the new object.\<close>

definition new_StaticInjector :: "nat \<Rightarrow> provider \<Rightarrow> injector \<Rightarrow> error + injector" where
  "new_StaticInjector this providers parent =
     (case getId Injector of
        Inl e \<Rightarrow> Inl e
      | Inr rid \<Rightarrow>
          (let records = [(rid, \<lparr>r_token = Injector, r_fn = IDENT, r_useNew = False, r_deps = [],
                                 r_value = Resolved (VInjector this)\<rparr>)]
           in case recursivelyProcessProviders records providers of
                Inl e \<Rightarrow> Inl e
              | Inr records' \<Rightarrow> Inr (StaticInjector this records' parent)))"

text \<open>\<^verbatim>\<open>Injector.create(providers, parent)\<close>, the parent defaulting to the null injector.\<close>

definition create :: "nat \<Rightarrow> provider list \<Rightarrow> injector option \<Rightarrow> error + injector" where
  "create this providers parent =
     new_StaticInjector this (PArray providers) (case parent of None \<Rightarrow> NULL_INJECTOR | Some p \<Rightarrow> p)"

subsection \<open>Properties of provider lists\<close>

text \<open>\<^verbatim>\<open>!provider\<close>: the entries the builder's first test lets through untouched.\<close>

fun falsy :: "provider \<Rightarrow> bool" where
  "falsy PNull = True"
| "falsy PUndefined = True"
| "falsy PFalse = True"
| "falsy PZero = True"
| "falsy PEmptyString = True"
| "falsy _ = False"

fun is_array :: "provider \<Rightarrow> bool" where
  "is_array (PArray _) = True"
| "is_array _ = False"

fun is_function :: "provider \<Rightarrow> bool" where
  "is_function (PFunction _) = True"
| "is_function _ = False"

fun has_provide_key :: "provider \<Rightarrow> bool" where
  "has_provide_key (PObject provider) = (provide provider \<noteq> None)"
| "has_provide_key _ = False"

text \<open>Some description in the (nested) list has the token under its \<^verbatim>\<open>provide\<close> key.\<close>

fun provides :: "token \<Rightarrow> provider \<Rightarrow> bool" where
  "provides t (PArray ps) = (\<exists>p \<in> set ps. provides t p)"
| "provides t (PObject provider) = (provide provider = Some t)"
| "provides t _ = False"

subsection \<open>How a resolution may change a registry\<close>

text \<open>
  What one call can do to one record: nothing, or fill an unresolved slot
  (\<open>fills\<close>); when the call fails it may also have cleared a slot that the test
  \<^verbatim>\<open>== CIRCULAR\<close> takes for an in-progress mark (\<open>fills_or_clears\<close>); and \<^verbatim>\<open>resolveToken\<close>, when it fails, may leave the mark it
  put on its own record (\<open>fills_clears_or_marks\<close>).
\<close>

definition fills :: "Record \<Rightarrow> Record \<Rightarrow> bool" where
  "fills r r' = (r' = r \<or> (r_value r = EMPTY \<and> (\<exists>v. r' = r\<lparr>r_value := Resolved v\<rparr>)))"

definition fills_or_clears :: "Record \<Rightarrow> Record \<Rightarrow> bool" where
  "fills_or_clears r r' = (fills r r' \<or> (eq_CIRCULAR (r_value r) \<and> r' = r\<lparr>r_value := EMPTY\<rparr>))"

definition fills_clears_or_marks :: "Record \<Rightarrow> Record \<Rightarrow> bool" where
  "fills_clears_or_marks r r' =
     (fills_or_clears r r' \<or> (r_value r = EMPTY \<and> r' = r\<lparr>r_value := CIRCULAR\<rparr>))"

definition registry_rel :: "(ident \<Rightarrow> Record \<Rightarrow> Record \<Rightarrow> bool) \<Rightarrow> Records \<Rightarrow> Records \<Rightarrow> bool" where
  "registry_rel R records records' = (\<forall>k. rel_option (R k) (map_of records k) (map_of records' k))"

fun chain_rel :: "(Record \<Rightarrow> Record \<Rightarrow> bool) \<Rightarrow> injector \<Rightarrow> injector \<Rightarrow> bool" where
  "chain_rel R NULL_INJECTOR NULL_INJECTOR = True"
| "chain_rel R (StaticInjector a records parent) (StaticInjector a' records' parent') =
     (a = a' \<and> registry_rel (\<lambda>k. R) records records' \<and> chain_rel R parent parent')"
| "chain_rel R _ _ = False"

text \<open>No record of the registry, or of the scope and its ancestors, is marked in progress
  (holds \<^verbatim>\<open>CIRCULAR\<close>).\<close>

definition no_circular :: "Records \<Rightarrow> bool" where
  "no_circular records =
     (\<forall>k \<in> set (map fst records). map_option r_value (map_of records k) \<noteq> Some CIRCULAR)"

fun clean :: "injector \<Rightarrow> bool" where
  "clean NULL_INJECTOR = True"
| "clean (StaticInjector a records parent) = (no_circular records \<and> clean parent)"

text \<open>The slot of the record stored under a key, \<open>d\<close> scopes up the parent chain.\<close>

fun slot_at :: "injector \<Rightarrow> nat \<Rightarrow> ident \<Rightarrow> slot option" where
  "slot_at NULL_INJECTOR d k = None"
| "slot_at (StaticInjector a records parent) 0 k = map_option r_value (map_of records k)"
| "slot_at (StaticInjector a records parent) (Suc d) k = slot_at parent d k"

subsection \<open>Re-entering a record in progress\<close>

text \<open>
  \<open>reenters app records parent h rid\<close>: resolving the unresolved record under \<open>rid\<close>,
  from the given state, runs into a record that is in progress.  The record is marked;
  its dependencies before the \<open>j\<close>-th resolve; the \<open>j\<close>-th is looked up in the registry
  itself, and its record is in progress (\<open>hit\<close>) or its resolution, in turn, runs into
  one (\<open>via\<close>).  With no record in progress at the start, the records in progress are
  those whose resolution has begun and not completed.
\<close>

inductive reenters :: "app \<Rightarrow> Records \<Rightarrow> injector \<Rightarrow> nat \<Rightarrow> ident \<Rightarrow> bool" for app where
  hit: "\<lbrakk>map_of records rid = Some r; r_value r = EMPTY; j < length (r_deps r);
         resolveDeps n app (take j (r_deps r)) (set_value records rid CIRCULAR) parent h
           = Some (Inr vs, records1, parent1, h1);
         options (r_deps r ! j) AND OPT_CHECK_SELF \<noteq> 0;
         map_of records1 (dep_id (r_deps r ! j)) = Some r';
         r_value r' = CIRCULAR\<rbrakk>
        \<Longrightarrow> reenters app records parent h rid"
| via: "\<lbrakk>map_of records rid = Some r; r_value r = EMPTY; j < length (r_deps r);
         resolveDeps n app (take j (r_deps r)) (set_value records rid CIRCULAR) parent h
           = Some (Inr vs, records1, parent1, h1);
         options (r_deps r ! j) AND OPT_CHECK_SELF \<noteq> 0;
         reenters app records1 parent1 h1 (dep_id (r_deps r ! j))\<rbrakk>
        \<Longrightarrow> reenters app records parent h rid"

text \<open>The scope or one of its ancestors has a record under the key.\<close>

fun has_provider :: "injector \<Rightarrow> ident \<Rightarrow> bool" where
  "has_provider NULL_INJECTOR k = False"
| "has_provider (StaticInjector a records parent) k = (map_of records k \<noteq> None \<or> has_provider parent k)"

text \<open>
  Some description in the (nested) list has the token under its \<^verbatim>\<open>provide\<close> key and
  is flagged \<^verbatim>\<open>multi: true\<close> (\<open>b = True\<close>) or is not (\<open>b = False\<close>).
\<close>

fun registers :: "bool \<Rightarrow> token \<Rightarrow> provider \<Rightarrow> bool" where
  "registers b t (PArray ps) = (\<exists>p \<in> set ps. registers b t p)"
| "registers b t (PObject provider) = (provide provider = Some t \<and> multi provider = b)"
| "registers b t _ = False"

text \<open>
  Every entry is one the builder accepts when it meets it alone: a falsy value, a list of
  such entries, or an object with a truthy token under \<^verbatim>\<open>provide\<close> from which
  \<^verbatim>\<open>resolveProvider\<close> builds a record.
\<close>

fun acceptable :: "provider \<Rightarrow> bool" where
  "acceptable (PArray ps) = (\<forall>p \<in> set ps. acceptable p)"
| "acceptable (PObject provider) =
     (case provide provider of
        None \<Rightarrow> False
      | Some t \<Rightarrow> truthy t \<and> (case resolveProvider provider of Inl _ \<Rightarrow> False | Inr _ \<Rightarrow> True))"
| "acceptable (PFunction f) = False"
| "acceptable (PTruthyPrimitive v) = False"
| "acceptable p = True"

text \<open>What the registry holds under the key of a token: nothing, the placeholder of a
  multi provider (\<open>Some True\<close>) or a regular record (\<open>Some False\<close>).\<close>

definition kind :: "Records \<Rightarrow> token \<Rightarrow> bool option" where
  "kind records t = map_option (\<lambda>r. r_fn r = MULTI_PROVIDER_FN) (map_of records (Key t))"

text \<open>The descriptions of a (nested) provider list, in the order the builder meets them.\<close>

fun descriptions :: "provider \<Rightarrow> providerObj list" where
  "descriptions (PArray ps) = concat (map descriptions ps)"
| "descriptions (PObject provider) = [provider]"
| "descriptions _ = []"

text \<open>The descriptions that contribute to the multi provider of a token.\<close>

definition contributions :: "token \<Rightarrow> provider \<Rightarrow> providerObj list" where
  "contributions t p = filter (\<lambda>provider. provide provider = Some t \<and> multi provider) (descriptions p)"

text \<open>The dependency list of the placeholder of a multi provider with \<open>n\<close> contributions.\<close>

definition multi_deps :: "token \<Rightarrow> nat \<Rightarrow> DependencyRecord list" where
  "multi_deps t n = map (\<lambda>i. \<lparr>dep_id = MultiKey i (Key t), dep_token = t, options = OPT_DEFAULT\<rparr>) [0..<n]"

text \<open>
  What the registry holds for a token once the contributions \<open>ms\<close> have been processed:
  the placeholder with one dependency per contribution, and under the \<open>i\<close>-th private
  key the record built from the \<open>i\<close>-th contribution.
\<close>

definition multi_registered :: "token \<Rightarrow> Records \<Rightarrow> providerObj list \<Rightarrow> bool" where
  "multi_registered t records ms =
     ((ms = [] \<longrightarrow> \<not> holds_multi records (Key t))
    \<and> (ms \<noteq> [] \<longrightarrow> map_of records (Key t)
          = Some \<lparr>r_token = t, r_fn = MULTI_PROVIDER_FN, r_useNew = False,
                  r_deps = multi_deps t (length ms), r_value = EMPTY\<rparr>)
    \<and> (\<forall>i < length ms. \<exists>r. resolveProvider (ms ! i) = Inr r
                            \<and> map_of records (MultiKey i (Key t)) = Some r))"

fun records_of :: "injector \<Rightarrow> Records" where
  "records_of NULL_INJECTOR = []"
| "records_of (StaticInjector a records parent) = records"

subsection \<open>The values of the contributions to a multi provider\<close>

text \<open>
  Resolving the records of a list of references one after the other, each within \<open>k\<close>
  nested calls and from the state the one before has left: the values, in the order of
  the list, and the final state; \<open>None\<close> when one of them does not resolve to a value.
\<close>

fun resolve_each :: "nat \<Rightarrow> app \<Rightarrow> DependencyRecord list \<Rightarrow> Records \<Rightarrow> injector \<Rightarrow> nat
                       \<Rightarrow> (val list \<times> Records \<times> injector \<times> nat) option" where
  "resolve_each k app [] records parent h = Some ([], records, parent, h)"
| "resolve_each k app (d # ds) records parent h =
     (case tryResolveToken k app (dep_token d) (Some (dep_id d)) records parent THROW_IF_NOT_FOUND h of
        None \<Rightarrow> None
      | Some (Inl e, st) \<Rightarrow> None
      | Some (Inr v, records1, parent1, h1) \<Rightarrow>
          (case resolve_each k app ds records1 parent1 h1 of
             None \<Rightarrow> None
           | Some (vs, st) \<Rightarrow> Some (v # vs, st)))"

text \<open>
  The value of a record whose recipe needs no other token, read off the recipe, with the
  next free object reference: the value given with \<^verbatim>\<open>useValue\<close>, what the factory
  returns on no arguments, or the new instance of the class (what its constructor
  returns, when it returns something).  There is none when the function throws, and none
  for a given value that the test \<^verbatim>\<open>== CIRCULAR\<close> takes for the in-progress mark.
\<close>

fun direct_value :: "app \<Rightarrow> Record \<Rightarrow> nat \<Rightarrow> (val \<times> nat) option" where
  "direct_value app r h =
     (case r_value r of
        Resolved w \<Rightarrow> if w = VStringOfIDENT then None else Some (w, h)
      | CIRCULAR \<Rightarrow> None
      | EMPTY \<Rightarrow>
          (case (r_fn r, r_deps r) of
             (UserFn f, []) \<Rightarrow>
               if r_useNew r
               then (case app f (VObject h) [] of
                       Inl t \<Rightarrow> None
                     | Inr v \<Rightarrow> Some (if v = VUndefined then VObject h else v, Suc h))
               else (case app f VUndefined [] of
                       Inl t \<Rightarrow> None
                     | Inr v \<Rightarrow> Some (v, h))
           | _ \<Rightarrow> None))"

fun direct_values :: "app \<Rightarrow> Record list \<Rightarrow> nat \<Rightarrow> (val list \<times> nat) option" where
  "direct_values app [] h = Some ([], h)"
| "direct_values app (r # rs) h =
     (case direct_value app r h of
        None \<Rightarrow> None
      | Some (v, h1) \<Rightarrow>
          (case direct_values app rs h1 of
             None \<Rightarrow> None
           | Some (vs, h2) \<Rightarrow> Some (v # vs, h2)))"

section \<open>Verification\<close>

subsection \<open>Registries as finite maps\<close>

lemma eq_CIRCULAR_simps [simp]:
  "eq_CIRCULAR CIRCULAR" "\<not> eq_CIRCULAR EMPTY" "eq_CIRCULAR (Resolved v) \<longleftrightarrow> v = VStringOfIDENT"
  by (simp_all add: eq_CIRCULAR_def)

lemma keys_map_entry: "map fst (AList.map_entry k f xs) = map fst xs"
  by (induction xs) auto

lemma keys_set_value [simp]: "map fst (set_value records rid v) = map fst records"
  by (simp add: set_value_def keys_map_entry)

lemma map_of_set_value:
  "map_of (set_value records rid v) k =
     (if k = rid then map_option (\<lambda>r. r\<lparr>r_value := v\<rparr>) (map_of records rid) else map_of records k)"
  by (simp add: set_value_def map_of_map_entry split: option.splits)

subsection \<open>Falsy entries of a provider list\<close>

lemma processArray_append:
  "processArray records (xs @ ys) =
     (case processArray records xs of Inl e \<Rightarrow> Inl e | Inr records' \<Rightarrow> processArray records' ys)"
  by (induction xs arbitrary: records) (auto split: sum.splits)

lemma falsy_skipped: "falsy p \<Longrightarrow> recursivelyProcessProviders records p = Inr records"
  by (cases p) simp_all

text \<open>
  C10.  A falsy entry of a provider list is skipped: processing it returns the registry
  as it was and raises nothing, so a list with the entry builds what the list without it
  builds.  Every truthy entry that is not an array, not a function and not an object with
  a \<^verbatim>\<open>provide\<close> key is rejected with "Unexpected provider".
\<close>

theorem falsy_entry_skipped:
  "(falsy p \<longrightarrow>
      recursivelyProcessProviders records p = Inr records
    \<and> processArray records (xs @ p # ys) = processArray records (xs @ ys)
    \<and> new_StaticInjector this (PArray (xs @ p # ys)) parent
        = new_StaticInjector this (PArray (xs @ ys)) parent)
 \<and> (\<not> falsy p \<and> \<not> is_array p \<and> \<not> is_function p \<and> \<not> has_provide_key p \<longrightarrow>
      recursivelyProcessProviders records p = Inl (newError (UnexpectedProvider p)))"
proof (intro conjI impI)
  assume f: "falsy p"
  show "recursivelyProcessProviders records p = Inr records"
    using f by (rule falsy_skipped)
  have a: "processArray r (xs @ p # ys) = processArray r (xs @ ys)" for r
    by (simp add: processArray_append falsy_skipped [OF f] split: sum.splits)
  show "processArray records (xs @ p # ys) = processArray records (xs @ ys)"
    by (rule a)
  show "new_StaticInjector this (PArray (xs @ p # ys)) parent
        = new_StaticInjector this (PArray (xs @ ys)) parent"
    by (simp add: new_StaticInjector_def getId_def Injector_def a)
next
  assume "\<not> falsy p \<and> \<not> is_array p \<and> \<not> is_function p \<and> \<not> has_provide_key p"
  then show "recursivelyProcessProviders records p = Inl (newError (UnexpectedProvider p))"
    by (cases p) auto
qed

theorem falsy_entry_skipped_witness:
  "falsy PNull
   \<and> recursivelyProcessProviders [] PNull = Inr []
   \<and> processArray [] ([PZero] @ PNull # [PFalse]) = processArray [] ([PZero] @ [PFalse])
   \<and> new_StaticInjector 1 (PArray ([] @ PNull # [])) NULL_INJECTOR
        = new_StaticInjector 1 (PArray ([] @ [])) NULL_INJECTOR
   \<and> \<not> falsy (PTruthyPrimitive (VNumber 5)) \<and> \<not> is_array (PTruthyPrimitive (VNumber 5))
   \<and> \<not> is_function (PTruthyPrimitive (VNumber 5)) \<and> \<not> has_provide_key (PTruthyPrimitive (VNumber 5))
   \<and> recursivelyProcessProviders [] (PTruthyPrimitive (VNumber 5))
        = Inl (newError (UnexpectedProvider (PTruthyPrimitive (VNumber 5))))"
  using falsy_entry_skipped [of PNull "[]" "[PZero]" "[PFalse]" 1 NULL_INJECTOR]
        falsy_entry_skipped [of PNull "[]" "[]" "[]" 1 NULL_INJECTOR]
        falsy_entry_skipped [of "PTruthyPrimitive (VNumber 5)" "[]"]
  by simp

subsection \<open>The scope itself as a token\<close>


lemma getId_Inr: "getId t = Inr rid \<Longrightarrow> rid = Key t"
  by (auto simp: getId_def split: if_splits)

lemma processProvider_other_key:
  "processProvider records provider token = Inr records' \<Longrightarrow> token \<noteq> t
     \<Longrightarrow> map_of records' (Key t) = map_of records (Key t)"
  by (auto simp: processProvider_def Let_def update_conv' map_of_map_entry
           split: sum.splits if_splits option.splits dest!: getId_Inr)

lemma rpp_other_key:
  "recursivelyProcessProviders records p = Inr records' \<Longrightarrow> \<not> provides t p
     \<Longrightarrow> map_of records' (Key t) = map_of records (Key t)"
  and processArray_other_key: "processArray records ps = Inr records' \<Longrightarrow> \<not> provides t (PArray ps)
     \<Longrightarrow> map_of records' (Key t) = map_of records (Key t)"
proof (induction records p and records ps arbitrary: records' and records'
        rule: recursivelyProcessProviders_processArray.induct)
qed (auto split: sum.splits option.splits dest: processProvider_other_key)

text \<open>
  The record the constructor seeds: for a scope created from a provider list in which no
  description has \<^verbatim>\<open>Injector\<close> under its \<^verbatim>\<open>provide\<close> key, \<^verbatim>\<open>get(Injector)\<close> succeeds
  whatever fallback is given, returns the scope itself and changes nothing.
\<close>

lemma injector_token_resolves_to_scope:
  assumes "create this ps parent = Inr scope"
      and "\<not> provides Injector (PArray ps)"
  shows "injector_get (Suc (Suc (Suc n))) app scope Injector notFoundValue h
           = Some (Inr (VInjector this), scope, h)"
proof -
  obtain records where r: "recursivelyProcessProviders
       [(Key Injector, \<lparr>r_token = Injector, r_fn = IDENT, r_useNew = False, r_deps = [],
                         r_value = Resolved (VInjector this)\<rparr>)] (PArray ps) = Inr records"
    and i: "scope = StaticInjector this records (case parent of None \<Rightarrow> NULL_INJECTOR | Some p \<Rightarrow> p)"
    using assms(1)
    by (auto simp: create_def new_StaticInjector_def getId_def Injector_def split: sum.splits)
  have "map_of records (Key Injector) = Some \<lparr>r_token = Injector, r_fn = IDENT, r_useNew = False, r_deps = [],
                         r_value = Resolved (VInjector this)\<rparr>"
    using rpp_other_key [OF r assms(2)] by simp
  then show ?thesis
    by (simp add: i getId_def Injector_def lookup_record_def)
qed

lemma injector_token_resolves_to_scope_example:
  "create 7 [PNull, PObject \<lparr>provide = Some (TString ''A''), useValue = Some (VNumber 1),
               useFactory = None, useExisting = None, useClass = None, deps = None, multi = False\<rparr>] None
     = Inr (StaticInjector 7
         [(Key Injector, \<lparr>r_token = Injector, r_fn = IDENT, r_useNew = False, r_deps = [],
                         r_value = Resolved (VInjector 7)\<rparr>),
          (Key (TString ''A''), \<lparr>r_token = TString ''A'', r_fn = IDENT, r_useNew = False, r_deps = [],
                         r_value = Resolved (VNumber 1)\<rparr>)] NULL_INJECTOR)
   \<and> \<not> provides Injector (PArray [PNull, PObject \<lparr>provide = Some (TString ''A''), useValue = Some (VNumber 1),
               useFactory = None, useExisting = None, useClass = None, deps = None, multi = False\<rparr>])
   \<and> injector_get (Suc (Suc (Suc 0))) (\<lambda>f this args. Inr VUndefined)
        (StaticInjector 7
         [(Key Injector, \<lparr>r_token = Injector, r_fn = IDENT, r_useNew = False, r_deps = [],
                         r_value = Resolved (VInjector 7)\<rparr>),
          (Key (TString ''A''), \<lparr>r_token = TString ''A'', r_fn = IDENT, r_useNew = False, r_deps = [],
                         r_value = Resolved (VNumber 1)\<rparr>)] NULL_INJECTOR) Injector VUndefined 0
      = Some (Inr (VInjector 7), StaticInjector 7
         [(Key Injector, \<lparr>r_token = Injector, r_fn = IDENT, r_useNew = False, r_deps = [],
                         r_value = Resolved (VInjector 7)\<rparr>),
          (Key (TString ''A''), \<lparr>r_token = TString ''A'', r_fn = IDENT, r_useNew = False, r_deps = [],
                         r_value = Resolved (VNumber 1)\<rparr>)] NULL_INJECTOR, 0)"
proof -
  have c: "create 7 [PNull, PObject \<lparr>provide = Some (TString ''A''), useValue = Some (VNumber 1),
               useFactory = None, useExisting = None, useClass = None, deps = None, multi = False\<rparr>] None
     = Inr (StaticInjector 7
         [(Key Injector, \<lparr>r_token = Injector, r_fn = IDENT, r_useNew = False, r_deps = [],
                         r_value = Resolved (VInjector 7)\<rparr>),
          (Key (TString ''A''), \<lparr>r_token = TString ''A'', r_fn = IDENT, r_useNew = False, r_deps = [],
                         r_value = Resolved (VNumber 1)\<rparr>)] NULL_INJECTOR)"
    by (simp add: create_def new_StaticInjector_def getId_def Injector_def processProvider_def
          resolveProvider_def computeDeps_def holds_multi_def)
  have p: "\<not> provides Injector (PArray [PNull, PObject \<lparr>provide = Some (TString ''A''), useValue = Some (VNumber 1),
               useFactory = None, useExisting = None, useClass = None, deps = None, multi = False\<rparr>])"
    by (simp add: Injector_def)
  show ?thesis
    using c p injector_token_resolves_to_scope [OF c p, of 0 "\<lambda>f this args. Inr VUndefined" VUndefined 0]
    by simp
qed

text \<open>
  C4.  \<^verbatim>\<open>get(Injector)\<close> is to return the scope itself for every scope (the source's own
  description of \<^verbatim>\<open>Injector\<close> says so, and the constructor seeds a record for it).  The
  record is seeded before the provider list is processed, and the builder then lets a
  description for \<^verbatim>\<open>Injector\<close> overwrite it: the scope built from
  \<^verbatim>\<open>[{provide: Injector, useValue: 42}]\<close> answers \<^verbatim>\<open>get(Injector)\<close> with \<open>42\<close>, not with
  itself.
\<close>

theorem injector_token_overridden:
  "create 7 [PObject \<lparr>provide = Some Injector, useValue = Some (VNumber 42),
               useFactory = None, useExisting = None, useClass = None, deps = None, multi = False\<rparr>] None
     = Inr (StaticInjector 7
         [(Key Injector, \<lparr>r_token = Injector, r_fn = IDENT, r_useNew = False, r_deps = [],
                         r_value = Resolved (VNumber 42)\<rparr>)] NULL_INJECTOR)
   \<and> injector_get (Suc (Suc (Suc 0))) (\<lambda>f this args. Inr VUndefined)
        (StaticInjector 7
         [(Key Injector, \<lparr>r_token = Injector, r_fn = IDENT, r_useNew = False, r_deps = [],
                         r_value = Resolved (VNumber 42)\<rparr>)] NULL_INJECTOR) Injector VUndefined 0
      = Some (Inr (VNumber 42), StaticInjector 7
         [(Key Injector, \<lparr>r_token = Injector, r_fn = IDENT, r_useNew = False, r_deps = [],
                         r_value = Resolved (VNumber 42)\<rparr>)] NULL_INJECTOR, 0)
   \<and> VNumber 42 \<noteq> VInjector 7"
  by (simp add: create_def new_StaticInjector_def getId_def Injector_def processProvider_def
          resolveProvider_def computeDeps_def holds_multi_def lookup_record_def)

subsection \<open>More fuel changes no result\<close>


lemma fuel_mono_try:
  "tryResolveToken n app token rcd records parent nfv h = Some x \<Longrightarrow> n \<le> m
     \<Longrightarrow> tryResolveToken m app token rcd records parent nfv h = Some x"
  and fuel_mono_resolve: "resolveToken n app token rcd records parent nfv h = Some x \<Longrightarrow> n \<le> m
     \<Longrightarrow> resolveToken m app token rcd records parent nfv h = Some x"
  and fuel_mono_deps: "resolveDeps n app ds records parent h = Some y \<Longrightarrow> n \<le> m
     \<Longrightarrow> resolveDeps m app ds records parent h = Some y"
  and fuel_mono_get: "injector_get n app scope token nfv h = Some z \<Longrightarrow> n \<le> m
     \<Longrightarrow> injector_get m app scope token nfv h = Some z"
proof (induction n arbitrary: m token rcd records parent nfv h x ds y scope z)
  case 0
  { case 1 then show ?case by simp
  next case 2 then show ?case by simp
  next case 3 then show ?case by simp
  next case 4 then show ?case by simp }
next
  case (Suc n)
  { case 1
    from "1.prems"(2) obtain m' where m: "m = Suc m'" "n \<le> m'" by (cases m) auto
    from "1.prems"(1) obtain w where a: "resolveToken n app token rcd records parent nfv h = Some w"
      by (auto split: option.splits)
    have b: "resolveToken m' app token rcd records parent nfv h = Some w"
      using Suc.IH(2) [OF a m(2)] .
    show ?case using "1.prems"(1) a b by (simp add: m)
  next
    case 2
    from "2.prems"(2) obtain m' where m: "m = Suc m'" "n \<le> m'" by (cases m) auto
    show ?case
    proof (cases rcd)
      case None
      from "2.prems"(1) None obtain w where a: "injector_get n app parent token nfv h = Some w"
        by (auto split: option.splits)
      have b: "injector_get m' app parent token nfv h = Some w"
        using Suc.IH(4) [OF a m(2)] .
      show ?thesis using "2.prems"(1) a b None by (simp add: m)
    next
      case (Some rid)
      show ?thesis
      proof (cases "map_of records rid")
        case None
        then show ?thesis using "2.prems"(1) Some by simp
      next
        case r: (Some r)
        show ?thesis
        proof (cases "r_value r")
          case EMPTY
          from "2.prems"(1) Some r EMPTY obtain w where
            a: "resolveDeps n app (r_deps r) (set_value records rid CIRCULAR) parent h = Some w"
            by (auto split: option.splits)
          have b: "resolveDeps m' app (r_deps r) (set_value records rid CIRCULAR) parent h = Some w"
            using Suc.IH(3) [OF a m(2)] .
          show ?thesis using "2.prems"(1) a b Some r EMPTY by (simp add: m)
        next
          case CIRCULAR
          then show ?thesis using "2.prems"(1) Some r by (simp add: m)
        next
          case (Resolved v)
          then show ?thesis using "2.prems"(1) Some r by (simp add: m split: if_splits)
        qed
      qed
    qed
  next
    case 3
    from "3.prems"(2) obtain m' where m: "m = Suc m'" "n \<le> m'" by (cases m) auto
    show ?case
    proof (cases ds)
      case Nil
      then show ?thesis using "3.prems"(1) by (simp add: m)
    next
      case (Cons d rest)
      define childRecord where "childRecord =
         (if options d AND OPT_CHECK_SELF \<noteq> 0 then lookup_record records (dep_id d) else None)"
      define useNull where "useNull = (childRecord = None \<and> options d AND OPT_CHECK_PARENT = 0)"
      define nfv' where "nfv' = (if options d AND OPT_OPTIONAL \<noteq> 0 then VNull else THROW_IF_NOT_FOUND)"
      define p where "p = (if useNull then NULL_INJECTOR else parent)"
      note defs = childRecord_def [symmetric] useNull_def [symmetric] nfv'_def [symmetric] p_def [symmetric]
      from "3.prems"(1) Cons obtain w where
        a: "tryResolveToken n app (dep_token d) childRecord records p nfv' h = Some w"
        by (auto simp: Let_def defs split: option.splits)
      have b: "tryResolveToken m' app (dep_token d) childRecord records p nfv' h = Some w"
        using Suc.IH(1) [OF a m(2)] .
      obtain res records' parent' h' where w: "w = (res, records', parent', h')" by (cases w) auto
      show ?thesis
      proof (cases res)
        case (Inl e)
        then show ?thesis using "3.prems"(1) a b Cons w by (simp add: m Let_def defs)
      next
        case (Inr v)
        from "3.prems"(1) Cons a w Inr obtain w2 where
          a2: "resolveDeps n app rest records' (if useNull then parent else parent') h' = Some w2"
          by (auto simp: Let_def defs split: option.splits)
        have b2: "resolveDeps m' app rest records' (if useNull then parent else parent') h' = Some w2"
          using Suc.IH(3) [OF a2 m(2)] .
        show ?thesis using "3.prems"(1) a b a2 b2 Cons w Inr by (simp add: m Let_def defs)
      qed
    qed
  next
    case 4
    from "4.prems"(2) obtain m' where m: "m = Suc m'" "n \<le> m'" by (cases m) auto
    show ?case
    proof (cases scope)
      case NULL_INJECTOR
      then show ?thesis using "4.prems"(1) by (simp add: m)
    next
      case (StaticInjector a records parent)
      show ?thesis
      proof (cases "getId token")
        case (Inl e)
        then show ?thesis using "4.prems"(1) StaticInjector by (simp add: m)
      next
        case (Inr rid)
        from "4.prems"(1) StaticInjector Inr obtain w where
          a: "tryResolveToken n app token (lookup_record records rid) records parent nfv h = Some w"
          by (auto split: option.splits)
        have b: "tryResolveToken m' app token (lookup_record records rid) records parent nfv h = Some w"
          using Suc.IH(1) [OF a m(2)] .
        show ?thesis using "4.prems"(1) a b StaticInjector Inr by (simp add: m)
      qed
    qed
  }
qed

subsection \<open>What a resolution does to the records\<close>


lemma fills_refl [simp]: "fills r r"
  by (simp add: fills_def)

lemma fills_imp_clears: "fills r r' \<Longrightarrow> fills_or_clears r r'"
  by (simp add: fills_or_clears_def)

lemma registry_rel_refl: "(\<And>k r. R k r r) \<Longrightarrow> registry_rel R records records"
  by (simp add: registry_rel_def option.rel_refl)

lemma registry_rel_mono:
  "registry_rel R records records' \<Longrightarrow> (\<And>k r r'. R k r r' \<Longrightarrow> S k r r') \<Longrightarrow> registry_rel S records records'"
  unfolding registry_rel_def by (metis option.rel_mono_strong)

lemma registry_rel_trans:
  assumes "registry_rel R a b" "registry_rel S b c"
    and "\<And>k x y z. R k x y \<Longrightarrow> S k y z \<Longrightarrow> T k x z"
  shows "registry_rel T a c"
  unfolding registry_rel_def
proof
  fix k
  from assms(1,2) have "rel_option (R k) (map_of a k) (map_of b k)" "rel_option (S k) (map_of b k) (map_of c k)"
    by (simp_all add: registry_rel_def)
  then show "rel_option (T k) (map_of a k) (map_of c k)"
    using assms(3) by (cases "map_of a k"; cases "map_of b k"; cases "map_of c k") auto
qed

lemma fills_trans: "fills x y \<Longrightarrow> fills y z \<Longrightarrow> fills x z"
  by (auto simp: fills_def)

lemma fills_then_clears: "fills x y \<Longrightarrow> fills_or_clears y z \<Longrightarrow> fills_or_clears x z"
  by (auto simp: fills_def fills_or_clears_def)

lemma chain_rel_refl: "(\<And>r. R r r) \<Longrightarrow> chain_rel R p p"
  by (induction p) (simp_all add: registry_rel_refl)

lemma chain_rel_mono: "chain_rel R p p' \<Longrightarrow> (\<And>r r'. R r r' \<Longrightarrow> S r r') \<Longrightarrow> chain_rel S p p'"
  by (induction R p p' rule: chain_rel.induct) (auto intro: registry_rel_mono)

lemma chain_rel_trans:
  "chain_rel R a b \<Longrightarrow> chain_rel S b c \<Longrightarrow> (\<And>x y z. R x y \<Longrightarrow> S y z \<Longrightarrow> T x z) \<Longrightarrow> chain_rel T a c"
proof (induction R a b arbitrary: c rule: chain_rel.induct)
  case (1 R)
  then show ?case by (cases c) auto
next
  case (2 R a records parent a' records' parent')
  then show ?case
    by (cases c) (auto intro: registry_rel_trans [where R="\<lambda>k. R" and S = "\<lambda>k. S"])
qed auto

text \<open>The three writes of the resolver.\<close>

lemma resolve_success_rel:
  assumes "map_of records rid = Some r" "r_value r = EMPTY"
    and "registry_rel (\<lambda>k. fills) (set_value records rid CIRCULAR) records1"
  shows "registry_rel (\<lambda>k. fills) records (set_value records1 rid (Resolved v))"
  unfolding registry_rel_def
proof
  fix k
  from assms(3) have a: "rel_option fills (map_of (set_value records rid CIRCULAR) k) (map_of records1 k)"
    by (simp add: registry_rel_def)
  show "rel_option fills (map_of records k) (map_of (set_value records1 rid (Resolved v)) k)"
  proof (cases "k = rid")
    case True
    from a True assms(1) obtain r1 where r1: "map_of records1 rid = Some r1" "fills (r\<lparr>r_value := CIRCULAR\<rparr>) r1"
      by (cases "map_of records1 rid") (auto simp: map_of_set_value)
    from r1(2) have "r1 = r\<lparr>r_value := CIRCULAR\<rparr>" by (auto simp: fills_def)
    then show ?thesis using True assms(1,2) r1(1)
      by (auto simp: map_of_set_value fills_def)
  next
    case False
    then show ?thesis using a by (simp add: map_of_set_value)
  qed
qed

lemma resolve_failure_rel:
  assumes "map_of records rid = Some r" "r_value r = EMPTY"
    and "registry_rel (\<lambda>k. fills_or_clears) (set_value records rid CIRCULAR) records1"
  shows "registry_rel (\<lambda>k. if k = rid then fills_clears_or_marks else fills_or_clears) records records1"
  unfolding registry_rel_def
proof
  fix k
  from assms(3) have a: "rel_option fills_or_clears (map_of (set_value records rid CIRCULAR) k) (map_of records1 k)"
    by (simp add: registry_rel_def)
  show "rel_option (if k = rid then fills_clears_or_marks else fills_or_clears) (map_of records k) (map_of records1 k)"
  proof (cases "k = rid")
    case True
    from a True assms(1) obtain r1 where r1: "map_of records1 rid = Some r1" "fills_or_clears (r\<lparr>r_value := CIRCULAR\<rparr>) r1"
      by (cases "map_of records1 rid") (auto simp: map_of_set_value)
    from r1(2) assms(2) have "r1 = r\<lparr>r_value := CIRCULAR\<rparr> \<or> r1 = r"
      by (cases r) (auto simp: fills_def fills_or_clears_def)
    then show ?thesis using True assms(1,2) r1(1)
      by (auto simp: fills_clears_or_marks_def fills_or_clears_def)
  next
    case False
    then show ?thesis using a by (simp add: map_of_set_value)
  qed
qed

lemma try_failure_rel:
  assumes "registry_rel (\<lambda>k. if Some k = rcd then fills_clears_or_marks else fills_or_clears) records records1"
  shows "registry_rel (\<lambda>k. fills_or_clears) records
           (if is_circular records1 rcd then set_value records1 (the rcd) EMPTY else records1)"
  unfolding registry_rel_def
proof
  fix k
  from assms have a: "rel_option (if Some k = rcd then fills_clears_or_marks else fills_or_clears)
                        (map_of records k) (map_of records1 k)"
    by (simp add: registry_rel_def)
  show "rel_option fills_or_clears (map_of records k)
          (map_of (if is_circular records1 rcd then set_value records1 (the rcd) EMPTY else records1) k)"
  proof (cases "Some k = rcd")
    case True
    show ?thesis
    proof (cases "map_of records k")
      case None
      then show ?thesis using a True by (cases "map_of records1 k") (auto simp: is_circular_def)
    next
      case (Some r)
      with a True obtain r1 where r1: "map_of records1 k = Some r1" "fills_clears_or_marks r r1"
        by (cases "map_of records1 k") auto
      show ?thesis using True [symmetric] Some r1
        by (cases r) (auto simp: is_circular_def map_of_set_value fills_clears_or_marks_def
              fills_or_clears_def fills_def)
    qed
  next
    case False
    then have "rcd = Some k' \<Longrightarrow> k' \<noteq> k" for k' by auto
    then show ?thesis using a False
      by (cases rcd) (auto simp: map_of_set_value is_circular_def)
  qed
qed


lemma fills_or_clears_refl [simp]: "fills_or_clears r r"
  by (simp add: fills_or_clears_def)

lemma fills_clears_or_marks_refl [simp]: "fills_clears_or_marks r r"
  by (simp add: fills_clears_or_marks_def)

lemma resolver_rel_try:
  "tryResolveToken n app token rcd records parent nfv h = Some (res, records', parent', h')
     \<Longrightarrow> registry_rel (\<lambda>k. if isl res then fills_or_clears else fills) records records'
       \<and> chain_rel (if isl res then fills_or_clears else fills) parent parent'"
  and resolver_rel_resolve: "resolveToken n app token rcd records parent nfv h = Some (res, records', parent', h')
     \<Longrightarrow> registry_rel (\<lambda>k. if isl res then (if Some k = rcd then fills_clears_or_marks else fills_or_clears)
                            else fills) records records'
       \<and> chain_rel (if isl res then fills_or_clears else fills) parent parent'"
  and resolver_rel_deps: "resolveDeps n app ds records parent h = Some (resl, records', parent', h')
     \<Longrightarrow> registry_rel (\<lambda>k. if isl resl then fills_or_clears else fills) records records'
       \<and> chain_rel (if isl resl then fills_or_clears else fills) parent parent'"
  and resolver_rel_get: "injector_get n app scope token nfv h = Some (res, scope', h')
     \<Longrightarrow> chain_rel (if isl res then fills_or_clears else fills) scope scope'"
proof (induction n arbitrary: token rcd records parent nfv h res records' parent' h' ds resl scope scope')
  case 0
  { case 1 then show ?case by simp
  next case 2 then show ?case by simp
  next case 3 then show ?case by simp
  next case 4 then show ?case by simp }
next
  case (Suc n)
  { case 1
    from "1.prems" obtain w where a: "resolveToken n app token rcd records parent nfv h = Some w"
      by (auto split: option.splits)
    obtain res1 records1 parent1 h1 where w: "w = (res1, records1, parent1, h1)" by (cases w) auto
    note ih = Suc.IH(2) [OF a [unfolded w]]
    show ?case
    proof (cases res1)
      case (Inl e)
      with "1.prems" a w have r: "isl res" "parent' = parent1"
        "records' = (if is_circular records1 rcd then set_value records1 (the rcd) EMPTY else records1)"
        by (auto simp: Let_def)
      from ih Inl have "registry_rel (\<lambda>k. if Some k = rcd then fills_clears_or_marks else fills_or_clears) records records1"
        and c: "chain_rel fills_or_clears parent parent1" by simp_all
      from try_failure_rel [OF this(1)] c show ?thesis using r by simp
    next
      case (Inr v)
      with "1.prems" a w have "res = Inr v" "parent' = parent1" "records' = records1" by auto
      with ih Inr show ?thesis by simp
    qed
  next
    case 2
    show ?case
    proof (cases rcd)
      case None
      from "2.prems" None obtain w where a: "injector_get n app parent token nfv h = Some w"
        by (auto split: option.splits)
      obtain res1 parent1 h1 where w: "w = (res1, parent1, h1)" by (cases w) auto
      from "2.prems" None a w have e: "res = res1" "records' = records" "parent' = parent1" by auto
      show ?thesis using Suc.IH(4) [OF a [unfolded w]] e None
        by (auto intro!: registry_rel_refl)
    next
      case (Some rid)
      show ?thesis
      proof (cases "map_of records rid")
        case None
        then show ?thesis using "2.prems" Some by simp
      next
        case r: (Some r)
        show ?thesis
        proof (cases "r_value r")
          case EMPTY
          from "2.prems" Some r EMPTY obtain w where
            a: "resolveDeps n app (r_deps r) (set_value records rid CIRCULAR) parent h = Some w"
            by (auto split: option.splits)
          obtain res1 records1 parent1 h1 where w: "w = (res1, records1, parent1, h1)" by (cases w) auto
          note ih = Suc.IH(3) [OF a [unfolded w]]
          show ?thesis
          proof (cases res1)
            case (Inl e)
            with "2.prems" Some r EMPTY a w have e: "isl res" "records' = records1" "parent' = parent1"
              by auto
            from ih Inl have "registry_rel (\<lambda>k. fills_or_clears) (set_value records rid CIRCULAR) records1"
              and c: "chain_rel fills_or_clears parent parent1" by simp_all
            from resolve_failure_rel [OF r EMPTY this(1)] c show ?thesis using e Some
              by (auto simp: eq_commute [of "Some _" "Some rid"] cong: if_cong)
          next
            case (Inr vs)
            from ih Inr have i: "registry_rel (\<lambda>k. fills) (set_value records rid CIRCULAR) records1"
              and c: "chain_rel fills parent parent1" by simp_all
            show ?thesis
            proof (cases res)
              case (Inl e)
              with "2.prems" Some r EMPTY a w Inr have e: "records' = records1" "parent' = parent1"
                by (auto simp: Let_def split: sum.splits)
              have "registry_rel (\<lambda>k. fills_or_clears) (set_value records rid CIRCULAR) records1"
                using i by (rule registry_rel_mono) (rule fills_imp_clears)
              from resolve_failure_rel [OF r EMPTY this] chain_rel_mono [OF c, of fills_or_clears]
              show ?thesis using e Some Inl
                by (auto simp: fills_imp_clears eq_commute [of "Some _" "Some rid"] cong: if_cong)
            next
              case (Inr v)
              with "2.prems" Some r EMPTY a w \<open>res1 = Inr vs\<close>
              have e: "records' = set_value records1 rid (Resolved v)" "parent' = parent1"
                by (auto simp: Let_def split: sum.splits)
              from resolve_success_rel [OF r EMPTY i] c show ?thesis using e Inr by simp
            qed
          qed
        next
          case CIRCULAR
          then show ?thesis using "2.prems" Some r
            by (auto intro!: registry_rel_refl chain_rel_refl)
        next
          case (Resolved v)
          then show ?thesis using "2.prems" Some r
            by (auto intro!: registry_rel_refl chain_rel_refl split: if_splits)
        qed
      qed
    qed
  next
    case 3
    show ?case
    proof (cases ds)
      case Nil
      then show ?thesis using "3.prems" by (auto intro!: registry_rel_refl chain_rel_refl)
    next
      case (Cons d rest)
      define childRecord where "childRecord =
         (if options d AND OPT_CHECK_SELF \<noteq> 0 then lookup_record records (dep_id d) else None)"
      define useNull where "useNull = (childRecord = None \<and> options d AND OPT_CHECK_PARENT = 0)"
      define nfv' where "nfv' = (if options d AND OPT_OPTIONAL \<noteq> 0 then VNull else THROW_IF_NOT_FOUND)"
      define p where "p = (if useNull then NULL_INJECTOR else parent)"
      note defs = childRecord_def [symmetric] useNull_def [symmetric] nfv'_def [symmetric] p_def [symmetric]
      from "3.prems" Cons obtain w where
        a: "tryResolveToken n app (dep_token d) childRecord records p nfv' h = Some w"
        by (auto simp: Let_def defs split: option.splits)
      obtain res1 records1 parent1 h1 where w: "w = (res1, records1, parent1, h1)" by (cases w) auto
      note ih = Suc.IH(1) [OF a [unfolded w]]
      define parent2 where "parent2 = (if useNull then parent else parent1)"
      have c: "chain_rel (if isl res1 then fills_or_clears else fills) parent parent2"
        using ih by (auto simp: parent2_def p_def intro!: chain_rel_refl)
      show ?thesis
      proof (cases res1)
        case (Inl e)
        with "3.prems" a w Cons have "isl resl" "records' = records1" "parent' = parent2"
          by (auto simp: Let_def defs parent2_def)
        then show ?thesis using ih c Inl by simp
      next
        case (Inr v)
        from "3.prems" Cons a w Inr obtain w2 where
          a2: "resolveDeps n app rest records1 parent2 h1 = Some w2"
          by (auto simp: Let_def defs parent2_def split: option.splits)
        obtain res2 records2 parent3 h2 where w2: "w2 = (res2, records2, parent3, h2)" by (cases w2) auto
        note ih2 = Suc.IH(3) [OF a2 [unfolded w2]]
        from "3.prems" Cons a w Inr a2 w2 have e: "isl resl = isl res2" "records' = records2" "parent' = parent3"
          by (auto simp: Let_def defs parent2_def split: sum.splits)
        from ih Inr have i1: "registry_rel (\<lambda>k. fills) records records1" by simp
        from c Inr have c1: "chain_rel fills parent parent2" by simp
        show ?thesis
        proof (cases "isl res2")
          case True
          with ih2 have "registry_rel (\<lambda>k. fills_or_clears) records1 records2"
            "chain_rel fills_or_clears parent2 parent3" by simp_all
          then show ?thesis using e True
              registry_rel_trans [OF i1, of "\<lambda>k. fills_or_clears" records2 "\<lambda>k. fills_or_clears"]
              chain_rel_trans [OF c1, of fills_or_clears parent3 fills_or_clears]
            by (auto intro: fills_then_clears)
        next
          case False
          with ih2 have "registry_rel (\<lambda>k. fills) records1 records2"
            "chain_rel fills parent2 parent3" by simp_all
          then show ?thesis using e False
              registry_rel_trans [OF i1, of "\<lambda>k. fills" records2 "\<lambda>k. fills"]
              chain_rel_trans [OF c1, of fills parent3 fills]
            by (auto intro: fills_trans)
        qed
      qed
    qed
  next
    case 4
    show ?case
    proof (cases scope)
      case NULL_INJECTOR
      then show ?thesis using "4.prems" by auto
    next
      case (StaticInjector a records parent)
      show ?thesis
      proof (cases "getId token")
        case (Inl e)
        then show ?thesis using "4.prems" StaticInjector
          by (auto intro!: registry_rel_refl chain_rel_refl)
      next
        case (Inr rid)
        from "4.prems" StaticInjector Inr obtain w where
          a: "tryResolveToken n app token (lookup_record records rid) records parent nfv h = Some w"
          by (auto split: option.splits)
        obtain res1 records1 parent1 h1 where w: "w = (res1, records1, parent1, h1)" by (cases w) auto
        note ih = Suc.IH(1) [OF a [unfolded w]]
        from "4.prems" StaticInjector Inr a w
        have "isl res = isl res1" "scope' = StaticInjector a records1 parent1"
          by (auto split: sum.splits)
        then show ?thesis using ih StaticInjector by simp
      qed
    qed
  }
qed

subsection \<open>A failed resolution leaves no record in progress\<close>

lemma registry_rel_Some:
  "registry_rel R records records' \<Longrightarrow> map_of records k = Some r
     \<Longrightarrow> \<exists>r'. map_of records' k = Some r' \<and> R k r r'"
  by (auto simp: registry_rel_def dest!: spec [of _ k] elim: option.rel_cases)

lemma registry_rel_Some_back:
  "registry_rel R records records' \<Longrightarrow> map_of records' k = Some r'
     \<Longrightarrow> \<exists>r. map_of records k = Some r \<and> R k r r'"
  by (auto simp: registry_rel_def dest!: spec [of _ k] elim: option.rel_cases)

lemma no_circular_iff:
  "no_circular records \<longleftrightarrow> (\<forall>k r. map_of records k = Some r \<longrightarrow> r_value r \<noteq> CIRCULAR)"
proof
  assume a: "no_circular records"
  show "\<forall>k r. map_of records k = Some r \<longrightarrow> r_value r \<noteq> CIRCULAR"
  proof (intro allI impI)
    fix k r assume m: "map_of records k = Some r"
    then have "k \<in> set (map fst records)" by (metis map_of_SomeD in_set_zipE zip_map_fst_snd)
    with a m show "r_value r \<noteq> CIRCULAR" by (auto simp: no_circular_def)
  qed
next
  assume "\<forall>k r. map_of records k = Some r \<longrightarrow> r_value r \<noteq> CIRCULAR"
  then show "no_circular records"
    by (auto simp: no_circular_def)
qed

lemma registry_clean:
  assumes "registry_rel (\<lambda>k. fills_or_clears) records records'" "no_circular records"
  shows "no_circular records'"
  unfolding no_circular_iff
proof (intro allI impI)
  fix k r' assume "map_of records' k = Some r'"
  from registry_rel_Some_back [OF assms(1) this] obtain r where
    r: "map_of records k = Some r" "fills_or_clears r r'" by blast
  from assms(2) r(1) have "r_value r \<noteq> CIRCULAR" by (simp add: no_circular_iff)
  with r(2) show "r_value r' \<noteq> CIRCULAR"
    by (auto simp: fills_or_clears_def fills_def)
qed

lemma chain_clean:
  "chain_rel fills_or_clears p p' \<Longrightarrow> clean p \<Longrightarrow> clean p'"
  by (induction fills_or_clears p p' rule: chain_rel.induct) (auto dest: registry_clean)

lemma chain_empty_slot:
  "chain_rel fills_or_clears p p' \<Longrightarrow> slot_at p d k = Some EMPTY
     \<Longrightarrow> slot_at p' d k = Some EMPTY \<or> (\<exists>v. slot_at p' d k = Some (Resolved v))"
proof (induction p d k arbitrary: p' rule: slot_at.induct)
  case (1 d k)
  then show ?case by simp
next
  case (2 a records parent k)
  then obtain a' records' parent' where p': "p' = StaticInjector a' records' parent'"
    by (cases p') auto
  from 2(2) obtain r where r: "map_of records k = Some r" "r_value r = EMPTY" by auto
  from 2(1) p' have "registry_rel (\<lambda>k. fills_or_clears) records records'" by simp
  from registry_rel_Some [OF this r(1)] r(2) p' show ?case
    by (auto simp: fills_or_clears_def fills_def)
next
  case (3 a records parent d k)
  then show ?case by (cases p') auto
qed

text \<open>
  A frame that fails leaves its own record as it found it: \<^verbatim>\<open>resolveToken\<close> leaves the
  mark or an inner frame has cleared it, and the \<^verbatim>\<open>catch\<close> block of \<^verbatim>\<open>tryResolveToken\<close>
  clears the mark.
\<close>

lemma resolveToken_failure_own:
  assumes "resolveToken n app token (Some rid) records parent nfv h = Some (Inl e, records1, parent1, h1)"
      and "map_of records rid = Some r" and "r_value r = EMPTY"
  shows "map_of records1 rid = Some (r\<lparr>r_value := CIRCULAR\<rparr>) \<or> map_of records1 rid = Some r"
proof -
  from assms(1) obtain m where n: "n = Suc m" by (cases n) auto
  from assms n obtain w where
    d: "resolveDeps m app (r_deps r) (set_value records rid CIRCULAR) parent h = Some w"
    by (auto split: option.splits)
  obtain resd recordsD parentD hD where w: "w = (resd, recordsD, parentD, hD)" by (cases w) auto
  from assms n d w have e: "records1 = recordsD"
    by (auto simp: Let_def split: sum.splits)
  have "registry_rel (\<lambda>k. fills_or_clears) (set_value records rid CIRCULAR) recordsD"
    using resolver_rel_deps [OF d [unfolded w]]
    by (auto split: if_splits intro: registry_rel_mono fills_imp_clears)
  moreover have "map_of (set_value records rid CIRCULAR) rid = Some (r\<lparr>r_value := CIRCULAR\<rparr>)"
    using assms(2) by (simp add: map_of_set_value)
  ultimately obtain r1 where r1: "map_of recordsD rid = Some r1"
    "fills_or_clears (r\<lparr>r_value := CIRCULAR\<rparr>) r1"
    by (blast dest: registry_rel_Some)
  from r1(2) assms(3) have "r1 = r\<lparr>r_value := CIRCULAR\<rparr> \<or> r1 = r"
    by (cases r) (auto simp: fills_or_clears_def fills_def)
  with r1(1) e show ?thesis by auto
qed

lemma try_failure_resets:
  assumes "tryResolveToken n app token (Some rid) records parent nfv h = Some (Inl e, records', parent', h')"
      and "map_of records rid = Some r" and "r_value r = EMPTY"
  shows "map_of records' rid = Some r"
proof -
  from assms(1) obtain m where n: "n = Suc m" by (cases n) auto
  from assms(1) n obtain w where a: "resolveToken m app token (Some rid) records parent nfv h = Some w"
    by (auto split: option.splits)
  obtain res1 records1 parent1 h1 where w: "w = (res1, records1, parent1, h1)" by (cases w) auto
  from assms(1) n a w obtain e1 where res1: "res1 = Inl e1"
    and r': "records' = (if is_circular records1 (Some rid) then set_value records1 rid EMPTY else records1)"
    by (cases res1) (auto simp: Let_def)
  from resolveToken_failure_own [OF a [unfolded w res1] assms(2,3)]
  show ?thesis
  proof
    assume "map_of records1 rid = Some (r\<lparr>r_value := CIRCULAR\<rparr>)"
    then show ?thesis using r' assms(3)
      by (cases r) (auto simp: is_circular_def map_of_set_value)
  next
    assume "map_of records1 rid = Some r"
    then show ?thesis using r' assms(3)
      by (simp add: is_circular_def)
  qed
qed

lemma get_failure_resets:
  "injector_get n app scope token nfv h = Some (Inl e, scope', h')
     \<Longrightarrow> slot_at scope d (Key token) = Some EMPTY
     \<Longrightarrow> \<forall>d' < d. slot_at scope d' (Key token) = None
     \<Longrightarrow> slot_at scope' d (Key token) = Some EMPTY"
proof (induction scope arbitrary: n d scope' h h' e)
  case NULL_INJECTOR
  then show ?case by simp
next
  case (StaticInjector a records parent)
  from StaticInjector.prems(1) obtain n1 where n: "n = Suc n1" by (cases n) auto
  show ?case
  proof (cases "getId token")
    case (Inl e0)
    with StaticInjector.prems(1,2) n show ?thesis by auto
  next
    case (Inr rid)
    then have rid: "rid = Key token" by (rule getId_Inr)
    from StaticInjector.prems(1) n Inr obtain e1 records' parent' where
      t: "tryResolveToken n1 app token (lookup_record records rid) records parent nfv h
            = Some (Inl e1, records', parent', h')"
      and s: "scope' = StaticInjector a records' parent'"
      by (auto split: option.splits sum.splits)
    show ?thesis
    proof (cases d)
      case 0
      with StaticInjector.prems(2) obtain r where r: "map_of records (Key token) = Some r" "r_value r = EMPTY"
        by auto
      then have "lookup_record records rid = Some rid" by (simp add: lookup_record_def rid)
      with t have "tryResolveToken n1 app token (Some rid) records parent nfv h
            = Some (Inl e1, records', parent', h')" by simp
      from try_failure_resets [OF this r [folded rid]] r(2) s 0 show ?thesis
        by (simp add: rid)
    next
      case (Suc d0)
      with StaticInjector.prems(3) have "slot_at (StaticInjector a records parent) 0 (Key token) = None"
        by blast
      then have l: "lookup_record records rid = None" by (simp add: lookup_record_def rid)
      from t obtain n2 where n1: "n1 = Suc n2" by (cases n1) auto
      from t n1 l obtain w where r: "resolveToken n2 app token None records parent nfv h = Some w"
        by (auto split: option.splits)
      then obtain n3 where n2: "n2 = Suc n3" by (cases n2) auto
      from r n2 obtain w' where g: "injector_get n3 app parent token nfv h = Some w'"
        by (auto split: option.splits)
      obtain res3 parent3 h3 where w': "w' = (res3, parent3, h3)" by (cases w') auto
      from t n1 n2 l g w' obtain e3 where e3: "res3 = Inl e3" and p: "parent' = parent3" "h' = h3"
        by (cases res3) (auto simp: Let_def is_circular_def)
      have a: "slot_at parent d0 (Key token) = Some EMPTY"
        using StaticInjector.prems(2) Suc by simp
      have b: "\<forall>d' < d0. slot_at parent d' (Key token) = None"
      proof (intro allI impI)
        fix d' assume "d' < d0"
        then have "Suc d' < d" using Suc by simp
        with StaticInjector.prems(3) have "slot_at (StaticInjector a records parent) (Suc d') (Key token) = None"
          by blast
        then show "slot_at parent d' (Key token) = None" by simp
      qed
      from StaticInjector.IH [OF g [unfolded w' e3] a b] s p Suc show ?thesis by simp
    qed
  qed
qed

text \<open>
  C3.  When \<^verbatim>\<open>get\<close> on a scope with no record in progress fails, with
  whatever error, no record of the scope or of its ancestors is left marked in progress.
  The record the call set out to resolve (the token's record in the nearest scope that
  has one), when it was unresolved, is unresolved again; every other unresolved slot is
  unresolved again or holds the value its record resolved to before the failure.  The
  same holds frame by frame: a \<^verbatim>\<open>tryResolveToken\<close> that fails on an unresolved record
  returns with that record as it was.
\<close>

theorem failed_get_leaves_no_mark:
  "(clean scope \<and> injector_get n app scope token notFoundValue h = Some (Inl e, scope', h') \<longrightarrow>
      clean scope'
    \<and> (\<forall>d. slot_at scope d (Key token) = Some EMPTY
            \<and> (\<forall>d' < d. slot_at scope d' (Key token) = None)
            \<longrightarrow> slot_at scope' d (Key token) = Some EMPTY)
    \<and> (\<forall>d k. slot_at scope d k = Some EMPTY \<longrightarrow>
            slot_at scope' d k = Some EMPTY \<or> (\<exists>v. slot_at scope' d k = Some (Resolved v))))
 \<and> (tryResolveToken m app token' (Some rid) records parent notFoundValue' h0
        = Some (Inl e', records', parent', h0')
     \<and> map_of records rid = Some r \<and> r_value r = EMPTY \<longrightarrow>
      map_of records' rid = Some r)"
proof (intro conjI impI allI)
  assume a: "clean scope \<and> injector_get n app scope token notFoundValue h = Some (Inl e, scope', h')"
  from resolver_rel_get [OF a [THEN conjunct2]] have c: "chain_rel fills_or_clears scope scope'" by simp
  from chain_clean [OF c a [THEN conjunct1]] show "clean scope'" .
  show "slot_at scope' d (Key token) = Some EMPTY"
    if "slot_at scope d (Key token) = Some EMPTY \<and> (\<forall>d' < d. slot_at scope d' (Key token) = None)" for d
    using get_failure_resets [OF a [THEN conjunct2]] that by blast
  show "slot_at scope' d k = Some EMPTY \<or> (\<exists>v. slot_at scope' d k = Some (Resolved v))"
    if "slot_at scope d k = Some EMPTY" for d k
    using chain_empty_slot [OF c that] .
next
  assume "tryResolveToken m app token' (Some rid) records parent notFoundValue' h0
        = Some (Inl e', records', parent', h0')
     \<and> map_of records rid = Some r \<and> r_value r = EMPTY"
  then show "map_of records' rid = Some r"
    by (blast intro: try_failure_resets)
qed

theorem failed_get_leaves_no_mark_witness:
  "(clean (StaticInjector 1
      [(Key (TString ''A''), \<lparr>r_token = TString ''A'', r_fn = UserFn 1, r_useNew = False, r_deps = [], r_value = EMPTY\<rparr>),
       (Key (TString ''B''), \<lparr>r_token = TString ''B'', r_fn = UserFn 2, r_useNew = False, r_deps = [\<lparr>dep_id = Key (TString ''A''), dep_token = TString ''A'', options = OPT_DEFAULT\<rparr>, \<lparr>dep_id = Key (TString ''M''), dep_token = TString ''M'', options = OPT_DEFAULT\<rparr>], r_value = EMPTY\<rparr>)] NULL_INJECTOR))
   \<and> (injector_get (Suc (Suc (Suc (Suc (Suc (Suc (Suc (Suc 0)))))))) (\<lambda>f this args. Inr (VNumber 1))
      (StaticInjector 1
      [(Key (TString ''A''), \<lparr>r_token = TString ''A'', r_fn = UserFn 1, r_useNew = False, r_deps = [], r_value = EMPTY\<rparr>),
       (Key (TString ''B''), \<lparr>r_token = TString ''B'', r_fn = UserFn 2, r_useNew = False, r_deps = [\<lparr>dep_id = Key (TString ''A''), dep_token = TString ''A'', options = OPT_DEFAULT\<rparr>, \<lparr>dep_id = Key (TString ''M''), dep_token = TString ''M'', options = OPT_DEFAULT\<rparr>], r_value = EMPTY\<rparr>)] NULL_INJECTOR) (TString ''B'') VUndefined 0
     = Some (Inl \<lparr>msg = Formatted (Some [TString ''B'', TString ''M'']) (NullInjectorError (TString ''M'')), ngTempTokenPath = None, ngTokenPath = Some [TString ''B'', TString ''M'']\<rparr>,
             (StaticInjector 1
      [(Key (TString ''A''), \<lparr>r_token = TString ''A'', r_fn = UserFn 1, r_useNew = False, r_deps = [], r_value = Resolved (VNumber 1)\<rparr>),
       (Key (TString ''B''), \<lparr>r_token = TString ''B'', r_fn = UserFn 2, r_useNew = False, r_deps = [\<lparr>dep_id = Key (TString ''A''), dep_token = TString ''A'', options = OPT_DEFAULT\<rparr>, \<lparr>dep_id = Key (TString ''M''), dep_token = TString ''M'', options = OPT_DEFAULT\<rparr>], r_value = EMPTY\<rparr>)] NULL_INJECTOR), 0))
   \<and> (slot_at (StaticInjector 1
      [(Key (TString ''A''), \<lparr>r_token = TString ''A'', r_fn = UserFn 1, r_useNew = False, r_deps = [], r_value = EMPTY\<rparr>),
       (Key (TString ''B''), \<lparr>r_token = TString ''B'', r_fn = UserFn 2, r_useNew = False, r_deps = [\<lparr>dep_id = Key (TString ''A''), dep_token = TString ''A'', options = OPT_DEFAULT\<rparr>, \<lparr>dep_id = Key (TString ''M''), dep_token = TString ''M'', options = OPT_DEFAULT\<rparr>], r_value = EMPTY\<rparr>)] NULL_INJECTOR) 0 (Key (TString ''B'')) = Some EMPTY)
   \<and> (clean (StaticInjector 1
      [(Key (TString ''A''), \<lparr>r_token = TString ''A'', r_fn = UserFn 1, r_useNew = False, r_deps = [], r_value = Resolved (VNumber 1)\<rparr>),
       (Key (TString ''B''), \<lparr>r_token = TString ''B'', r_fn = UserFn 2, r_useNew = False, r_deps = [\<lparr>dep_id = Key (TString ''A''), dep_token = TString ''A'', options = OPT_DEFAULT\<rparr>, \<lparr>dep_id = Key (TString ''M''), dep_token = TString ''M'', options = OPT_DEFAULT\<rparr>], r_value = EMPTY\<rparr>)] NULL_INJECTOR))
   \<and> (slot_at (StaticInjector 1
      [(Key (TString ''A''), \<lparr>r_token = TString ''A'', r_fn = UserFn 1, r_useNew = False, r_deps = [], r_value = Resolved (VNumber 1)\<rparr>),
       (Key (TString ''B''), \<lparr>r_token = TString ''B'', r_fn = UserFn 2, r_useNew = False, r_deps = [\<lparr>dep_id = Key (TString ''A''), dep_token = TString ''A'', options = OPT_DEFAULT\<rparr>, \<lparr>dep_id = Key (TString ''M''), dep_token = TString ''M'', options = OPT_DEFAULT\<rparr>], r_value = EMPTY\<rparr>)] NULL_INJECTOR) 0 (Key (TString ''B'')) = Some EMPTY)
   \<and> (tryResolveToken (Suc (Suc (Suc (Suc (Suc (Suc (Suc 0))))))) (\<lambda>f this args. Inr (VNumber 1)) (TString ''B'') (Some (Key (TString ''B'')))
      [(Key (TString ''A''), \<lparr>r_token = TString ''A'', r_fn = UserFn 1, r_useNew = False, r_deps = [], r_value = EMPTY\<rparr>),
       (Key (TString ''B''), \<lparr>r_token = TString ''B'', r_fn = UserFn 2, r_useNew = False, r_deps = [\<lparr>dep_id = Key (TString ''A''), dep_token = TString ''A'', options = OPT_DEFAULT\<rparr>, \<lparr>dep_id = Key (TString ''M''), dep_token = TString ''M'', options = OPT_DEFAULT\<rparr>], r_value = EMPTY\<rparr>)] NULL_INJECTOR VUndefined 0
     = Some (Inl \<lparr>msg = NullInjectorError (TString ''M''), ngTempTokenPath = Some [TString ''B'', TString ''M''], ngTokenPath = None\<rparr>,
             [(Key (TString ''A''), \<lparr>r_token = TString ''A'', r_fn = UserFn 1, r_useNew = False, r_deps = [], r_value = Resolved (VNumber 1)\<rparr>),
       (Key (TString ''B''), \<lparr>r_token = TString ''B'', r_fn = UserFn 2, r_useNew = False, r_deps = [\<lparr>dep_id = Key (TString ''A''), dep_token = TString ''A'', options = OPT_DEFAULT\<rparr>, \<lparr>dep_id = Key (TString ''M''), dep_token = TString ''M'', options = OPT_DEFAULT\<rparr>], r_value = EMPTY\<rparr>)], NULL_INJECTOR, 0))
   \<and> (map_of [(Key (TString ''A''), \<lparr>r_token = TString ''A'', r_fn = UserFn 1, r_useNew = False, r_deps = [], r_value = EMPTY\<rparr>),
       (Key (TString ''B''), \<lparr>r_token = TString ''B'', r_fn = UserFn 2, r_useNew = False, r_deps = [\<lparr>dep_id = Key (TString ''A''), dep_token = TString ''A'', options = OPT_DEFAULT\<rparr>, \<lparr>dep_id = Key (TString ''M''), dep_token = TString ''M'', options = OPT_DEFAULT\<rparr>], r_value = EMPTY\<rparr>)] (Key (TString ''B'')) = Some \<lparr>r_token = TString ''B'', r_fn = UserFn 2, r_useNew = False, r_deps = [\<lparr>dep_id = Key (TString ''A''), dep_token = TString ''A'', options = OPT_DEFAULT\<rparr>, \<lparr>dep_id = Key (TString ''M''), dep_token = TString ''M'', options = OPT_DEFAULT\<rparr>], r_value = EMPTY\<rparr>)
   \<and> (r_value \<lparr>r_token = TString ''B'', r_fn = UserFn 2, r_useNew = False, r_deps = [\<lparr>dep_id = Key (TString ''A''), dep_token = TString ''A'', options = OPT_DEFAULT\<rparr>, \<lparr>dep_id = Key (TString ''M''), dep_token = TString ''M'', options = OPT_DEFAULT\<rparr>], r_value = EMPTY\<rparr> = EMPTY)
   \<and> (map_of [(Key (TString ''A''), \<lparr>r_token = TString ''A'', r_fn = UserFn 1, r_useNew = False, r_deps = [], r_value = Resolved (VNumber 1)\<rparr>),
       (Key (TString ''B''), \<lparr>r_token = TString ''B'', r_fn = UserFn 2, r_useNew = False, r_deps = [\<lparr>dep_id = Key (TString ''A''), dep_token = TString ''A'', options = OPT_DEFAULT\<rparr>, \<lparr>dep_id = Key (TString ''M''), dep_token = TString ''M'', options = OPT_DEFAULT\<rparr>], r_value = EMPTY\<rparr>)] (Key (TString ''B'')) = Some \<lparr>r_token = TString ''B'', r_fn = UserFn 2, r_useNew = False, r_deps = [\<lparr>dep_id = Key (TString ''A''), dep_token = TString ''A'', options = OPT_DEFAULT\<rparr>, \<lparr>dep_id = Key (TString ''M''), dep_token = TString ''M'', options = OPT_DEFAULT\<rparr>], r_value = EMPTY\<rparr>)"
proof -
  have c: "clean (StaticInjector 1
      [(Key (TString ''A''), \<lparr>r_token = TString ''A'', r_fn = UserFn 1, r_useNew = False, r_deps = [], r_value = EMPTY\<rparr>),
       (Key (TString ''B''), \<lparr>r_token = TString ''B'', r_fn = UserFn 2, r_useNew = False, r_deps = [\<lparr>dep_id = Key (TString ''A''), dep_token = TString ''A'', options = OPT_DEFAULT\<rparr>, \<lparr>dep_id = Key (TString ''M''), dep_token = TString ''M'', options = OPT_DEFAULT\<rparr>], r_value = EMPTY\<rparr>)] NULL_INJECTOR)"
    by (simp add: no_circular_def)
  have g: "injector_get (Suc (Suc (Suc (Suc (Suc (Suc (Suc (Suc 0)))))))) (\<lambda>f this args. Inr (VNumber 1))
      (StaticInjector 1
      [(Key (TString ''A''), \<lparr>r_token = TString ''A'', r_fn = UserFn 1, r_useNew = False, r_deps = [], r_value = EMPTY\<rparr>),
       (Key (TString ''B''), \<lparr>r_token = TString ''B'', r_fn = UserFn 2, r_useNew = False, r_deps = [\<lparr>dep_id = Key (TString ''A''), dep_token = TString ''A'', options = OPT_DEFAULT\<rparr>, \<lparr>dep_id = Key (TString ''M''), dep_token = TString ''M'', options = OPT_DEFAULT\<rparr>], r_value = EMPTY\<rparr>)] NULL_INJECTOR) (TString ''B'') VUndefined 0
     = Some (Inl \<lparr>msg = Formatted (Some [TString ''B'', TString ''M'']) (NullInjectorError (TString ''M'')), ngTempTokenPath = None, ngTokenPath = Some [TString ''B'', TString ''M'']\<rparr>,
             (StaticInjector 1
      [(Key (TString ''A''), \<lparr>r_token = TString ''A'', r_fn = UserFn 1, r_useNew = False, r_deps = [], r_value = Resolved (VNumber 1)\<rparr>),
       (Key (TString ''B''), \<lparr>r_token = TString ''B'', r_fn = UserFn 2, r_useNew = False, r_deps = [\<lparr>dep_id = Key (TString ''A''), dep_token = TString ''A'', options = OPT_DEFAULT\<rparr>, \<lparr>dep_id = Key (TString ''M''), dep_token = TString ''M'', options = OPT_DEFAULT\<rparr>], r_value = EMPTY\<rparr>)] NULL_INJECTOR), 0)"
    by (simp add: getId_def lookup_record_def set_value_def OPT_DEFAULT_def OPT_CHECK_SELF_def OPT_CHECK_PARENT_def OPT_OPTIONAL_def is_circular_def path_token_def newError_def get_catch_def nullInjector_get_def Injector_def Let_def)
  have b0: "slot_at (StaticInjector 1
      [(Key (TString ''A''), \<lparr>r_token = TString ''A'', r_fn = UserFn 1, r_useNew = False, r_deps = [], r_value = EMPTY\<rparr>),
       (Key (TString ''B''), \<lparr>r_token = TString ''B'', r_fn = UserFn 2, r_useNew = False, r_deps = [\<lparr>dep_id = Key (TString ''A''), dep_token = TString ''A'', options = OPT_DEFAULT\<rparr>, \<lparr>dep_id = Key (TString ''M''), dep_token = TString ''M'', options = OPT_DEFAULT\<rparr>], r_value = EMPTY\<rparr>)] NULL_INJECTOR) 0 (Key (TString ''B'')) = Some EMPTY"
    by simp
  have t: "tryResolveToken (Suc (Suc (Suc (Suc (Suc (Suc (Suc 0))))))) (\<lambda>f this args. Inr (VNumber 1)) (TString ''B'') (Some (Key (TString ''B'')))
      [(Key (TString ''A''), \<lparr>r_token = TString ''A'', r_fn = UserFn 1, r_useNew = False, r_deps = [], r_value = EMPTY\<rparr>),
       (Key (TString ''B''), \<lparr>r_token = TString ''B'', r_fn = UserFn 2, r_useNew = False, r_deps = [\<lparr>dep_id = Key (TString ''A''), dep_token = TString ''A'', options = OPT_DEFAULT\<rparr>, \<lparr>dep_id = Key (TString ''M''), dep_token = TString ''M'', options = OPT_DEFAULT\<rparr>], r_value = EMPTY\<rparr>)] NULL_INJECTOR VUndefined 0
     = Some (Inl \<lparr>msg = NullInjectorError (TString ''M''), ngTempTokenPath = Some [TString ''B'', TString ''M''], ngTokenPath = None\<rparr>,
             [(Key (TString ''A''), \<lparr>r_token = TString ''A'', r_fn = UserFn 1, r_useNew = False, r_deps = [], r_value = Resolved (VNumber 1)\<rparr>),
       (Key (TString ''B''), \<lparr>r_token = TString ''B'', r_fn = UserFn 2, r_useNew = False, r_deps = [\<lparr>dep_id = Key (TString ''A''), dep_token = TString ''A'', options = OPT_DEFAULT\<rparr>, \<lparr>dep_id = Key (TString ''M''), dep_token = TString ''M'', options = OPT_DEFAULT\<rparr>], r_value = EMPTY\<rparr>)], NULL_INJECTOR, 0)"
    by (simp add: getId_def lookup_record_def set_value_def OPT_DEFAULT_def OPT_CHECK_SELF_def OPT_CHECK_PARENT_def OPT_OPTIONAL_def is_circular_def path_token_def newError_def get_catch_def nullInjector_get_def Injector_def Let_def)
  have m0: "map_of [(Key (TString ''A''), \<lparr>r_token = TString ''A'', r_fn = UserFn 1, r_useNew = False, r_deps = [], r_value = EMPTY\<rparr>),
       (Key (TString ''B''), \<lparr>r_token = TString ''B'', r_fn = UserFn 2, r_useNew = False, r_deps = [\<lparr>dep_id = Key (TString ''A''), dep_token = TString ''A'', options = OPT_DEFAULT\<rparr>, \<lparr>dep_id = Key (TString ''M''), dep_token = TString ''M'', options = OPT_DEFAULT\<rparr>], r_value = EMPTY\<rparr>)] (Key (TString ''B'')) = Some \<lparr>r_token = TString ''B'', r_fn = UserFn 2, r_useNew = False, r_deps = [\<lparr>dep_id = Key (TString ''A''), dep_token = TString ''A'', options = OPT_DEFAULT\<rparr>, \<lparr>dep_id = Key (TString ''M''), dep_token = TString ''M'', options = OPT_DEFAULT\<rparr>], r_value = EMPTY\<rparr>"
    by simp
  have v0: "r_value \<lparr>r_token = TString ''B'', r_fn = UserFn 2, r_useNew = False, r_deps = [\<lparr>dep_id = Key (TString ''A''), dep_token = TString ''A'', options = OPT_DEFAULT\<rparr>, \<lparr>dep_id = Key (TString ''M''), dep_token = TString ''M'', options = OPT_DEFAULT\<rparr>], r_value = EMPTY\<rparr> = EMPTY"
    by simp
  note th = failed_get_leaves_no_mark [where scope = "(StaticInjector 1
      [(Key (TString ''A''), \<lparr>r_token = TString ''A'', r_fn = UserFn 1, r_useNew = False, r_deps = [], r_value = EMPTY\<rparr>),
       (Key (TString ''B''), \<lparr>r_token = TString ''B'', r_fn = UserFn 2, r_useNew = False, r_deps = [\<lparr>dep_id = Key (TString ''A''), dep_token = TString ''A'', options = OPT_DEFAULT\<rparr>, \<lparr>dep_id = Key (TString ''M''), dep_token = TString ''M'', options = OPT_DEFAULT\<rparr>], r_value = EMPTY\<rparr>)] NULL_INJECTOR)" and n = "(Suc (Suc (Suc (Suc (Suc (Suc (Suc (Suc 0))))))))" and app = "(\<lambda>f this args. Inr (VNumber 1))"
      and token = "TString ''B''" and notFoundValue = VUndefined and h = 0 and e = "\<lparr>msg = Formatted (Some [TString ''B'', TString ''M'']) (NullInjectorError (TString ''M'')), ngTempTokenPath = None, ngTokenPath = Some [TString ''B'', TString ''M'']\<rparr>"
      and scope' = "(StaticInjector 1
      [(Key (TString ''A''), \<lparr>r_token = TString ''A'', r_fn = UserFn 1, r_useNew = False, r_deps = [], r_value = Resolved (VNumber 1)\<rparr>),
       (Key (TString ''B''), \<lparr>r_token = TString ''B'', r_fn = UserFn 2, r_useNew = False, r_deps = [\<lparr>dep_id = Key (TString ''A''), dep_token = TString ''A'', options = OPT_DEFAULT\<rparr>, \<lparr>dep_id = Key (TString ''M''), dep_token = TString ''M'', options = OPT_DEFAULT\<rparr>], r_value = EMPTY\<rparr>)] NULL_INJECTOR)" and h' = 0 and m = "(Suc (Suc (Suc (Suc (Suc (Suc (Suc 0)))))))" and token' = "TString ''B''" and rid = "Key (TString ''B'')"
      and records = "[(Key (TString ''A''), \<lparr>r_token = TString ''A'', r_fn = UserFn 1, r_useNew = False, r_deps = [], r_value = EMPTY\<rparr>),
       (Key (TString ''B''), \<lparr>r_token = TString ''B'', r_fn = UserFn 2, r_useNew = False, r_deps = [\<lparr>dep_id = Key (TString ''A''), dep_token = TString ''A'', options = OPT_DEFAULT\<rparr>, \<lparr>dep_id = Key (TString ''M''), dep_token = TString ''M'', options = OPT_DEFAULT\<rparr>], r_value = EMPTY\<rparr>)]" and parent = NULL_INJECTOR and notFoundValue' = VUndefined
      and ?h0.0 = 0 and e' = "\<lparr>msg = NullInjectorError (TString ''M''), ngTempTokenPath = Some [TString ''B'', TString ''M''], ngTokenPath = None\<rparr>" and records' = "[(Key (TString ''A''), \<lparr>r_token = TString ''A'', r_fn = UserFn 1, r_useNew = False, r_deps = [], r_value = Resolved (VNumber 1)\<rparr>),
       (Key (TString ''B''), \<lparr>r_token = TString ''B'', r_fn = UserFn 2, r_useNew = False, r_deps = [\<lparr>dep_id = Key (TString ''A''), dep_token = TString ''A'', options = OPT_DEFAULT\<rparr>, \<lparr>dep_id = Key (TString ''M''), dep_token = TString ''M'', options = OPT_DEFAULT\<rparr>], r_value = EMPTY\<rparr>)]"
      and parent' = NULL_INJECTOR and h0' = 0 and r = "\<lparr>r_token = TString ''B'', r_fn = UserFn 2, r_useNew = False, r_deps = [\<lparr>dep_id = Key (TString ''A''), dep_token = TString ''A'', options = OPT_DEFAULT\<rparr>, \<lparr>dep_id = Key (TString ''M''), dep_token = TString ''M'', options = OPT_DEFAULT\<rparr>], r_value = EMPTY\<rparr>"]
  from th [THEN conjunct1, THEN mp, OF conjI [OF c g]]
  have c1: "clean (StaticInjector 1
      [(Key (TString ''A''), \<lparr>r_token = TString ''A'', r_fn = UserFn 1, r_useNew = False, r_deps = [], r_value = Resolved (VNumber 1)\<rparr>),
       (Key (TString ''B''), \<lparr>r_token = TString ''B'', r_fn = UserFn 2, r_useNew = False, r_deps = [\<lparr>dep_id = Key (TString ''A''), dep_token = TString ''A'', options = OPT_DEFAULT\<rparr>, \<lparr>dep_id = Key (TString ''M''), dep_token = TString ''M'', options = OPT_DEFAULT\<rparr>], r_value = EMPTY\<rparr>)] NULL_INJECTOR)"
    and r: "\<forall>d. slot_at (StaticInjector 1
      [(Key (TString ''A''), \<lparr>r_token = TString ''A'', r_fn = UserFn 1, r_useNew = False, r_deps = [], r_value = EMPTY\<rparr>),
       (Key (TString ''B''), \<lparr>r_token = TString ''B'', r_fn = UserFn 2, r_useNew = False, r_deps = [\<lparr>dep_id = Key (TString ''A''), dep_token = TString ''A'', options = OPT_DEFAULT\<rparr>, \<lparr>dep_id = Key (TString ''M''), dep_token = TString ''M'', options = OPT_DEFAULT\<rparr>], r_value = EMPTY\<rparr>)] NULL_INJECTOR) d (Key (TString ''B'')) = Some EMPTY
            \<and> (\<forall>d' < d. slot_at (StaticInjector 1
      [(Key (TString ''A''), \<lparr>r_token = TString ''A'', r_fn = UserFn 1, r_useNew = False, r_deps = [], r_value = EMPTY\<rparr>),
       (Key (TString ''B''), \<lparr>r_token = TString ''B'', r_fn = UserFn 2, r_useNew = False, r_deps = [\<lparr>dep_id = Key (TString ''A''), dep_token = TString ''A'', options = OPT_DEFAULT\<rparr>, \<lparr>dep_id = Key (TString ''M''), dep_token = TString ''M'', options = OPT_DEFAULT\<rparr>], r_value = EMPTY\<rparr>)] NULL_INJECTOR) d' (Key (TString ''B'')) = None)
            \<longrightarrow> slot_at (StaticInjector 1
      [(Key (TString ''A''), \<lparr>r_token = TString ''A'', r_fn = UserFn 1, r_useNew = False, r_deps = [], r_value = Resolved (VNumber 1)\<rparr>),
       (Key (TString ''B''), \<lparr>r_token = TString ''B'', r_fn = UserFn 2, r_useNew = False, r_deps = [\<lparr>dep_id = Key (TString ''A''), dep_token = TString ''A'', options = OPT_DEFAULT\<rparr>, \<lparr>dep_id = Key (TString ''M''), dep_token = TString ''M'', options = OPT_DEFAULT\<rparr>], r_value = EMPTY\<rparr>)] NULL_INJECTOR) d (Key (TString ''B'')) = Some EMPTY"
    by blast+
  from r [rule_format, of 0] b0
  have b1: "slot_at (StaticInjector 1
      [(Key (TString ''A''), \<lparr>r_token = TString ''A'', r_fn = UserFn 1, r_useNew = False, r_deps = [], r_value = Resolved (VNumber 1)\<rparr>),
       (Key (TString ''B''), \<lparr>r_token = TString ''B'', r_fn = UserFn 2, r_useNew = False, r_deps = [\<lparr>dep_id = Key (TString ''A''), dep_token = TString ''A'', options = OPT_DEFAULT\<rparr>, \<lparr>dep_id = Key (TString ''M''), dep_token = TString ''M'', options = OPT_DEFAULT\<rparr>], r_value = EMPTY\<rparr>)] NULL_INJECTOR) 0 (Key (TString ''B'')) = Some EMPTY"
    by blast
  have m1: "map_of [(Key (TString ''A''), \<lparr>r_token = TString ''A'', r_fn = UserFn 1, r_useNew = False, r_deps = [], r_value = Resolved (VNumber 1)\<rparr>),
       (Key (TString ''B''), \<lparr>r_token = TString ''B'', r_fn = UserFn 2, r_useNew = False, r_deps = [\<lparr>dep_id = Key (TString ''A''), dep_token = TString ''A'', options = OPT_DEFAULT\<rparr>, \<lparr>dep_id = Key (TString ''M''), dep_token = TString ''M'', options = OPT_DEFAULT\<rparr>], r_value = EMPTY\<rparr>)] (Key (TString ''B'')) = Some \<lparr>r_token = TString ''B'', r_fn = UserFn 2, r_useNew = False, r_deps = [\<lparr>dep_id = Key (TString ''A''), dep_token = TString ''A'', options = OPT_DEFAULT\<rparr>, \<lparr>dep_id = Key (TString ''M''), dep_token = TString ''M'', options = OPT_DEFAULT\<rparr>], r_value = EMPTY\<rparr>"
    by (rule th [THEN conjunct2, THEN mp, OF conjI [OF t conjI [OF m0 v0]]])
  show ?thesis
    by (rule conjI [OF c], rule conjI [OF g], rule conjI [OF b0], rule conjI [OF c1], rule conjI [OF b1], rule conjI [OF t], rule conjI [OF m0], rule conjI [OF v0], rule m1)
qed

text \<open>
  The records that resolved before the failure are not reset.  With \<^verbatim>\<open>A\<close> a factory
  without dependencies and \<^verbatim>\<open>B\<close> depending on \<^verbatim>\<open>A\<close> and on a token nobody provides,
  \<^verbatim>\<open>get('B')\<close> fails; the record of \<^verbatim>\<open>A\<close> was marked in progress while its factory ran
  and holds its value afterwards, not the unresolved sentinel.
\<close>

theorem resolved_dependency_not_reset_counterexample:
  "(clean (StaticInjector 1
      [(Key (TString ''A''), \<lparr>r_token = TString ''A'', r_fn = UserFn 1, r_useNew = False, r_deps = [], r_value = EMPTY\<rparr>),
       (Key (TString ''B''), \<lparr>r_token = TString ''B'', r_fn = UserFn 2, r_useNew = False, r_deps = [\<lparr>dep_id = Key (TString ''A''), dep_token = TString ''A'', options = OPT_DEFAULT\<rparr>, \<lparr>dep_id = Key (TString ''M''), dep_token = TString ''M'', options = OPT_DEFAULT\<rparr>], r_value = EMPTY\<rparr>)] NULL_INJECTOR))
   \<and> (injector_get (Suc (Suc (Suc (Suc (Suc (Suc (Suc (Suc 0)))))))) (\<lambda>f this args. Inr (VNumber 1))
      (StaticInjector 1
      [(Key (TString ''A''), \<lparr>r_token = TString ''A'', r_fn = UserFn 1, r_useNew = False, r_deps = [], r_value = EMPTY\<rparr>),
       (Key (TString ''B''), \<lparr>r_token = TString ''B'', r_fn = UserFn 2, r_useNew = False, r_deps = [\<lparr>dep_id = Key (TString ''A''), dep_token = TString ''A'', options = OPT_DEFAULT\<rparr>, \<lparr>dep_id = Key (TString ''M''), dep_token = TString ''M'', options = OPT_DEFAULT\<rparr>], r_value = EMPTY\<rparr>)] NULL_INJECTOR) (TString ''B'') VUndefined 0
     = Some (Inl \<lparr>msg = Formatted (Some [TString ''B'', TString ''M'']) (NullInjectorError (TString ''M'')), ngTempTokenPath = None, ngTokenPath = Some [TString ''B'', TString ''M'']\<rparr>,
             (StaticInjector 1
      [(Key (TString ''A''), \<lparr>r_token = TString ''A'', r_fn = UserFn 1, r_useNew = False, r_deps = [], r_value = Resolved (VNumber 1)\<rparr>),
       (Key (TString ''B''), \<lparr>r_token = TString ''B'', r_fn = UserFn 2, r_useNew = False, r_deps = [\<lparr>dep_id = Key (TString ''A''), dep_token = TString ''A'', options = OPT_DEFAULT\<rparr>, \<lparr>dep_id = Key (TString ''M''), dep_token = TString ''M'', options = OPT_DEFAULT\<rparr>], r_value = EMPTY\<rparr>)] NULL_INJECTOR), 0))
   \<and> (slot_at (StaticInjector 1
      [(Key (TString ''A''), \<lparr>r_token = TString ''A'', r_fn = UserFn 1, r_useNew = False, r_deps = [], r_value = EMPTY\<rparr>),
       (Key (TString ''B''), \<lparr>r_token = TString ''B'', r_fn = UserFn 2, r_useNew = False, r_deps = [\<lparr>dep_id = Key (TString ''A''), dep_token = TString ''A'', options = OPT_DEFAULT\<rparr>, \<lparr>dep_id = Key (TString ''M''), dep_token = TString ''M'', options = OPT_DEFAULT\<rparr>], r_value = EMPTY\<rparr>)] NULL_INJECTOR) 0 (Key (TString ''A'')) = Some EMPTY)
   \<and> (slot_at (StaticInjector 1
      [(Key (TString ''A''), \<lparr>r_token = TString ''A'', r_fn = UserFn 1, r_useNew = False, r_deps = [], r_value = Resolved (VNumber 1)\<rparr>),
       (Key (TString ''B''), \<lparr>r_token = TString ''B'', r_fn = UserFn 2, r_useNew = False, r_deps = [\<lparr>dep_id = Key (TString ''A''), dep_token = TString ''A'', options = OPT_DEFAULT\<rparr>, \<lparr>dep_id = Key (TString ''M''), dep_token = TString ''M'', options = OPT_DEFAULT\<rparr>], r_value = EMPTY\<rparr>)] NULL_INJECTOR) 0 (Key (TString ''A'')) = Some (Resolved (VNumber 1)))
   \<and> (Resolved (VNumber 1) \<noteq> EMPTY)"
proof -
  have c: "clean (StaticInjector 1
      [(Key (TString ''A''), \<lparr>r_token = TString ''A'', r_fn = UserFn 1, r_useNew = False, r_deps = [], r_value = EMPTY\<rparr>),
       (Key (TString ''B''), \<lparr>r_token = TString ''B'', r_fn = UserFn 2, r_useNew = False, r_deps = [\<lparr>dep_id = Key (TString ''A''), dep_token = TString ''A'', options = OPT_DEFAULT\<rparr>, \<lparr>dep_id = Key (TString ''M''), dep_token = TString ''M'', options = OPT_DEFAULT\<rparr>], r_value = EMPTY\<rparr>)] NULL_INJECTOR)"
    by (simp add: no_circular_def)
  have g: "injector_get (Suc (Suc (Suc (Suc (Suc (Suc (Suc (Suc 0)))))))) (\<lambda>f this args. Inr (VNumber 1))
      (StaticInjector 1
      [(Key (TString ''A''), \<lparr>r_token = TString ''A'', r_fn = UserFn 1, r_useNew = False, r_deps = [], r_value = EMPTY\<rparr>),
       (Key (TString ''B''), \<lparr>r_token = TString ''B'', r_fn = UserFn 2, r_useNew = False, r_deps = [\<lparr>dep_id = Key (TString ''A''), dep_token = TString ''A'', options = OPT_DEFAULT\<rparr>, \<lparr>dep_id = Key (TString ''M''), dep_token = TString ''M'', options = OPT_DEFAULT\<rparr>], r_value = EMPTY\<rparr>)] NULL_INJECTOR) (TString ''B'') VUndefined 0
     = Some (Inl \<lparr>msg = Formatted (Some [TString ''B'', TString ''M'']) (NullInjectorError (TString ''M'')), ngTempTokenPath = None, ngTokenPath = Some [TString ''B'', TString ''M'']\<rparr>,
             (StaticInjector 1
      [(Key (TString ''A''), \<lparr>r_token = TString ''A'', r_fn = UserFn 1, r_useNew = False, r_deps = [], r_value = Resolved (VNumber 1)\<rparr>),
       (Key (TString ''B''), \<lparr>r_token = TString ''B'', r_fn = UserFn 2, r_useNew = False, r_deps = [\<lparr>dep_id = Key (TString ''A''), dep_token = TString ''A'', options = OPT_DEFAULT\<rparr>, \<lparr>dep_id = Key (TString ''M''), dep_token = TString ''M'', options = OPT_DEFAULT\<rparr>], r_value = EMPTY\<rparr>)] NULL_INJECTOR), 0)"
    by (simp add: getId_def lookup_record_def set_value_def OPT_DEFAULT_def OPT_CHECK_SELF_def OPT_CHECK_PARENT_def OPT_OPTIONAL_def is_circular_def path_token_def newError_def get_catch_def nullInjector_get_def Injector_def Let_def)
  have a0: "slot_at (StaticInjector 1
      [(Key (TString ''A''), \<lparr>r_token = TString ''A'', r_fn = UserFn 1, r_useNew = False, r_deps = [], r_value = EMPTY\<rparr>),
       (Key (TString ''B''), \<lparr>r_token = TString ''B'', r_fn = UserFn 2, r_useNew = False, r_deps = [\<lparr>dep_id = Key (TString ''A''), dep_token = TString ''A'', options = OPT_DEFAULT\<rparr>, \<lparr>dep_id = Key (TString ''M''), dep_token = TString ''M'', options = OPT_DEFAULT\<rparr>], r_value = EMPTY\<rparr>)] NULL_INJECTOR) 0 (Key (TString ''A'')) = Some EMPTY"
    by simp
  have a1: "slot_at (StaticInjector 1
      [(Key (TString ''A''), \<lparr>r_token = TString ''A'', r_fn = UserFn 1, r_useNew = False, r_deps = [], r_value = Resolved (VNumber 1)\<rparr>),
       (Key (TString ''B''), \<lparr>r_token = TString ''B'', r_fn = UserFn 2, r_useNew = False, r_deps = [\<lparr>dep_id = Key (TString ''A''), dep_token = TString ''A'', options = OPT_DEFAULT\<rparr>, \<lparr>dep_id = Key (TString ''M''), dep_token = TString ''M'', options = OPT_DEFAULT\<rparr>], r_value = EMPTY\<rparr>)] NULL_INJECTOR) 0 (Key (TString ''A'')) = Some (Resolved (VNumber 1))"
    by simp
  have n: "Resolved (VNumber 1) \<noteq> EMPTY"
    by simp
  show ?thesis
    by (rule conjI [OF c], rule conjI [OF g], rule conjI [OF a0], rule conjI [OF a1], rule n)
qed

subsection \<open>Memoization\<close>


lemma fills_or_clears_resolved:
  "fills_or_clears r r' \<Longrightarrow> r_value r = Resolved v \<Longrightarrow> v \<noteq> VStringOfIDENT \<Longrightarrow> r' = r"
  by (auto simp: fills_or_clears_def fills_def)

lemma chain_resolved_kept:
  "chain_rel fills_or_clears p p' \<Longrightarrow> slot_at p d k = Some (Resolved v) \<Longrightarrow> v \<noteq> VStringOfIDENT
     \<Longrightarrow> slot_at p' d k = Some (Resolved v)"
proof (induction p d k arbitrary: p' rule: slot_at.induct)
  case (1 d k)
  then show ?case by simp
next
  case (2 a records parent k)
  then obtain a' records' parent' where p': "p' = StaticInjector a' records' parent'"
    by (cases p') auto
  from 2(2) obtain r where r: "map_of records k = Some r" "r_value r = Resolved v" by auto
  from 2(1) p' have "registry_rel (\<lambda>k. fills_or_clears) records records'" by simp
  from registry_rel_Some [OF this r(1)] r(2) p' 2(3) show ?case
    by (auto dest: fills_or_clears_resolved)
next
  case (3 a records parent d k)
  then show ?case by (cases p') auto
qed

text \<open>A successful \<^verbatim>\<open>resolveToken\<close> on a record leaves the value in the record's slot.\<close>

lemma resolveToken_memoizes:
  assumes "resolveToken n app token (Some rid) records parent nfv h = Some (Inr v, records', parent', h')"
  shows "\<exists>r. map_of records' rid = Some r \<and> r_value r = Resolved v"
proof -
  from assms obtain m where n: "n = Suc m" by (cases n) auto
  from assms n obtain r where r: "map_of records rid = Some r"
    by (cases "map_of records rid") auto
  show ?thesis
  proof (cases "r_value r")
    case EMPTY
    from assms n r EMPTY obtain vs records1 parent1 h1 where
      d: "resolveDeps m app (r_deps r) (set_value records rid CIRCULAR) parent h
            = Some (Inr vs, records1, parent1, h1)"
      and e: "records' = set_value records1 rid (Resolved v)"
      by (auto simp: Let_def split: option.splits sum.splits)
    have "map_of (set_value records rid CIRCULAR) rid = Some (r\<lparr>r_value := CIRCULAR\<rparr>)"
      using r by (simp add: map_of_set_value)
    with resolver_rel_deps [OF d] obtain r1 where "map_of records1 rid = Some r1"
      by (auto dest: registry_rel_Some)
    then show ?thesis using e by (simp add: map_of_set_value)
  next
    case CIRCULAR
    then show ?thesis using assms n r by simp
  next
    case (Resolved w)
    then show ?thesis using assms n r by (auto split: if_splits)
  qed
qed

lemma get_again:
  "injector_get n app scope token nfv h = Some (Inr v, scope', h') \<Longrightarrow> v \<noteq> VStringOfIDENT
     \<Longrightarrow> injector_get n app' scope' token nfv h' = Some (Inr v, scope', h')"
proof (induction scope arbitrary: n scope' h h')
  case NULL_INJECTOR
  then show ?case by (cases n) auto
next
  case (StaticInjector a records parent)
  from StaticInjector.prems obtain n1 where n: "n = Suc n1" by (cases n) auto
  from StaticInjector.prems n obtain rid where rid: "getId token = Inr rid"
    by (cases "getId token") auto
  from StaticInjector.prems n rid obtain records' parent' where
    t: "tryResolveToken n1 app token (lookup_record records rid) records parent nfv h
          = Some (Inr v, records', parent', h')"
    and s: "scope' = StaticInjector a records' parent'"
    by (auto split: option.splits sum.splits)
  from t obtain n2 where n1: "n1 = Suc n2" by (cases n1) auto
  from t n1 have r: "resolveToken n2 app token (lookup_record records rid) records parent nfv h
          = Some (Inr v, records', parent', h')"
    by (auto simp: Let_def split: option.splits sum.splits)
  from r obtain n3 where n2: "n2 = Suc n3" by (cases n2) auto
  show ?case
  proof (cases "lookup_record records rid")
    case None
    with r n2 have g: "injector_get n3 app parent token nfv h = Some (Inr v, parent', h')"
      and e: "records' = records"
      by (auto split: option.splits)
    from StaticInjector.IH [OF g StaticInjector.prems(2)] None e show ?thesis
      by (simp add: n n1 n2 s rid)
  next
    case (Some k)
    then have k: "k = rid" by (auto simp: lookup_record_def split: option.splits)
    from resolveToken_memoizes [OF r [unfolded Some k]]
    obtain r' where "map_of records' rid = Some r'" "r_value r' = Resolved v" by blast
    then show ?thesis using StaticInjector.prems(2)
      by (simp add: n n1 n2 s rid lookup_record_def)
  qed
qed

text \<open>
  Memoization for every value but one: once \<^verbatim>\<open>get(token)\<close> has returned a value other
  than the string \<^verbatim>\<open>String(IDENT)\<close>, the same \<^verbatim>\<open>get\<close> returns it again and changes
  nothing, whatever the construction functions would now do; and every \<^verbatim>\<open>get\<close> leaves
  resolved slots holding such values as they are.
\<close>

lemma other_values_are_memoized:
  "(injector_get n app scope token notFoundValue h = Some (Inr v, scope', h') \<and> v \<noteq> VStringOfIDENT \<longrightarrow>
      (\<forall>m \<ge> n. injector_get m app' scope' token notFoundValue h' = Some (Inr v, scope', h')))
 \<and> (injector_get n app scope token notFoundValue h = Some (res, scope', h') \<and> w \<noteq> VStringOfIDENT \<longrightarrow>
      slot_at scope d k = Some (Resolved w) \<longrightarrow> slot_at scope' d k = Some (Resolved w))"
proof (intro conjI impI allI)
  fix m assume "injector_get n app scope token notFoundValue h = Some (Inr v, scope', h') \<and> v \<noteq> VStringOfIDENT"
    "n \<le> m"
  then show "injector_get m app' scope' token notFoundValue h' = Some (Inr v, scope', h')"
    by (blast intro: get_again fuel_mono_get)
next
  assume a: "injector_get n app scope token notFoundValue h = Some (res, scope', h') \<and> w \<noteq> VStringOfIDENT"
    and s: "slot_at scope d k = Some (Resolved w)"
  from resolver_rel_get [OF a [THEN conjunct1]] have "chain_rel fills_or_clears scope scope'"
    by (auto split: if_splits intro: chain_rel_mono fills_imp_clears)
  from chain_resolved_kept [OF this s] a show "slot_at scope' d k = Some (Resolved w)" by simp
qed

text \<open>
  C1.  Once \<^verbatim>\<open>get(token)\<close> has resolved a token to a value, every later \<^verbatim>\<open>get(token)\<close>
  on the scope is to return that value without running the construction function again.
  The resolver tests the in-progress mark with \<^verbatim>\<open>value == CIRCULAR\<close>, where the unresolved
  sentinel is tested with \<^verbatim>\<open>===\<close>; the loose test is also true of the string
  \<^verbatim>\<open>String(IDENT)\<close>.  With a factory that returns this string, the first \<^verbatim>\<open>get\<close>
  returns it and stores it; the second fails with "Circular dependency" and the
  \<^verbatim>\<open>catch\<close> block resets the slot to the unresolved sentinel, so that a third \<^verbatim>\<open>get\<close>
  runs the factory again.
\<close>

theorem memoized_string_taken_for_mark:
  "(injector_get (Suc (Suc (Suc (Suc 0)))) (\<lambda>f this args. Inr VStringOfIDENT)
      (StaticInjector 1
      [(Key (TString ''X''), \<lparr>r_token = TString ''X'', r_fn = UserFn 1, r_useNew = False, r_deps = [], r_value = EMPTY\<rparr>)] NULL_INJECTOR) (TString ''X'') VUndefined 0
     = Some (Inr VStringOfIDENT,
             (StaticInjector 1
      [(Key (TString ''X''), \<lparr>r_token = TString ''X'', r_fn = UserFn 1, r_useNew = False, r_deps = [], r_value = Resolved VStringOfIDENT\<rparr>)] NULL_INJECTOR), 0))
   \<and> (injector_get (Suc (Suc (Suc (Suc 0)))) (\<lambda>f this args. Inr VStringOfIDENT)
      (StaticInjector 1
      [(Key (TString ''X''), \<lparr>r_token = TString ''X'', r_fn = UserFn 1, r_useNew = False, r_deps = [], r_value = Resolved VStringOfIDENT\<rparr>)] NULL_INJECTOR) (TString ''X'') VUndefined 0
     = Some (Inl \<lparr>msg = Formatted (Some [TString ''X'']) CircularDependency, ngTempTokenPath = None, ngTokenPath = Some [TString ''X'']\<rparr>,
             (StaticInjector 1
      [(Key (TString ''X''), \<lparr>r_token = TString ''X'', r_fn = UserFn 1, r_useNew = False, r_deps = [], r_value = EMPTY\<rparr>)] NULL_INJECTOR), 0))"
proof -
  have g1: "injector_get (Suc (Suc (Suc (Suc 0)))) (\<lambda>f this args. Inr VStringOfIDENT)
      (StaticInjector 1
      [(Key (TString ''X''), \<lparr>r_token = TString ''X'', r_fn = UserFn 1, r_useNew = False, r_deps = [], r_value = EMPTY\<rparr>)] NULL_INJECTOR) (TString ''X'') VUndefined 0
     = Some (Inr VStringOfIDENT,
             (StaticInjector 1
      [(Key (TString ''X''), \<lparr>r_token = TString ''X'', r_fn = UserFn 1, r_useNew = False, r_deps = [], r_value = Resolved VStringOfIDENT\<rparr>)] NULL_INJECTOR), 0)"
    by (simp add: getId_def lookup_record_def set_value_def OPT_DEFAULT_def OPT_CHECK_SELF_def OPT_CHECK_PARENT_def OPT_OPTIONAL_def is_circular_def path_token_def newError_def get_catch_def nullInjector_get_def Injector_def Let_def)
  have g2: "injector_get (Suc (Suc (Suc (Suc 0)))) (\<lambda>f this args. Inr VStringOfIDENT)
      (StaticInjector 1
      [(Key (TString ''X''), \<lparr>r_token = TString ''X'', r_fn = UserFn 1, r_useNew = False, r_deps = [], r_value = Resolved VStringOfIDENT\<rparr>)] NULL_INJECTOR) (TString ''X'') VUndefined 0
     = Some (Inl \<lparr>msg = Formatted (Some [TString ''X'']) CircularDependency, ngTempTokenPath = None, ngTokenPath = Some [TString ''X'']\<rparr>,
             (StaticInjector 1
      [(Key (TString ''X''), \<lparr>r_token = TString ''X'', r_fn = UserFn 1, r_useNew = False, r_deps = [], r_value = EMPTY\<rparr>)] NULL_INJECTOR), 0)"
    by (simp add: getId_def lookup_record_def set_value_def OPT_DEFAULT_def OPT_CHECK_SELF_def OPT_CHECK_PARENT_def OPT_OPTIONAL_def is_circular_def path_token_def newError_def get_catch_def nullInjector_get_def Injector_def Let_def)
  show ?thesis
    by (rule conjI [OF g1], rule g2)
qed

subsection \<open>Cycles\<close>


lemma resolveDeps_prefix_fails:
  "resolveDeps n app xs records parent h = Some (Inr vs, records1, parent1, h1)
     \<Longrightarrow> resolveDeps n' app ys records1 parent1 h1 = Some (Inl e, st)
     \<Longrightarrow> \<exists>N. resolveDeps N app (xs @ ys) records parent h = Some (Inl e, st)"
proof (induction xs arbitrary: n records parent h vs)
  case Nil
  then have "records1 = records" "parent1 = parent" "h1 = h" by (cases n; auto)+
  with Nil(2) show ?case by auto
next
  case (Cons d rest)
  from Cons.prems(1) obtain k where n: "n = Suc k" by (cases n) auto
  define childRecord where "childRecord =
     (if options d AND OPT_CHECK_SELF \<noteq> 0 then lookup_record records (dep_id d) else None)"
  define useNull where "useNull = (childRecord = None \<and> options d AND OPT_CHECK_PARENT = 0)"
  define nfv' where "nfv' = (if options d AND OPT_OPTIONAL \<noteq> 0 then VNull else THROW_IF_NOT_FOUND)"
  define p where "p = (if useNull then NULL_INJECTOR else parent)"
  note defs = childRecord_def [symmetric] useNull_def [symmetric] nfv'_def [symmetric] p_def [symmetric]
  from Cons.prems(1) n obtain v recordsA parentA hA vs' where
    a: "tryResolveToken k app (dep_token d) childRecord records p nfv' h = Some (Inr v, recordsA, parentA, hA)"
    and b: "resolveDeps k app rest recordsA (if useNull then parent else parentA) hA
              = Some (Inr vs', records1, parent1, h1)"
    by (auto simp: Let_def defs split: option.splits sum.splits)
  from Cons.IH [OF b Cons.prems(2)] obtain N where
    c: "resolveDeps N app (rest @ ys) recordsA (if useNull then parent else parentA) hA = Some (Inl e, st)"
    by blast
  have a': "tryResolveToken (max k N) app (dep_token d) childRecord records p nfv' h = Some (Inr v, recordsA, parentA, hA)"
    using a by (rule fuel_mono_try) simp
  have c': "resolveDeps (max k N) app (rest @ ys) recordsA (if useNull then parent else parentA) hA = Some (Inl e, st)"
    using c by (rule fuel_mono_deps) simp
  have "resolveDeps (Suc (max k N)) app ((d # rest) @ ys) records parent h = Some (Inl e, st)"
    using a' c' by (cases st) (simp add: Let_def defs)
  then show ?case by blast
qed

lemma reenters_try:
  "reenters app records parent h rid
     \<Longrightarrow> \<exists>n e st. tryResolveToken n app token (Some rid) records parent nfv h = Some (Inl e, st)
                   \<and> msg e = CircularDependency"
proof (induction arbitrary: token nfv rule: reenters.induct)
  case (hit records rid r j n parent h vs records1 parent1 h1 r')
  let ?d = "r_deps r ! j"
  have ds: "r_deps r = take j (r_deps r) @ ?d # drop (Suc j) (r_deps r)"
    using hit(3) by (simp add: id_take_nth_drop [symmetric])
  have "\<exists>e st. resolveDeps (Suc (Suc (Suc 0))) app (?d # drop (Suc j) (r_deps r)) records1 parent1 h1
          = Some (Inl e, st) \<and> msg e = CircularDependency"
    using hit(5,6,7) by (simp add: Let_def lookup_record_def newError_def)
  then obtain e st where
    f: "resolveDeps (Suc (Suc (Suc 0))) app (?d # drop (Suc j) (r_deps r)) records1 parent1 h1 = Some (Inl e, st)"
    and m: "msg e = CircularDependency" by blast
  from resolveDeps_prefix_fails [OF hit(4) f] ds obtain N where
    "resolveDeps N app (r_deps r) (set_value records rid CIRCULAR) parent h = Some (Inl e, st)"
    by auto
  then have "\<exists>e' st'. tryResolveToken (Suc (Suc N)) app token (Some rid) records parent nfv h = Some (Inl e', st')
                \<and> msg e' = CircularDependency"
    using hit(1,2) m by (cases st) (simp add: Let_def)
  then show ?case by blast
next
  case (via records rid r j n parent h vs records1 parent1 h1)
  let ?d = "r_deps r ! j"
  have ds: "r_deps r = take j (r_deps r) @ ?d # drop (Suc j) (r_deps r)"
    using via(3) by (simp add: id_take_nth_drop [symmetric])
  from via.hyps(6) obtain r' where r': "map_of records1 (dep_id ?d) = Some r'"
    by (auto elim: reenters.cases)
  from via.IH [of "dep_token ?d" "if options ?d AND OPT_OPTIONAL \<noteq> 0 then VNull else THROW_IF_NOT_FOUND"]
  obtain k e0 st0 where
    t: "tryResolveToken k app (dep_token ?d) (Some (dep_id ?d)) records1 parent1
          (if options ?d AND OPT_OPTIONAL \<noteq> 0 then VNull else THROW_IF_NOT_FOUND) h1 = Some (Inl e0, st0)"
    and m: "msg e0 = CircularDependency" by blast
  have "\<exists>e st. resolveDeps (Suc k) app (?d # drop (Suc j) (r_deps r)) records1 parent1 h1
          = Some (Inl e, st) \<and> msg e = CircularDependency"
    using via(5) r' t m by (cases st0) (simp add: Let_def lookup_record_def)
  then obtain e st where
    f: "resolveDeps (Suc k) app (?d # drop (Suc j) (r_deps r)) records1 parent1 h1 = Some (Inl e, st)"
    and m: "msg e = CircularDependency" by blast
  from resolveDeps_prefix_fails [OF via(4) f] ds obtain N where
    "resolveDeps N app (r_deps r) (set_value records rid CIRCULAR) parent h = Some (Inl e, st)"
    by auto
  then have "\<exists>e' st'. tryResolveToken (Suc (Suc N)) app token (Some rid) records parent nfv h = Some (Inl e', st')
                \<and> msg e' = CircularDependency"
    using via(1,2) m by (cases st) (simp add: Let_def)
  then show ?case by blast
qed

text \<open>
  C2.  When the resolution of a token's record runs into a record that is in progress
  (a cycle of any length, a token depending on itself included), \<^verbatim>\<open>get\<close> on that token
  returns within a bounded number of nested calls, and what it returns is the failure
  first thrown as "Circular dependency".
\<close>

theorem cycle_fails_with_circular_dependency:
  assumes "reenters app records parent h rid"
      and "getId token = Inr rid"
  shows "\<exists>n e scope' h'.
           (\<forall>m \<ge> n. injector_get m app (StaticInjector a records parent) token notFoundValue h
                      = Some (Inl e, scope', h'))
         \<and> cause (msg e) = CircularDependency"
proof -
  from reenters_try [OF assms(1), of token notFoundValue] obtain n e records' parent' h' where
    t: "tryResolveToken n app token (Some rid) records parent notFoundValue h
          = Some (Inl e, records', parent', h')"
    and m: "msg e = CircularDependency" by (metis prod_cases3)
  from assms(1) have "lookup_record records rid = Some rid"
    by (auto simp: lookup_record_def elim: reenters.cases)
  with t assms(2) have g: "injector_get (Suc n) app (StaticInjector a records parent) token notFoundValue h
          = Some (Inl (get_catch e), StaticInjector a records' parent', h')"
    by simp
  have "\<forall>m \<ge> Suc n. injector_get m app (StaticInjector a records parent) token notFoundValue h
          = Some (Inl (get_catch e), StaticInjector a records' parent', h')"
    using fuel_mono_get [OF g] by blast
  moreover have "cause (msg (get_catch e)) = CircularDependency"
    using m by (simp add: get_catch_def)
  ultimately show ?thesis by blast
qed

theorem cycle_fails_with_circular_dependency_witness:
  "reenters (\<lambda>f this args. Inr VUndefined)
       [(Key (TString ''A''), \<lparr>r_token = TString ''A'', r_fn = UserFn 1, r_useNew = False,
          r_deps = [\<lparr>dep_id = Key (TString ''B''), dep_token = TString ''B'', options = OPT_DEFAULT\<rparr>],
          r_value = EMPTY\<rparr>),
        (Key (TString ''B''), \<lparr>r_token = TString ''B'', r_fn = UserFn 1, r_useNew = False,
          r_deps = [\<lparr>dep_id = Key (TString ''A''), dep_token = TString ''A'', options = OPT_DEFAULT\<rparr>],
          r_value = EMPTY\<rparr>)] NULL_INJECTOR 0 (Key (TString ''A''))
   \<and> getId (TString ''A'') = Inr (Key (TString ''A''))
   \<and> (\<exists>n e scope' h'.
         (\<forall>m \<ge> n. injector_get m (\<lambda>f this args. Inr VUndefined)
              (StaticInjector 1
                [(Key (TString ''A''), \<lparr>r_token = TString ''A'', r_fn = UserFn 1, r_useNew = False,
          r_deps = [\<lparr>dep_id = Key (TString ''B''), dep_token = TString ''B'', options = OPT_DEFAULT\<rparr>],
          r_value = EMPTY\<rparr>),
        (Key (TString ''B''), \<lparr>r_token = TString ''B'', r_fn = UserFn 1, r_useNew = False,
          r_deps = [\<lparr>dep_id = Key (TString ''A''), dep_token = TString ''A'', options = OPT_DEFAULT\<rparr>],
          r_value = EMPTY\<rparr>)] NULL_INJECTOR) (TString ''A'') VUndefined 0
            = Some (Inl e, scope', h'))
       \<and> cause (msg e) = CircularDependency)"
proof -
  let ?app = "(\<lambda>f this args. Inr VUndefined)"
  let ?R0 = "[(Key (TString ''A''), \<lparr>r_token = TString ''A'', r_fn = UserFn 1, r_useNew = False,
          r_deps = [\<lparr>dep_id = Key (TString ''B''), dep_token = TString ''B'', options = OPT_DEFAULT\<rparr>],
          r_value = EMPTY\<rparr>),
        (Key (TString ''B''), \<lparr>r_token = TString ''B'', r_fn = UserFn 1, r_useNew = False,
          r_deps = [\<lparr>dep_id = Key (TString ''A''), dep_token = TString ''A'', options = OPT_DEFAULT\<rparr>],
          r_value = EMPTY\<rparr>)]"
  let ?R1 = "[(Key (TString ''A''), \<lparr>r_token = TString ''A'', r_fn = UserFn 1, r_useNew = False,
          r_deps = [\<lparr>dep_id = Key (TString ''B''), dep_token = TString ''B'', options = OPT_DEFAULT\<rparr>],
          r_value = CIRCULAR\<rparr>),
        (Key (TString ''B''), \<lparr>r_token = TString ''B'', r_fn = UserFn 1, r_useNew = False,
          r_deps = [\<lparr>dep_id = Key (TString ''A''), dep_token = TString ''A'', options = OPT_DEFAULT\<rparr>],
          r_value = EMPTY\<rparr>)]"
  let ?R2 = "[(Key (TString ''A''), \<lparr>r_token = TString ''A'', r_fn = UserFn 1, r_useNew = False,
          r_deps = [\<lparr>dep_id = Key (TString ''B''), dep_token = TString ''B'', options = OPT_DEFAULT\<rparr>],
          r_value = CIRCULAR\<rparr>),
        (Key (TString ''B''), \<lparr>r_token = TString ''B'', r_fn = UserFn 1, r_useNew = False,
          r_deps = [\<lparr>dep_id = Key (TString ''A''), dep_token = TString ''A'', options = OPT_DEFAULT\<rparr>],
          r_value = CIRCULAR\<rparr>)]"
  have b: "reenters ?app ?R1 NULL_INJECTOR 0 (Key (TString ''B''))"
    by (rule reenters.hit [where j = 0 and n = "Suc 0" and vs = "[]" and ?records1.0 = ?R2
          and ?parent1.0 = NULL_INJECTOR and ?h1.0 = 0
          and r = "\<lparr>r_token = TString ''B'', r_fn = UserFn 1, r_useNew = False,
          r_deps = [\<lparr>dep_id = Key (TString ''A''), dep_token = TString ''A'', options = OPT_DEFAULT\<rparr>],
          r_value = EMPTY\<rparr>"
          and r' = "\<lparr>r_token = TString ''A'', r_fn = UserFn 1, r_useNew = False,
          r_deps = [\<lparr>dep_id = Key (TString ''B''), dep_token = TString ''B'', options = OPT_DEFAULT\<rparr>],
          r_value = CIRCULAR\<rparr>"])
       (simp_all add: set_value_def OPT_DEFAULT_def OPT_CHECK_SELF_def OPT_CHECK_PARENT_def)
  have a: "reenters ?app ?R0 NULL_INJECTOR 0 (Key (TString ''A''))"
    by (rule reenters.via [where j = 0 and n = "Suc 0" and vs = "[]" and ?records1.0 = ?R1
          and ?parent1.0 = NULL_INJECTOR and ?h1.0 = 0
          and r = "\<lparr>r_token = TString ''A'', r_fn = UserFn 1, r_useNew = False,
          r_deps = [\<lparr>dep_id = Key (TString ''B''), dep_token = TString ''B'', options = OPT_DEFAULT\<rparr>],
          r_value = EMPTY\<rparr>"])
       (use b in \<open>simp_all add: set_value_def OPT_DEFAULT_def OPT_CHECK_SELF_def OPT_CHECK_PARENT_def\<close>)
  have g: "getId (TString ''A'') = Inr (Key (TString ''A''))"
    by (simp add: getId_def)
  from cycle_fails_with_circular_dependency [OF a g, of 1 VUndefined]
  have c: "(\<exists>n e scope' h'.
         (\<forall>m \<ge> n. injector_get m (\<lambda>f this args. Inr VUndefined)
              (StaticInjector 1
                [(Key (TString ''A''), \<lparr>r_token = TString ''A'', r_fn = UserFn 1, r_useNew = False,
          r_deps = [\<lparr>dep_id = Key (TString ''B''), dep_token = TString ''B'', options = OPT_DEFAULT\<rparr>],
          r_value = EMPTY\<rparr>),
        (Key (TString ''B''), \<lparr>r_token = TString ''B'', r_fn = UserFn 1, r_useNew = False,
          r_deps = [\<lparr>dep_id = Key (TString ''A''), dep_token = TString ''A'', options = OPT_DEFAULT\<rparr>],
          r_value = EMPTY\<rparr>)] NULL_INJECTOR) (TString ''A'') VUndefined 0
            = Some (Inl e, scope', h'))
       \<and> cause (msg e) = CircularDependency)" .
  show ?thesis
    by (intro conjI a g c)
qed

subsection \<open>Records of class kind\<close>


text \<open>
  C9.  For a record of class kind (\<^verbatim>\<open>useNew\<close>), the resolver creates an object, applies
  the construction function to the resolved dependency values with the object as
  \<^verbatim>\<open>this\<close>, and, when the function returns \<^verbatim>\<open>undefined\<close>, resolves the token to the
  object just created; any other returned value is the resolved value.  Records of class
  kind are those built from \<^verbatim>\<open>useClass\<close> or from a bare constructor.
\<close>

theorem class_record_resolves_to_instance:
  "(getId token = Inr rid \<and> map_of records rid = Some r \<and> r_value r = EMPTY
      \<and> r_useNew r \<and> r_fn r = UserFn c
      \<and> resolveDeps n app (r_deps r) (set_value records rid CIRCULAR) parent h
          = Some (Inr depValues, records1, parent1, h1)
      \<and> app c (VObject h1) depValues = Inr v \<longrightarrow>
    injector_get (Suc (Suc (Suc n))) app (StaticInjector a records parent) token notFoundValue h
      = Some (Inr (if v = VUndefined then VObject h1 else v),
              StaticInjector a
                (set_value records1 rid (Resolved (if v = VUndefined then VObject h1 else v))) parent1,
              Suc h1))
 \<and> (resolveProvider provider = Inr r' \<and> useValue provider = None \<and> useFactory provider = None
      \<and> useExisting provider = None
      \<and> (useClass provider = Some c' \<or> useClass provider = None \<and> provide provider = Some (TFunction c')) \<longrightarrow>
    r_useNew r' \<and> r_fn r' = UserFn c' \<and> r_value r' = EMPTY)"
proof (intro conjI impI)
  assume a: "getId token = Inr rid \<and> map_of records rid = Some r \<and> r_value r = EMPTY
      \<and> r_useNew r \<and> r_fn r = UserFn c
      \<and> resolveDeps n app (r_deps r) (set_value records rid CIRCULAR) parent h
          = Some (Inr depValues, records1, parent1, h1)
      \<and> app c (VObject h1) depValues = Inr v"
  then show "injector_get (Suc (Suc (Suc n))) app (StaticInjector a records parent) token notFoundValue h
      = Some (Inr (if v = VUndefined then VObject h1 else v),
              StaticInjector a
                (set_value records1 rid (Resolved (if v = VUndefined then VObject h1 else v))) parent1,
              Suc h1)"
    by (simp add: lookup_record_def Let_def)
next
  assume "resolveProvider provider = Inr r' \<and> useValue provider = None \<and> useFactory provider = None
      \<and> useExisting provider = None
      \<and> (useClass provider = Some c' \<or> useClass provider = None \<and> provide provider = Some (TFunction c'))"
  then have "r_useNew r' \<and> r_fn r' = UserFn c' \<and> r_value r' = EMPTY"
    by (auto simp: resolveProvider_def Let_def split: sum.splits)
  then show "r_useNew r'" "r_fn r' = UserFn c'" "r_value r' = EMPTY" by simp_all
qed

theorem class_record_resolves_to_instance_witness:
  "(getId (TString ''S'') = Inr (Key (TString ''S''))
   \<and> map_of [(Key Injector, \<lparr>r_token = Injector, r_fn = IDENT, r_useNew = False, r_deps = [], r_value = Resolved (VInjector 1)\<rparr>),
       (Key (TString ''S''), \<lparr>r_token = TString ''S'', r_fn = UserFn 3, r_useNew = True, r_deps = [], r_value = EMPTY\<rparr>)] (Key (TString ''S''))
       = Some \<lparr>r_token = TString ''S'', r_fn = UserFn 3, r_useNew = True, r_deps = [], r_value = EMPTY\<rparr>
   \<and> r_value \<lparr>r_token = TString ''S'', r_fn = UserFn 3, r_useNew = True, r_deps = [], r_value = EMPTY\<rparr> = EMPTY
   \<and> r_useNew \<lparr>r_token = TString ''S'', r_fn = UserFn 3, r_useNew = True, r_deps = [], r_value = EMPTY\<rparr>
   \<and> r_fn \<lparr>r_token = TString ''S'', r_fn = UserFn 3, r_useNew = True, r_deps = [], r_value = EMPTY\<rparr> = UserFn 3
   \<and> resolveDeps (Suc 0) (\<lambda>f this args. Inr VUndefined) (r_deps \<lparr>r_token = TString ''S'', r_fn = UserFn 3, r_useNew = True, r_deps = [], r_value = EMPTY\<rparr>)
         (set_value [(Key Injector, \<lparr>r_token = Injector, r_fn = IDENT, r_useNew = False, r_deps = [], r_value = Resolved (VInjector 1)\<rparr>),
       (Key (TString ''S''), \<lparr>r_token = TString ''S'', r_fn = UserFn 3, r_useNew = True, r_deps = [], r_value = EMPTY\<rparr>)] (Key (TString ''S'')) CIRCULAR) NULL_INJECTOR 0
       = Some (Inr [], [(Key Injector, \<lparr>r_token = Injector, r_fn = IDENT, r_useNew = False, r_deps = [], r_value = Resolved (VInjector 1)\<rparr>),
       (Key (TString ''S''), \<lparr>r_token = TString ''S'', r_fn = UserFn 3, r_useNew = True, r_deps = [], r_value = CIRCULAR\<rparr>)], NULL_INJECTOR, 0)
   \<and> (\<lambda>f this args. Inr VUndefined) 3 (VObject 0) [] = Inr VUndefined)
   \<and> ( injector_get (Suc (Suc (Suc (Suc 0)))) (\<lambda>f this args. Inr VUndefined)
         (StaticInjector 1 [(Key Injector, \<lparr>r_token = Injector, r_fn = IDENT, r_useNew = False, r_deps = [], r_value = Resolved (VInjector 1)\<rparr>),
       (Key (TString ''S''), \<lparr>r_token = TString ''S'', r_fn = UserFn 3, r_useNew = True, r_deps = [], r_value = EMPTY\<rparr>)] NULL_INJECTOR) (TString ''S'') VUndefined 0
       = Some (Inr (VObject 0),
               StaticInjector 1 [(Key Injector, \<lparr>r_token = Injector, r_fn = IDENT, r_useNew = False, r_deps = [], r_value = Resolved (VInjector 1)\<rparr>),
       (Key (TString ''S''), \<lparr>r_token = TString ''S'', r_fn = UserFn 3, r_useNew = True, r_deps = [], r_value = Resolved (VObject 0)\<rparr>)] NULL_INJECTOR,
               Suc 0))
   \<and> ( resolveProvider \<lparr>provide = Some (TString ''S''), useValue = None, useFactory = None, useExisting = None, useClass = Some 3, deps = Some [], multi = False\<rparr>
       = Inr \<lparr>r_token = TString ''S'', r_fn = UserFn 3, r_useNew = True, r_deps = [], r_value = EMPTY\<rparr>
   \<and> useValue \<lparr>provide = Some (TString ''S''), useValue = None, useFactory = None, useExisting = None, useClass = Some 3, deps = Some [], multi = False\<rparr> = None
   \<and> useFactory \<lparr>provide = Some (TString ''S''), useValue = None, useFactory = None, useExisting = None, useClass = Some 3, deps = Some [], multi = False\<rparr> = None
   \<and> useExisting \<lparr>provide = Some (TString ''S''), useValue = None, useFactory = None, useExisting = None, useClass = Some 3, deps = Some [], multi = False\<rparr> = None
   \<and> useClass \<lparr>provide = Some (TString ''S''), useValue = None, useFactory = None, useExisting = None, useClass = Some 3, deps = Some [], multi = False\<rparr> = Some 3)
   \<and>  create 1 [PObject \<lparr>provide = Some (TString ''S''), useValue = None, useFactory = None, useExisting = None, useClass = Some 3, deps = Some [], multi = False\<rparr>] None
       = Inr (StaticInjector 1 [(Key Injector, \<lparr>r_token = Injector, r_fn = IDENT, r_useNew = False, r_deps = [], r_value = Resolved (VInjector 1)\<rparr>),
       (Key (TString ''S''), \<lparr>r_token = TString ''S'', r_fn = UserFn 3, r_useNew = True, r_deps = [], r_value = EMPTY\<rparr>)] NULL_INJECTOR)"
proof -
  have h1: "getId (TString ''S'') = Inr (Key (TString ''S''))
   \<and> map_of [(Key Injector, \<lparr>r_token = Injector, r_fn = IDENT, r_useNew = False, r_deps = [], r_value = Resolved (VInjector 1)\<rparr>),
       (Key (TString ''S''), \<lparr>r_token = TString ''S'', r_fn = UserFn 3, r_useNew = True, r_deps = [], r_value = EMPTY\<rparr>)] (Key (TString ''S''))
       = Some \<lparr>r_token = TString ''S'', r_fn = UserFn 3, r_useNew = True, r_deps = [], r_value = EMPTY\<rparr>
   \<and> r_value \<lparr>r_token = TString ''S'', r_fn = UserFn 3, r_useNew = True, r_deps = [], r_value = EMPTY\<rparr> = EMPTY
   \<and> r_useNew \<lparr>r_token = TString ''S'', r_fn = UserFn 3, r_useNew = True, r_deps = [], r_value = EMPTY\<rparr>
   \<and> r_fn \<lparr>r_token = TString ''S'', r_fn = UserFn 3, r_useNew = True, r_deps = [], r_value = EMPTY\<rparr> = UserFn 3
   \<and> resolveDeps (Suc 0) (\<lambda>f this args. Inr VUndefined) (r_deps \<lparr>r_token = TString ''S'', r_fn = UserFn 3, r_useNew = True, r_deps = [], r_value = EMPTY\<rparr>)
         (set_value [(Key Injector, \<lparr>r_token = Injector, r_fn = IDENT, r_useNew = False, r_deps = [], r_value = Resolved (VInjector 1)\<rparr>),
       (Key (TString ''S''), \<lparr>r_token = TString ''S'', r_fn = UserFn 3, r_useNew = True, r_deps = [], r_value = EMPTY\<rparr>)] (Key (TString ''S'')) CIRCULAR) NULL_INJECTOR 0
       = Some (Inr [], [(Key Injector, \<lparr>r_token = Injector, r_fn = IDENT, r_useNew = False, r_deps = [], r_value = Resolved (VInjector 1)\<rparr>),
       (Key (TString ''S''), \<lparr>r_token = TString ''S'', r_fn = UserFn 3, r_useNew = True, r_deps = [], r_value = CIRCULAR\<rparr>)], NULL_INJECTOR, 0)
   \<and> (\<lambda>f this args. Inr VUndefined) 3 (VObject 0) [] = Inr VUndefined"
    by (simp add: getId_def Injector_def set_value_def)
  have h2: "resolveProvider \<lparr>provide = Some (TString ''S''), useValue = None, useFactory = None, useExisting = None, useClass = Some 3, deps = Some [], multi = False\<rparr>
       = Inr \<lparr>r_token = TString ''S'', r_fn = UserFn 3, r_useNew = True, r_deps = [], r_value = EMPTY\<rparr>
   \<and> useValue \<lparr>provide = Some (TString ''S''), useValue = None, useFactory = None, useExisting = None, useClass = Some 3, deps = Some [], multi = False\<rparr> = None
   \<and> useFactory \<lparr>provide = Some (TString ''S''), useValue = None, useFactory = None, useExisting = None, useClass = Some 3, deps = Some [], multi = False\<rparr> = None
   \<and> useExisting \<lparr>provide = Some (TString ''S''), useValue = None, useFactory = None, useExisting = None, useClass = Some 3, deps = Some [], multi = False\<rparr> = None
   \<and> useClass \<lparr>provide = Some (TString ''S''), useValue = None, useFactory = None, useExisting = None, useClass = Some 3, deps = Some [], multi = False\<rparr> = Some 3"
    by (simp add: resolveProvider_def computeDeps_def)
  have cr: "create 1 [PObject \<lparr>provide = Some (TString ''S''), useValue = None, useFactory = None, useExisting = None, useClass = Some 3, deps = Some [], multi = False\<rparr>] None
       = Inr (StaticInjector 1 [(Key Injector, \<lparr>r_token = Injector, r_fn = IDENT, r_useNew = False, r_deps = [], r_value = Resolved (VInjector 1)\<rparr>),
       (Key (TString ''S''), \<lparr>r_token = TString ''S'', r_fn = UserFn 3, r_useNew = True, r_deps = [], r_value = EMPTY\<rparr>)] NULL_INJECTOR)"
    by (simp add: create_def new_StaticInjector_def getId_def Injector_def processProvider_def
          resolveProvider_def computeDeps_def holds_multi_def)
  note th = class_record_resolves_to_instance [where token = "TString ''S''" and rid = "Key (TString ''S'')"
      and records = "[(Key Injector, \<lparr>r_token = Injector, r_fn = IDENT, r_useNew = False, r_deps = [], r_value = Resolved (VInjector 1)\<rparr>),
       (Key (TString ''S''), \<lparr>r_token = TString ''S'', r_fn = UserFn 3, r_useNew = True, r_deps = [], r_value = EMPTY\<rparr>)]"
      and r = "\<lparr>r_token = TString ''S'', r_fn = UserFn 3, r_useNew = True, r_deps = [], r_value = EMPTY\<rparr>" and c = 3 and n = "Suc 0" and app = "(\<lambda>f this args. Inr VUndefined)"
      and parent = NULL_INJECTOR and h = 0 and depValues = "[]"
      and ?records1.0 = "[(Key Injector, \<lparr>r_token = Injector, r_fn = IDENT, r_useNew = False, r_deps = [], r_value = Resolved (VInjector 1)\<rparr>),
       (Key (TString ''S''), \<lparr>r_token = TString ''S'', r_fn = UserFn 3, r_useNew = True, r_deps = [], r_value = CIRCULAR\<rparr>)]"
      and ?parent1.0 = NULL_INJECTOR and ?h1.0 = 0 and v = VUndefined and a = 1
      and notFoundValue = VUndefined
      and provider = "\<lparr>provide = Some (TString ''S''), useValue = None, useFactory = None, useExisting = None, useClass = Some 3, deps = Some [], multi = False\<rparr>" and r' = "\<lparr>r_token = TString ''S'', r_fn = UserFn 3, r_useNew = True, r_deps = [], r_value = EMPTY\<rparr>" and c' = 3]
  have c1: "injector_get (Suc (Suc (Suc (Suc 0)))) (\<lambda>f this args. Inr VUndefined)
         (StaticInjector 1 [(Key Injector, \<lparr>r_token = Injector, r_fn = IDENT, r_useNew = False, r_deps = [], r_value = Resolved (VInjector 1)\<rparr>),
       (Key (TString ''S''), \<lparr>r_token = TString ''S'', r_fn = UserFn 3, r_useNew = True, r_deps = [], r_value = EMPTY\<rparr>)] NULL_INJECTOR) (TString ''S'') VUndefined 0
       = Some (Inr (VObject 0),
               StaticInjector 1 [(Key Injector, \<lparr>r_token = Injector, r_fn = IDENT, r_useNew = False, r_deps = [], r_value = Resolved (VInjector 1)\<rparr>),
       (Key (TString ''S''), \<lparr>r_token = TString ''S'', r_fn = UserFn 3, r_useNew = True, r_deps = [], r_value = Resolved (VObject 0)\<rparr>)] NULL_INJECTOR,
               Suc 0)"
    using th h1 by (simp add: set_value_def Injector_def)
  show ?thesis
    by (rule conjI [OF h1], rule conjI [OF c1], rule conjI [OF h2], rule cr)
qed

subsection \<open>Where a dependency is looked up\<close>


lemma opt_default_bits [simp]:
  "OPT_DEFAULT AND OPT_CHECK_SELF \<noteq> 0" "OPT_DEFAULT AND OPT_CHECK_PARENT \<noteq> 0"
  "OPT_DEFAULT AND OPT_OPTIONAL = 0"
  "(OPT_DEFAULT AND NOT OPT_CHECK_PARENT) AND OPT_CHECK_SELF \<noteq> 0"
  "(OPT_DEFAULT AND NOT OPT_CHECK_PARENT) AND OPT_CHECK_PARENT = 0"
  "(OPT_DEFAULT AND NOT OPT_CHECK_PARENT) AND OPT_OPTIONAL = 0"
  "(OPT_DEFAULT AND NOT OPT_CHECK_SELF) AND OPT_CHECK_SELF = 0"
  "(OPT_DEFAULT AND NOT OPT_CHECK_SELF) AND OPT_CHECK_PARENT \<noteq> 0"
  "(OPT_DEFAULT AND NOT OPT_CHECK_SELF) AND OPT_OPTIONAL = 0"
  by (simp_all add: OPT_DEFAULT_def OPT_CHECK_SELF_def OPT_CHECK_PARENT_def OPT_OPTIONAL_def)

lemma direct_try:
  assumes "map_of records rid = Some r" "direct_value app r h = Some (v, h1)"
  shows "\<exists>records1. tryResolveToken (Suc (Suc (Suc k))) app token (Some rid) records parent nfv h
                        = Some (Inr v, records1, parent, h1)
                  \<and> (\<forall>k'. k' \<noteq> rid \<longrightarrow> map_of records1 k' = map_of records k')"
proof -
  have "\<exists>records1. resolveToken (Suc (Suc k)) app token (Some rid) records parent nfv h
                        = Some (Inr v, records1, parent, h1)
                  \<and> (\<forall>k'. k' \<noteq> rid \<longrightarrow> map_of records1 k' = map_of records k')"
    using assms
    by (cases "r_value r")
       (auto simp: Let_def map_of_set_value split: if_splits sum.splits fn.splits list.splits)
  then show ?thesis by (auto simp del: resolveToken.simps)
qed



subsection \<open>Optional dependencies\<close>



lemma absent_token_yields_fallback:
  "\<not> has_provider parent rid \<Longrightarrow> getId token = Inr rid
     \<Longrightarrow> \<exists>N. \<forall>n \<ge> N. injector_get n app parent token VNull h = Some (Inr VNull, parent, h)"
proof (induction parent)
  case NULL_INJECTOR
  have "injector_get (Suc 0) app NULL_INJECTOR token VNull h = Some (Inr VNull, NULL_INJECTOR, h)"
    by (simp add: nullInjector_get_def)
  then show ?case by (blast intro: fuel_mono_get)
next
  case (StaticInjector a records parent)
  from StaticInjector.prems(1) have n: "map_of records rid = None" "\<not> has_provider parent rid"
    by auto
  from StaticInjector.IH [OF n(2) StaticInjector.prems(2)] obtain N where
    "injector_get N app parent token VNull h = Some (Inr VNull, parent, h)" by blast
  then have "resolveToken (Suc N) app token None records parent VNull h = Some (Inr VNull, records, parent, h)"
    by simp
  then have "tryResolveToken (Suc (Suc N)) app token None records parent VNull h
               = Some (Inr VNull, records, parent, h)"
    by (simp del: resolveToken.simps)
  then have "injector_get (Suc (Suc (Suc N))) app (StaticInjector a records parent) token VNull h
               = Some (Inr VNull, StaticInjector a records parent, h)"
    using n(1) StaticInjector.prems(2) by (simp add: lookup_record_def del: tryResolveToken.simps)
  then show ?case by (blast intro: fuel_mono_get)
qed

lemma optional_absent_try:
  assumes "options d AND OPT_OPTIONAL \<noteq> 0"
      and "getId (dep_token d) = Inr (dep_id d)"
      and "options d AND OPT_CHECK_PARENT \<noteq> 0 \<longrightarrow> \<not> has_provider parent (dep_id d)"
  shows "\<exists>N. \<forall>n \<ge> N. tryResolveToken n app (dep_token d) None records
            (if options d AND OPT_CHECK_PARENT = 0 then NULL_INJECTOR else parent) VNull h
          = Some (Inr VNull, records, if options d AND OPT_CHECK_PARENT = 0 then NULL_INJECTOR else parent, h)"
proof -
  let ?p = "if options d AND OPT_CHECK_PARENT = 0 then NULL_INJECTOR else parent"
  have "\<not> has_provider ?p (dep_id d)" using assms(3) by simp
  from absent_token_yields_fallback [OF this assms(2)] obtain N where
    "injector_get N app ?p (dep_token d) VNull h = Some (Inr VNull, ?p, h)" by blast
  then have "resolveToken (Suc N) app (dep_token d) None records ?p VNull h = Some (Inr VNull, records, ?p, h)"
    by simp
  then have "tryResolveToken (Suc (Suc N)) app (dep_token d) None records ?p VNull h
               = Some (Inr VNull, records, ?p, h)"
    by (simp del: resolveToken.simps)
  then show ?thesis by (blast intro: fuel_mono_try)
qed


lemma optional_step:
  assumes "options d AND OPT_OPTIONAL \<noteq> 0" "getId (dep_token d) = Inr (dep_id d)"
     "options d AND OPT_CHECK_SELF \<noteq> 0 \<longrightarrow> map_of records (dep_id d) = None"
     "options d AND OPT_CHECK_PARENT \<noteq> 0 \<longrightarrow> \<not> has_provider parent (dep_id d)"
  shows "\<exists>N. \<forall>n \<ge> N. resolveDeps (Suc n) app (d # rest) records parent h =
        (case resolveDeps n app rest records parent h of
           None \<Rightarrow> None
         | Some (Inl e, st) \<Rightarrow> Some (Inl e, st)
         | Some (Inr vs, st) \<Rightarrow> Some (Inr (VNull # vs), st))"
proof -
  let ?p = "if options d AND OPT_CHECK_PARENT = 0 then NULL_INJECTOR else parent"
  from assms(3) have c: "(if options d AND OPT_CHECK_SELF \<noteq> 0 then lookup_record records (dep_id d) else None) = None"
    by (simp add: lookup_record_def)
  from optional_absent_try [OF assms(1,2,4), of app records h] obtain N where
    N: "\<forall>n \<ge> N. tryResolveToken n app (dep_token d) None records ?p VNull h = Some (Inr VNull, records, ?p, h)"
    by blast
  have "resolveDeps (Suc n) app (d # rest) records parent h =
        (case resolveDeps n app rest records parent h of
           None \<Rightarrow> None
         | Some (Inl e, st) \<Rightarrow> Some (Inl e, st)
         | Some (Inr vs, st) \<Rightarrow> Some (Inr (VNull # vs), st))" if "n \<ge> N" for n
  proof -
    have t: "tryResolveToken n app (dep_token d) None records ?p VNull h = Some (Inr VNull, records, ?p, h)"
      using N that by blast
    show ?thesis
    proof (cases "options d AND OPT_CHECK_PARENT = 0")
      case True
      with t have "tryResolveToken n app (dep_token d) None records NULL_INJECTOR VNull h
                     = Some (Inr VNull, records, NULL_INJECTOR, h)" by simp
      then show ?thesis using True assms(1) c
        by (simp add: Let_def del: tryResolveToken.simps split: option.splits sum.splits)
    next
      case False
      with t have "tryResolveToken n app (dep_token d) None records parent VNull h
                     = Some (Inr VNull, records, parent, h)" by simp
      then show ?thesis using False assms(1) c
        by (simp add: Let_def del: tryResolveToken.simps split: option.splits sum.splits)
    qed
  qed
  then show ?thesis by blast
qed


lemma not_optional_bits:
  "(w AND NOT OPT_OPTIONAL) AND OPT_CHECK_SELF = w AND OPT_CHECK_SELF"
  "(w AND NOT OPT_OPTIONAL) AND OPT_CHECK_PARENT = w AND OPT_CHECK_PARENT"
  "(w AND NOT OPT_OPTIONAL) AND OPT_OPTIONAL = 0"
  by (simp_all add: OPT_OPTIONAL_def OPT_CHECK_SELF_def OPT_CHECK_PARENT_def word_bw_assocs)

lemma try_record_nfv:
  "tryResolveToken n app token (Some rid) records parent nfv h
     = tryResolveToken n app token (Some rid) records parent nfv' h"
proof (cases n)
  case 0
  then show ?thesis by simp
next
  case (Suc m)
  have "resolveToken m app token (Some rid) records parent nfv h
          = resolveToken m app token (Some rid) records parent nfv' h"
    by (cases m) simp_all
  then show ?thesis using Suc by simp
qed

lemma resolve_none_nfv:
  assumes "\<And>m. injector_get m app parent token nfv h = injector_get m app parent token nfv' h"
  shows "resolveToken n app token None records parent nfv h
           = resolveToken n app token None records parent nfv' h"
  by (cases n) (simp_all add: assms)

lemma try_none_nfv:
  assumes "\<And>m. injector_get m app parent token nfv h = injector_get m app parent token nfv' h"
  shows "tryResolveToken n app token None records parent nfv h
           = tryResolveToken n app token None records parent nfv' h"
  by (cases n) (simp_all add: resolve_none_nfv [OF assms])


lemma get_provided_nfv:
  "has_provider scope rid \<Longrightarrow> getId token = Inr rid
     \<Longrightarrow> injector_get n app scope token nfv h = injector_get n app scope token nfv' h"
proof (induction scope arbitrary: n h)
  case NULL_INJECTOR
  then show ?case by simp
next
  case (StaticInjector a records parent)
  show ?case
  proof (cases n)
    case 0
    then show ?thesis by simp
  next
    case (Suc n1)
    have "tryResolveToken n1 app token (lookup_record records rid) records parent nfv h
            = tryResolveToken n1 app token (lookup_record records rid) records parent nfv' h"
    proof (cases "map_of records rid")
      case None
      with StaticInjector.prems(1) have p: "has_provider parent rid" by simp
      have "tryResolveToken n1 app token None records parent nfv h
              = tryResolveToken n1 app token None records parent nfv' h"
        by (rule try_none_nfv) (rule StaticInjector.IH [OF p StaticInjector.prems(2)])
      then show ?thesis using None by (simp add: lookup_record_def)
    next
      case (Some r)
      have "tryResolveToken n1 app token (Some rid) records parent nfv h
              = tryResolveToken n1 app token (Some rid) records parent nfv' h"
        by (rule try_record_nfv)
      then show ?thesis using Some by (simp add: lookup_record_def)
    qed
    then show ?thesis using Suc StaticInjector.prems(2) by (simp del: tryResolveToken.simps)
  qed
qed

lemma optional_changes_nothing:
  assumes "getId (dep_token d) = Inr (dep_id d)"
      and "options d AND OPT_CHECK_SELF \<noteq> 0 \<and> map_of records (dep_id d) \<noteq> None
           \<or> options d AND OPT_CHECK_PARENT \<noteq> 0 \<and> has_provider parent (dep_id d)"
  shows "resolveDeps n app (d # rest) records parent h
           = resolveDeps n app (d\<lparr>options := options d AND NOT OPT_OPTIONAL\<rparr> # rest) records parent h"
proof (cases n)
  case 0
  then show ?thesis by simp
next
  case (Suc m)
  define c where "c = (if options d AND OPT_CHECK_SELF \<noteq> 0 then lookup_record records (dep_id d) else None)"
  define u where "u = (c = None \<and> options d AND OPT_CHECK_PARENT = 0)"
  define p where "p = (if u then NULL_INJECTOR else parent)"
  define nfv where "nfv = (if options d AND OPT_OPTIONAL \<noteq> 0 then VNull else THROW_IF_NOT_FOUND)"
  have t: "tryResolveToken m app (dep_token d) c records p nfv h
             = tryResolveToken m app (dep_token d) c records p THROW_IF_NOT_FOUND h"
  proof (cases c)
    case None
    with assms(2) have "options d AND OPT_CHECK_PARENT \<noteq> 0" "has_provider parent (dep_id d)"
      by (auto simp: c_def lookup_record_def split: if_splits option.splits)
    then have "tryResolveToken m app (dep_token d) None records parent nfv h
             = tryResolveToken m app (dep_token d) None records parent THROW_IF_NOT_FOUND h"
      by (intro try_none_nfv get_provided_nfv [OF _ assms(1)])
    then show ?thesis using None \<open>options d AND OPT_CHECK_PARENT \<noteq> 0\<close> by (simp add: p_def u_def)
  next
    case (Some k)
    show ?thesis unfolding Some by (rule try_record_nfv)
  qed
  have l: "resolveDeps (Suc m) app (d # rest) records parent h
      = (case tryResolveToken m app (dep_token d) c records p nfv h of
           None \<Rightarrow> None
         | Some (Inl e, records1, parent1, h1) \<Rightarrow>
             Some (Inl e, records1, if u then parent else parent1, h1)
         | Some (Inr v, records1, parent1, h1) \<Rightarrow>
             (case resolveDeps m app rest records1 (if u then parent else parent1) h1 of
                None \<Rightarrow> None
              | Some (Inl e, records2, parent2, h2) \<Rightarrow> Some (Inl e, records2, parent2, h2)
              | Some (Inr vs, records2, parent2, h2) \<Rightarrow> Some (Inr (v # vs), records2, parent2, h2)))"
    unfolding c_def p_def u_def nfv_def by (simp add: Let_def del: tryResolveToken.simps)
  have r: "resolveDeps (Suc m) app (d\<lparr>options := options d AND NOT OPT_OPTIONAL\<rparr> # rest) records parent h
      = (case tryResolveToken m app (dep_token d) c records p THROW_IF_NOT_FOUND h of
           None \<Rightarrow> None
         | Some (Inl e, records1, parent1, h1) \<Rightarrow>
             Some (Inl e, records1, if u then parent else parent1, h1)
         | Some (Inr v, records1, parent1, h1) \<Rightarrow>
             (case resolveDeps m app rest records1 (if u then parent else parent1) h1 of
                None \<Rightarrow> None
              | Some (Inl e, records2, parent2, h2) \<Rightarrow> Some (Inl e, records2, parent2, h2)
              | Some (Inr vs, records2, parent2, h2) \<Rightarrow> Some (Inr (v # vs), records2, parent2, h2)))"
    unfolding c_def p_def u_def by (simp add: Let_def not_optional_bits del: tryResolveToken.simps cong: option.case_cong sum.case_cong prod.case_cong)
  show ?thesis unfolding Suc l r t ..
qed


lemma failing_record_fails_list:
  assumes "resolveDeps k app xs records parent h = Some (Inr vs, records1, parent1, h1)"
      and "options d' AND OPT_CHECK_SELF \<noteq> 0" "map_of records1 (dep_id d') = Some r'"
      and "tryResolveToken k' app (dep_token d') (Some (dep_id d')) records1 parent1 nfv h1 = Some (Inl e, st)"
  shows "\<exists>N. \<forall>n \<ge> N. resolveDeps n app (xs @ d' # rest') records parent h = Some (Inl e, st)"
proof -
  obtain recordsA parentA hA where st: "st = (recordsA, parentA, hA)" by (cases st) auto
  have "tryResolveToken k' app (dep_token d') (Some (dep_id d')) records1 parent1
          (if options d' AND OPT_OPTIONAL \<noteq> 0 then VNull else THROW_IF_NOT_FOUND) h1
        = tryResolveToken k' app (dep_token d') (Some (dep_id d')) records1 parent1 nfv h1"
    by (rule try_record_nfv)
  with assms(4) have "tryResolveToken k' app (dep_token d') (Some (dep_id d')) records1 parent1
          (if options d' AND OPT_OPTIONAL \<noteq> 0 then VNull else THROW_IF_NOT_FOUND) h1
        = Some (Inl e, recordsA, parentA, hA)"
    by (simp add: st del: tryResolveToken.simps)
  then have "resolveDeps (Suc k') app (d' # rest') records1 parent1 h1 = Some (Inl e, st)"
    using assms(2,3) by (simp add: Let_def lookup_record_def st del: tryResolveToken.simps)
  from resolveDeps_prefix_fails [OF assms(1) this]
  show ?thesis by (blast intro: fuel_mono_deps)
qed

lemma marked_dependency_fails:
  assumes "options d AND OPT_CHECK_SELF \<noteq> 0" "map_of records (dep_id d) = Some r"
      and "r_value r = CIRCULAR"
  shows "\<exists>e. resolveDeps (Suc (Suc (Suc n))) app (d # rest) records parent h
               = Some (Inl e, set_value records (dep_id d) EMPTY, parent, h)
             \<and> msg e = CircularDependency"
proof -
  have "resolveToken (Suc n) app (dep_token d) (Some (dep_id d)) records parent nfv h
          = Some (Inl (newError CircularDependency), records, parent, h)" for nfv
    using assms(2,3) by simp
  then have "\<exists>e. tryResolveToken (Suc (Suc n)) app (dep_token d) (Some (dep_id d)) records parent nfv h
          = Some (Inl e, set_value records (dep_id d) EMPTY, parent, h) \<and> msg e = CircularDependency" for nfv
    using assms(2,3) by (simp add: Let_def is_circular_def newError_def del: resolveToken.simps)
  then obtain e where
    "tryResolveToken (Suc (Suc n)) app (dep_token d) (Some (dep_id d)) records parent
        (if options d AND OPT_OPTIONAL \<noteq> 0 then VNull else THROW_IF_NOT_FOUND) h
          = Some (Inl e, set_value records (dep_id d) EMPTY, parent, h)" "msg e = CircularDependency"
    by blast
  then have "resolveDeps (Suc (Suc (Suc n))) app (d # rest) records parent h
               = Some (Inl e, set_value records (dep_id d) EMPTY, parent, h)
             \<and> msg e = CircularDependency"
    using assms(1,2) by (simp add: Let_def lookup_record_def del: tryResolveToken.simps)
  then show ?thesis by blast
qed

lemma throwing_dependency_fails:
  assumes "options d AND OPT_CHECK_SELF \<noteq> 0" "map_of records (dep_id d) = Some r"
      and "r_value r = EMPTY" "r_deps r = []"
      and "apply_fn app (r_fn r) (if r_useNew r then VObject h else VUndefined) [] = Inl t"
  shows "\<exists>e st. resolveDeps (Suc (Suc (Suc (Suc n)))) app (d # rest) records parent h = Some (Inl e, st)
             \<and> msg e = Thrown t"
proof -
  have "resolveToken (Suc (Suc n)) app (dep_token d) (Some (dep_id d)) records parent nfv h
          = Some (Inl (newError (Thrown t)), set_value records (dep_id d) CIRCULAR, parent,
                  if r_useNew r then Suc h else h)" for nfv
    using assms(2,3,4,5) by (simp add: Let_def)
  then have "\<exists>e records'. tryResolveToken (Suc (Suc (Suc n))) app (dep_token d) (Some (dep_id d)) records parent nfv h
          = Some (Inl e, records', parent, if r_useNew r then Suc h else h) \<and> msg e = Thrown t" for nfv
    by (simp add: Let_def newError_def del: resolveToken.simps)
  then obtain e records' where
    "tryResolveToken (Suc (Suc (Suc n))) app (dep_token d) (Some (dep_id d)) records parent
        (if options d AND OPT_OPTIONAL \<noteq> 0 then VNull else THROW_IF_NOT_FOUND) h
          = Some (Inl e, records', parent, if r_useNew r then Suc h else h)" "msg e = Thrown t"
    by blast
  then have "resolveDeps (Suc (Suc (Suc (Suc n)))) app (d # rest) records parent h
               = Some (Inl e, records', parent, if r_useNew r then Suc h else h)
             \<and> msg e = Thrown t"
    using assms(1,2) by (simp add: Let_def lookup_record_def del: tryResolveToken.simps)
  then show ?thesis by blast
qed

lemma failing_list_fails_get:
  assumes "getId token = Inr rid" "map_of records rid = Some r" "r_value r = EMPTY"
     and "resolveDeps k app (r_deps r) (set_value records rid CIRCULAR) parent h = Some (Inl e, st)"
  shows "\<exists>e' scope' h'. injector_get (Suc (Suc (Suc k))) app (StaticInjector a records parent) token notFoundValue h
                       = Some (Inl e', scope', h')
                  \<and> cause (msg e') = cause (msg e)"
proof -
  obtain records1 parent1 h1 where st: "st = (records1, parent1, h1)" by (cases st) auto
  from assms(2,3,4) have "resolveToken (Suc k) app token (Some rid) records parent notFoundValue h
          = Some (Inl e, records1, parent1, h1)"
    by (simp add: st)
  then have "\<exists>e' records2. tryResolveToken (Suc (Suc k)) app token (Some rid) records parent notFoundValue h
          = Some (Inl e', records2, parent1, h1) \<and> msg e' = msg e"
    by (simp add: Let_def del: resolveToken.simps)
  then obtain e' records2 where
    t: "tryResolveToken (Suc (Suc k)) app token (Some rid) records parent notFoundValue h
          = Some (Inl e', records2, parent1, h1)" and m: "msg e' = msg e" by blast
  have "injector_get (Suc (Suc (Suc k))) app (StaticInjector a records parent) token notFoundValue h
          = Some (Inl (get_catch e'), StaticInjector a records2 parent1, h1)"
    using t assms(1,2) by (simp add: lookup_record_def del: tryResolveToken.simps)
  moreover have "cause (msg (get_catch e')) = cause (msg e)"
    using m by (simp add: get_catch_def)
  ultimately show ?thesis by blast
qed

text \<open>
  C6.  A dependency reference with the \<^verbatim>\<open>Optional\<close> modifier whose token has no record
  where the reference may look (the registry, unless \<^verbatim>\<open>SkipSelf\<close>; the parent chain,
  unless \<^verbatim>\<open>Self\<close>) contributes \<^verbatim>\<open>null\<close>, and the resolution goes on with the other
  dependencies from an unchanged state.  The modifier recovers nothing else.  When a record
  for the token exists where the reference looks, the list resolves exactly as it does with
  the modifier removed, whatever the outcome.  Once the earlier dependencies have resolved,
  the failure of resolving the record of the next one, optional or not, is the failure of
  the whole list; in particular a record under construction fails the list with
  \<^verbatim>\<open>Circular dependency\<close> and a factory that throws fails it with what was thrown.
  A failure of the list is the failure of \<^verbatim>\<open>get\<close>.
\<close>

theorem optional_dependency_yields_null:
  "(options d AND OPT_OPTIONAL \<noteq> 0 \<and> getId (dep_token d) = Inr (dep_id d)
     \<and> (options d AND OPT_CHECK_SELF \<noteq> 0 \<longrightarrow> map_of records (dep_id d) = None)
     \<and> (options d AND OPT_CHECK_PARENT \<noteq> 0 \<longrightarrow> \<not> has_provider parent (dep_id d)) \<longrightarrow>
     (\<exists>N. \<forall>n \<ge> N. resolveDeps (Suc n) app (d # rest) records parent h =
        (case resolveDeps n app rest records parent h of
           None \<Rightarrow> None
         | Some (Inl e, st) \<Rightarrow> Some (Inl e, st)
         | Some (Inr vs, st) \<Rightarrow> Some (Inr (VNull # vs), st))))
 \<and> (getId (dep_token d) = Inr (dep_id d)
     \<and> (options d AND OPT_CHECK_SELF \<noteq> 0 \<and> map_of records (dep_id d) \<noteq> None
        \<or> options d AND OPT_CHECK_PARENT \<noteq> 0 \<and> has_provider parent (dep_id d)) \<longrightarrow>
     resolveDeps n app (d # rest) records parent h
       = resolveDeps n app (d\<lparr>options := options d AND NOT OPT_OPTIONAL\<rparr> # rest) records parent h)
 \<and> (resolveDeps k app xs records parent h = Some (Inr vs, records1, parent1, h1)
     \<and> options d' AND OPT_CHECK_SELF \<noteq> 0 \<and> map_of records1 (dep_id d') = Some r'
     \<and> tryResolveToken k' app (dep_token d') (Some (dep_id d')) records1 parent1 nfv h1 = Some (Inl e, st) \<longrightarrow>
     (\<exists>N. \<forall>n \<ge> N. resolveDeps n app (xs @ d' # rest') records parent h = Some (Inl e, st)))
 \<and> (options d AND OPT_CHECK_SELF \<noteq> 0 \<and> map_of records (dep_id d) = Some r \<and> r_value r = CIRCULAR \<longrightarrow>
     (\<exists>e. resolveDeps (Suc (Suc (Suc n))) app (d # rest) records parent h
               = Some (Inl e, set_value records (dep_id d) EMPTY, parent, h)
          \<and> msg e = CircularDependency))
 \<and> (options d AND OPT_CHECK_SELF \<noteq> 0 \<and> map_of records (dep_id d) = Some r
     \<and> r_value r = EMPTY \<and> r_deps r = []
     \<and> apply_fn app (r_fn r) (if r_useNew r then VObject h else VUndefined) [] = Inl t \<longrightarrow>
     (\<exists>e st. resolveDeps (Suc (Suc (Suc (Suc n)))) app (d # rest) records parent h = Some (Inl e, st)
          \<and> msg e = Thrown t))
 \<and> (getId token = Inr rid \<and> map_of records rid = Some r \<and> r_value r = EMPTY
     \<and> resolveDeps k app (r_deps r) (set_value records rid CIRCULAR) parent h = Some (Inl e, st) \<longrightarrow>
     (\<exists>e' scope' h'. injector_get (Suc (Suc (Suc k))) app (StaticInjector a records parent) token notFoundValue h
                       = Some (Inl e', scope', h')
                  \<and> cause (msg e') = cause (msg e)))"
proof (intro conjI impI)
  assume a: "options d AND OPT_OPTIONAL \<noteq> 0 \<and> getId (dep_token d) = Inr (dep_id d)
     \<and> (options d AND OPT_CHECK_SELF \<noteq> 0 \<longrightarrow> map_of records (dep_id d) = None)
     \<and> (options d AND OPT_CHECK_PARENT \<noteq> 0 \<longrightarrow> \<not> has_provider parent (dep_id d))"
  from a have h: "options d AND OPT_OPTIONAL \<noteq> 0" "getId (dep_token d) = Inr (dep_id d)"
     "options d AND OPT_CHECK_SELF \<noteq> 0 \<longrightarrow> map_of records (dep_id d) = None"
     "options d AND OPT_CHECK_PARENT \<noteq> 0 \<longrightarrow> \<not> has_provider parent (dep_id d)"
    by blast+
  show "\<exists>N. \<forall>n \<ge> N. resolveDeps (Suc n) app (d # rest) records parent h =
        (case resolveDeps n app rest records parent h of
           None \<Rightarrow> None
         | Some (Inl e, st) \<Rightarrow> Some (Inl e, st)
         | Some (Inr vs, st) \<Rightarrow> Some (Inr (VNull # vs), st))"
    by (rule optional_step [OF h])
next
  assume a: "getId (dep_token d) = Inr (dep_id d)
     \<and> (options d AND OPT_CHECK_SELF \<noteq> 0 \<and> map_of records (dep_id d) \<noteq> None
        \<or> options d AND OPT_CHECK_PARENT \<noteq> 0 \<and> has_provider parent (dep_id d))"
  show "resolveDeps n app (d # rest) records parent h
       = resolveDeps n app (d\<lparr>options := options d AND NOT OPT_OPTIONAL\<rparr> # rest) records parent h"
    by (rule optional_changes_nothing [OF a [THEN conjunct1] a [THEN conjunct2]])
next
  assume a: "resolveDeps k app xs records parent h = Some (Inr vs, records1, parent1, h1)
     \<and> options d' AND OPT_CHECK_SELF \<noteq> 0 \<and> map_of records1 (dep_id d') = Some r'
     \<and> tryResolveToken k' app (dep_token d') (Some (dep_id d')) records1 parent1 nfv h1 = Some (Inl e, st)"
  from a have h: "resolveDeps k app xs records parent h = Some (Inr vs, records1, parent1, h1)"
     "options d' AND OPT_CHECK_SELF \<noteq> 0" "map_of records1 (dep_id d') = Some r'"
     "tryResolveToken k' app (dep_token d') (Some (dep_id d')) records1 parent1 nfv h1 = Some (Inl e, st)"
    by blast+
  show "\<exists>N. \<forall>n \<ge> N. resolveDeps n app (xs @ d' # rest') records parent h = Some (Inl e, st)"
    by (rule failing_record_fails_list [OF h])
next
  assume a: "options d AND OPT_CHECK_SELF \<noteq> 0 \<and> map_of records (dep_id d) = Some r \<and> r_value r = CIRCULAR"
  from a have h: "options d AND OPT_CHECK_SELF \<noteq> 0" "map_of records (dep_id d) = Some r"
     "r_value r = CIRCULAR"
    by blast+
  show "\<exists>e. resolveDeps (Suc (Suc (Suc n))) app (d # rest) records parent h
               = Some (Inl e, set_value records (dep_id d) EMPTY, parent, h)
          \<and> msg e = CircularDependency"
    by (rule marked_dependency_fails [OF h])
next
  assume a: "options d AND OPT_CHECK_SELF \<noteq> 0 \<and> map_of records (dep_id d) = Some r
     \<and> r_value r = EMPTY \<and> r_deps r = []
     \<and> apply_fn app (r_fn r) (if r_useNew r then VObject h else VUndefined) [] = Inl t"
  from a have h: "options d AND OPT_CHECK_SELF \<noteq> 0" "map_of records (dep_id d) = Some r"
     "r_value r = EMPTY" "r_deps r = []"
     "apply_fn app (r_fn r) (if r_useNew r then VObject h else VUndefined) [] = Inl t"
    by blast+
  show "\<exists>e st. resolveDeps (Suc (Suc (Suc (Suc n)))) app (d # rest) records parent h = Some (Inl e, st)
          \<and> msg e = Thrown t"
    by (rule throwing_dependency_fails [OF h])
next
  assume a: "getId token = Inr rid \<and> map_of records rid = Some r \<and> r_value r = EMPTY
     \<and> resolveDeps k app (r_deps r) (set_value records rid CIRCULAR) parent h = Some (Inl e, st)"
  from a have h: "getId token = Inr rid" "map_of records rid = Some r" "r_value r = EMPTY"
     "resolveDeps k app (r_deps r) (set_value records rid CIRCULAR) parent h = Some (Inl e, st)"
    by blast+
  show "\<exists>e' scope' h'. injector_get (Suc (Suc (Suc k))) app (StaticInjector a records parent) token notFoundValue h
                       = Some (Inl e', scope', h')
                  \<and> cause (msg e') = cause (msg e)"
    by (rule failing_list_fails_get [OF h])
qed

theorem optional_dependency_yields_null_witness:
  "(options \<lparr>dep_id = Key (TString ''A''), dep_token = TString ''A'', options = OPT_DEFAULT OR OPT_OPTIONAL\<rparr> AND OPT_OPTIONAL \<noteq> 0
     \<and> getId (dep_token \<lparr>dep_id = Key (TString ''A''), dep_token = TString ''A'', options = OPT_DEFAULT OR OPT_OPTIONAL\<rparr>) = Inr (dep_id \<lparr>dep_id = Key (TString ''A''), dep_token = TString ''A'', options = OPT_DEFAULT OR OPT_OPTIONAL\<rparr>)
     \<and> (options \<lparr>dep_id = Key (TString ''A''), dep_token = TString ''A'', options = OPT_DEFAULT OR OPT_OPTIONAL\<rparr> AND OPT_CHECK_SELF \<noteq> 0 \<and> map_of [] (dep_id \<lparr>dep_id = Key (TString ''A''), dep_token = TString ''A'', options = OPT_DEFAULT OR OPT_OPTIONAL\<rparr>) = None)
     \<and> (options \<lparr>dep_id = Key (TString ''A''), dep_token = TString ''A'', options = OPT_DEFAULT OR OPT_OPTIONAL\<rparr> AND OPT_CHECK_PARENT \<noteq> 0 \<and> \<not> has_provider (StaticInjector 1 [(Key (TString ''Z''), \<lparr>r_token = TString ''Z'', r_fn = IDENT, r_useNew = False, r_deps = [], r_value = Resolved (VNumber 1)\<rparr>)] NULL_INJECTOR) (dep_id \<lparr>dep_id = Key (TString ''A''), dep_token = TString ''A'', options = OPT_DEFAULT OR OPT_OPTIONAL\<rparr>)))
   \<and> (\<exists>N. \<forall>n \<ge> N. resolveDeps (Suc n) (\<lambda>f this args. Inr VUndefined) (\<lparr>dep_id = Key (TString ''A''), dep_token = TString ''A'', options = OPT_DEFAULT OR OPT_OPTIONAL\<rparr> # []) [] (StaticInjector 1 [(Key (TString ''Z''), \<lparr>r_token = TString ''Z'', r_fn = IDENT, r_useNew = False, r_deps = [], r_value = Resolved (VNumber 1)\<rparr>)] NULL_INJECTOR) 0 =
        (case resolveDeps n (\<lambda>f this args. Inr VUndefined) [] [] (StaticInjector 1 [(Key (TString ''Z''), \<lparr>r_token = TString ''Z'', r_fn = IDENT, r_useNew = False, r_deps = [], r_value = Resolved (VNumber 1)\<rparr>)] NULL_INJECTOR) 0 of
           None \<Rightarrow> None
         | Some (Inl e, st) \<Rightarrow> Some (Inl e, st)
         | Some (Inr vs, st) \<Rightarrow> Some (Inr (VNull # vs), st)))
   \<and> (getId (dep_token \<lparr>dep_id = Key (TString ''A''), dep_token = TString ''A'', options = OPT_DEFAULT OR OPT_OPTIONAL\<rparr>) = Inr (dep_id \<lparr>dep_id = Key (TString ''A''), dep_token = TString ''A'', options = OPT_DEFAULT OR OPT_OPTIONAL\<rparr>)
     \<and> options \<lparr>dep_id = Key (TString ''A''), dep_token = TString ''A'', options = OPT_DEFAULT OR OPT_OPTIONAL\<rparr> AND OPT_CHECK_SELF \<noteq> 0 \<and> map_of [(Key (TString ''A''), \<lparr>r_token = TString ''A'', r_fn = UserFn 1, r_useNew = False, r_deps = [], r_value = EMPTY\<rparr>)] (dep_id \<lparr>dep_id = Key (TString ''A''), dep_token = TString ''A'', options = OPT_DEFAULT OR OPT_OPTIONAL\<rparr>) \<noteq> None)
   \<and> (resolveDeps (Suc (Suc (Suc (Suc 0)))) (\<lambda>f this args. Inl ''boom'') (\<lparr>dep_id = Key (TString ''A''), dep_token = TString ''A'', options = OPT_DEFAULT OR OPT_OPTIONAL\<rparr> # []) [(Key (TString ''A''), \<lparr>r_token = TString ''A'', r_fn = UserFn 1, r_useNew = False, r_deps = [], r_value = EMPTY\<rparr>)] NULL_INJECTOR 0
       = resolveDeps (Suc (Suc (Suc (Suc 0)))) (\<lambda>f this args. Inl ''boom'') (\<lparr>dep_id = Key (TString ''A''), dep_token = TString ''A'', options = OPT_DEFAULT OR OPT_OPTIONAL\<rparr>\<lparr>options := options \<lparr>dep_id = Key (TString ''A''), dep_token = TString ''A'', options = OPT_DEFAULT OR OPT_OPTIONAL\<rparr> AND NOT OPT_OPTIONAL\<rparr> # []) [(Key (TString ''A''), \<lparr>r_token = TString ''A'', r_fn = UserFn 1, r_useNew = False, r_deps = [], r_value = EMPTY\<rparr>)] NULL_INJECTOR 0)
   \<and> (resolveDeps (Suc 0) (\<lambda>f this args. Inl ''boom'') [] [(Key (TString ''A''), \<lparr>r_token = TString ''A'', r_fn = UserFn 1, r_useNew = False, r_deps = [], r_value = EMPTY\<rparr>)] NULL_INJECTOR 0 = Some (Inr [], [(Key (TString ''A''), \<lparr>r_token = TString ''A'', r_fn = UserFn 1, r_useNew = False, r_deps = [], r_value = EMPTY\<rparr>)], NULL_INJECTOR, 0)
     \<and> options \<lparr>dep_id = Key (TString ''A''), dep_token = TString ''A'', options = OPT_DEFAULT OR OPT_OPTIONAL\<rparr> AND OPT_CHECK_SELF \<noteq> 0 \<and> map_of [(Key (TString ''A''), \<lparr>r_token = TString ''A'', r_fn = UserFn 1, r_useNew = False, r_deps = [], r_value = EMPTY\<rparr>)] (dep_id \<lparr>dep_id = Key (TString ''A''), dep_token = TString ''A'', options = OPT_DEFAULT OR OPT_OPTIONAL\<rparr>) = Some \<lparr>r_token = TString ''A'', r_fn = UserFn 1, r_useNew = False, r_deps = [], r_value = EMPTY\<rparr>
     \<and> tryResolveToken (Suc (Suc (Suc 0))) (\<lambda>f this args. Inl ''boom'') (dep_token \<lparr>dep_id = Key (TString ''A''), dep_token = TString ''A'', options = OPT_DEFAULT OR OPT_OPTIONAL\<rparr>) (Some (dep_id \<lparr>dep_id = Key (TString ''A''), dep_token = TString ''A'', options = OPT_DEFAULT OR OPT_OPTIONAL\<rparr>)) [(Key (TString ''A''), \<lparr>r_token = TString ''A'', r_fn = UserFn 1, r_useNew = False, r_deps = [], r_value = EMPTY\<rparr>)] NULL_INJECTOR VNull 0 = Some (Inl \<lparr>msg = Thrown ''boom'', ngTempTokenPath = Some [TString ''A''], ngTokenPath = None\<rparr>, ([(Key (TString ''A''), \<lparr>r_token = TString ''A'', r_fn = UserFn 1, r_useNew = False, r_deps = [], r_value = EMPTY\<rparr>)], NULL_INJECTOR, 0)))
   \<and> (\<exists>N. \<forall>n \<ge> N. resolveDeps n (\<lambda>f this args. Inl ''boom'') ([] @ \<lparr>dep_id = Key (TString ''A''), dep_token = TString ''A'', options = OPT_DEFAULT OR OPT_OPTIONAL\<rparr> # []) [(Key (TString ''A''), \<lparr>r_token = TString ''A'', r_fn = UserFn 1, r_useNew = False, r_deps = [], r_value = EMPTY\<rparr>)] NULL_INJECTOR 0 = Some (Inl \<lparr>msg = Thrown ''boom'', ngTempTokenPath = Some [TString ''A''], ngTokenPath = None\<rparr>, ([(Key (TString ''A''), \<lparr>r_token = TString ''A'', r_fn = UserFn 1, r_useNew = False, r_deps = [], r_value = EMPTY\<rparr>)], NULL_INJECTOR, 0)))
   \<and> (options \<lparr>dep_id = Key (TString ''A''), dep_token = TString ''A'', options = OPT_DEFAULT OR OPT_OPTIONAL\<rparr> AND OPT_CHECK_SELF \<noteq> 0 \<and> map_of [(Key (TString ''A''), \<lparr>r_token = TString ''A'', r_fn = UserFn 1, r_useNew = False, r_deps = [\<lparr>dep_id = Key (TString ''A''), dep_token = TString ''A'', options = OPT_DEFAULT\<rparr>], r_value = CIRCULAR\<rparr>)] (dep_id \<lparr>dep_id = Key (TString ''A''), dep_token = TString ''A'', options = OPT_DEFAULT OR OPT_OPTIONAL\<rparr>) = Some \<lparr>r_token = TString ''A'', r_fn = UserFn 1, r_useNew = False, r_deps = [\<lparr>dep_id = Key (TString ''A''), dep_token = TString ''A'', options = OPT_DEFAULT\<rparr>], r_value = CIRCULAR\<rparr> \<and> r_value \<lparr>r_token = TString ''A'', r_fn = UserFn 1, r_useNew = False, r_deps = [\<lparr>dep_id = Key (TString ''A''), dep_token = TString ''A'', options = OPT_DEFAULT\<rparr>], r_value = CIRCULAR\<rparr> = CIRCULAR)
   \<and> (\<exists>e. resolveDeps (Suc (Suc (Suc 0))) (\<lambda>f this args. Inr VUndefined) (\<lparr>dep_id = Key (TString ''A''), dep_token = TString ''A'', options = OPT_DEFAULT OR OPT_OPTIONAL\<rparr> # []) [(Key (TString ''A''), \<lparr>r_token = TString ''A'', r_fn = UserFn 1, r_useNew = False, r_deps = [\<lparr>dep_id = Key (TString ''A''), dep_token = TString ''A'', options = OPT_DEFAULT\<rparr>], r_value = CIRCULAR\<rparr>)] NULL_INJECTOR 0
               = Some (Inl e, set_value [(Key (TString ''A''), \<lparr>r_token = TString ''A'', r_fn = UserFn 1, r_useNew = False, r_deps = [\<lparr>dep_id = Key (TString ''A''), dep_token = TString ''A'', options = OPT_DEFAULT\<rparr>], r_value = CIRCULAR\<rparr>)] (dep_id \<lparr>dep_id = Key (TString ''A''), dep_token = TString ''A'', options = OPT_DEFAULT OR OPT_OPTIONAL\<rparr>) EMPTY, NULL_INJECTOR, 0)
          \<and> msg e = CircularDependency)
   \<and> (options \<lparr>dep_id = Key (TString ''A''), dep_token = TString ''A'', options = OPT_DEFAULT OR OPT_OPTIONAL\<rparr> AND OPT_CHECK_SELF \<noteq> 0 \<and> map_of [(Key (TString ''A''), \<lparr>r_token = TString ''A'', r_fn = UserFn 1, r_useNew = False, r_deps = [], r_value = EMPTY\<rparr>)] (dep_id \<lparr>dep_id = Key (TString ''A''), dep_token = TString ''A'', options = OPT_DEFAULT OR OPT_OPTIONAL\<rparr>) = Some \<lparr>r_token = TString ''A'', r_fn = UserFn 1, r_useNew = False, r_deps = [], r_value = EMPTY\<rparr>
     \<and> r_value \<lparr>r_token = TString ''A'', r_fn = UserFn 1, r_useNew = False, r_deps = [], r_value = EMPTY\<rparr> = EMPTY \<and> r_deps \<lparr>r_token = TString ''A'', r_fn = UserFn 1, r_useNew = False, r_deps = [], r_value = EMPTY\<rparr> = []
     \<and> apply_fn (\<lambda>f this args. Inl ''boom'') (r_fn \<lparr>r_token = TString ''A'', r_fn = UserFn 1, r_useNew = False, r_deps = [], r_value = EMPTY\<rparr>) (if r_useNew \<lparr>r_token = TString ''A'', r_fn = UserFn 1, r_useNew = False, r_deps = [], r_value = EMPTY\<rparr> then VObject 0 else VUndefined) [] = Inl ''boom''
)
   \<and> (\<exists>e st. resolveDeps (Suc (Suc (Suc (Suc 0)))) (\<lambda>f this args. Inl ''boom'') (\<lparr>dep_id = Key (TString ''A''), dep_token = TString ''A'', options = OPT_DEFAULT OR OPT_OPTIONAL\<rparr> # []) [(Key (TString ''A''), \<lparr>r_token = TString ''A'', r_fn = UserFn 1, r_useNew = False, r_deps = [], r_value = EMPTY\<rparr>)] NULL_INJECTOR 0 = Some (Inl e, st)
          \<and> msg e = Thrown ''boom''
)
   \<and> (getId (TString ''B'') = Inr (Key (TString ''B'')) \<and> map_of [(Key (TString ''B''), \<lparr>r_token = TString ''B'', r_fn = UserFn 1, r_useNew = False, r_deps = [\<lparr>dep_id = Key (TString ''A''), dep_token = TString ''A'', options = OPT_DEFAULT\<rparr>], r_value = EMPTY\<rparr>)] (Key (TString ''B'')) = Some \<lparr>r_token = TString ''B'', r_fn = UserFn 1, r_useNew = False, r_deps = [\<lparr>dep_id = Key (TString ''A''), dep_token = TString ''A'', options = OPT_DEFAULT\<rparr>], r_value = EMPTY\<rparr>
     \<and> r_value \<lparr>r_token = TString ''B'', r_fn = UserFn 1, r_useNew = False, r_deps = [\<lparr>dep_id = Key (TString ''A''), dep_token = TString ''A'', options = OPT_DEFAULT\<rparr>], r_value = EMPTY\<rparr> = EMPTY
     \<and> resolveDeps (Suc (Suc (Suc (Suc 0)))) (\<lambda>f this args. Inr VUndefined) (r_deps \<lparr>r_token = TString ''B'', r_fn = UserFn 1, r_useNew = False, r_deps = [\<lparr>dep_id = Key (TString ''A''), dep_token = TString ''A'', options = OPT_DEFAULT\<rparr>], r_value = EMPTY\<rparr>) (set_value [(Key (TString ''B''), \<lparr>r_token = TString ''B'', r_fn = UserFn 1, r_useNew = False, r_deps = [\<lparr>dep_id = Key (TString ''A''), dep_token = TString ''A'', options = OPT_DEFAULT\<rparr>], r_value = EMPTY\<rparr>)] (Key (TString ''B'')) CIRCULAR) NULL_INJECTOR 0
         = Some (Inl \<lparr>msg = NullInjectorError (TString ''A''), ngTempTokenPath = Some [TString ''A''], ngTokenPath = None\<rparr>, ([(Key (TString ''B''), \<lparr>r_token = TString ''B'', r_fn = UserFn 1, r_useNew = False, r_deps = [\<lparr>dep_id = Key (TString ''A''), dep_token = TString ''A'', options = OPT_DEFAULT\<rparr>], r_value = CIRCULAR\<rparr>)], NULL_INJECTOR, 0)))
   \<and> (\<exists>e' scope' h'. injector_get (Suc (Suc (Suc (Suc (Suc (Suc (Suc 0))))))) (\<lambda>f this args. Inr VUndefined) (StaticInjector 2 [(Key (TString ''B''), \<lparr>r_token = TString ''B'', r_fn = UserFn 1, r_useNew = False, r_deps = [\<lparr>dep_id = Key (TString ''A''), dep_token = TString ''A'', options = OPT_DEFAULT\<rparr>], r_value = EMPTY\<rparr>)] NULL_INJECTOR) (TString ''B'') VUndefined 0
                       = Some (Inl e', scope', h')
                  \<and> cause (msg e') = cause (msg \<lparr>msg = NullInjectorError (TString ''A''), ngTempTokenPath = Some [TString ''A''], ngTokenPath = None\<rparr>))"
proof -
  have hA0: "options \<lparr>dep_id = Key (TString ''A''), dep_token = TString ''A'', options = OPT_DEFAULT OR OPT_OPTIONAL\<rparr> AND OPT_OPTIONAL \<noteq> 0
     \<and> getId (dep_token \<lparr>dep_id = Key (TString ''A''), dep_token = TString ''A'', options = OPT_DEFAULT OR OPT_OPTIONAL\<rparr>) = Inr (dep_id \<lparr>dep_id = Key (TString ''A''), dep_token = TString ''A'', options = OPT_DEFAULT OR OPT_OPTIONAL\<rparr>)
     \<and> (options \<lparr>dep_id = Key (TString ''A''), dep_token = TString ''A'', options = OPT_DEFAULT OR OPT_OPTIONAL\<rparr> AND OPT_CHECK_SELF \<noteq> 0 \<and> map_of [] (dep_id \<lparr>dep_id = Key (TString ''A''), dep_token = TString ''A'', options = OPT_DEFAULT OR OPT_OPTIONAL\<rparr>) = None)
     \<and> (options \<lparr>dep_id = Key (TString ''A''), dep_token = TString ''A'', options = OPT_DEFAULT OR OPT_OPTIONAL\<rparr> AND OPT_CHECK_PARENT \<noteq> 0 \<and> \<not> has_provider (StaticInjector 1 [(Key (TString ''Z''), \<lparr>r_token = TString ''Z'', r_fn = IDENT, r_useNew = False, r_deps = [], r_value = Resolved (VNumber 1)\<rparr>)] NULL_INJECTOR) (dep_id \<lparr>dep_id = Key (TString ''A''), dep_token = TString ''A'', options = OPT_DEFAULT OR OPT_OPTIONAL\<rparr>))"
    by (simp add: getId_def lookup_record_def set_value_def OPT_DEFAULT_def OPT_CHECK_SELF_def OPT_CHECK_PARENT_def OPT_OPTIONAL_def is_circular_def path_token_def newError_def get_catch_def nullInjector_get_def Injector_def Let_def)
  have hA: "options \<lparr>dep_id = Key (TString ''A''), dep_token = TString ''A'', options = OPT_DEFAULT OR OPT_OPTIONAL\<rparr> AND OPT_OPTIONAL \<noteq> 0
     \<and> getId (dep_token \<lparr>dep_id = Key (TString ''A''), dep_token = TString ''A'', options = OPT_DEFAULT OR OPT_OPTIONAL\<rparr>) = Inr (dep_id \<lparr>dep_id = Key (TString ''A''), dep_token = TString ''A'', options = OPT_DEFAULT OR OPT_OPTIONAL\<rparr>)
     \<and> (options \<lparr>dep_id = Key (TString ''A''), dep_token = TString ''A'', options = OPT_DEFAULT OR OPT_OPTIONAL\<rparr> AND OPT_CHECK_SELF \<noteq> 0 \<longrightarrow> map_of [] (dep_id \<lparr>dep_id = Key (TString ''A''), dep_token = TString ''A'', options = OPT_DEFAULT OR OPT_OPTIONAL\<rparr>) = None)
     \<and> (options \<lparr>dep_id = Key (TString ''A''), dep_token = TString ''A'', options = OPT_DEFAULT OR OPT_OPTIONAL\<rparr> AND OPT_CHECK_PARENT \<noteq> 0 \<longrightarrow> \<not> has_provider (StaticInjector 1 [(Key (TString ''Z''), \<lparr>r_token = TString ''Z'', r_fn = IDENT, r_useNew = False, r_deps = [], r_value = Resolved (VNumber 1)\<rparr>)] NULL_INJECTOR) (dep_id \<lparr>dep_id = Key (TString ''A''), dep_token = TString ''A'', options = OPT_DEFAULT OR OPT_OPTIONAL\<rparr>))"
    using hA0 by blast
  have hB0: "getId (dep_token \<lparr>dep_id = Key (TString ''A''), dep_token = TString ''A'', options = OPT_DEFAULT OR OPT_OPTIONAL\<rparr>) = Inr (dep_id \<lparr>dep_id = Key (TString ''A''), dep_token = TString ''A'', options = OPT_DEFAULT OR OPT_OPTIONAL\<rparr>)
     \<and> options \<lparr>dep_id = Key (TString ''A''), dep_token = TString ''A'', options = OPT_DEFAULT OR OPT_OPTIONAL\<rparr> AND OPT_CHECK_SELF \<noteq> 0 \<and> map_of [(Key (TString ''A''), \<lparr>r_token = TString ''A'', r_fn = UserFn 1, r_useNew = False, r_deps = [], r_value = EMPTY\<rparr>)] (dep_id \<lparr>dep_id = Key (TString ''A''), dep_token = TString ''A'', options = OPT_DEFAULT OR OPT_OPTIONAL\<rparr>) \<noteq> None"
    by (simp add: getId_def lookup_record_def set_value_def OPT_DEFAULT_def OPT_CHECK_SELF_def OPT_CHECK_PARENT_def OPT_OPTIONAL_def is_circular_def path_token_def newError_def get_catch_def nullInjector_get_def Injector_def Let_def)
  have hB: "getId (dep_token \<lparr>dep_id = Key (TString ''A''), dep_token = TString ''A'', options = OPT_DEFAULT OR OPT_OPTIONAL\<rparr>) = Inr (dep_id \<lparr>dep_id = Key (TString ''A''), dep_token = TString ''A'', options = OPT_DEFAULT OR OPT_OPTIONAL\<rparr>)
     \<and> (options \<lparr>dep_id = Key (TString ''A''), dep_token = TString ''A'', options = OPT_DEFAULT OR OPT_OPTIONAL\<rparr> AND OPT_CHECK_SELF \<noteq> 0 \<and> map_of [(Key (TString ''A''), \<lparr>r_token = TString ''A'', r_fn = UserFn 1, r_useNew = False, r_deps = [], r_value = EMPTY\<rparr>)] (dep_id \<lparr>dep_id = Key (TString ''A''), dep_token = TString ''A'', options = OPT_DEFAULT OR OPT_OPTIONAL\<rparr>) \<noteq> None
        \<or> options \<lparr>dep_id = Key (TString ''A''), dep_token = TString ''A'', options = OPT_DEFAULT OR OPT_OPTIONAL\<rparr> AND OPT_CHECK_PARENT \<noteq> 0 \<and> has_provider NULL_INJECTOR (dep_id \<lparr>dep_id = Key (TString ''A''), dep_token = TString ''A'', options = OPT_DEFAULT OR OPT_OPTIONAL\<rparr>))"
    using hB0 by blast
  have hC: "resolveDeps (Suc 0) (\<lambda>f this args. Inl ''boom'') [] [(Key (TString ''A''), \<lparr>r_token = TString ''A'', r_fn = UserFn 1, r_useNew = False, r_deps = [], r_value = EMPTY\<rparr>)] NULL_INJECTOR 0 = Some (Inr [], [(Key (TString ''A''), \<lparr>r_token = TString ''A'', r_fn = UserFn 1, r_useNew = False, r_deps = [], r_value = EMPTY\<rparr>)], NULL_INJECTOR, 0)
     \<and> options \<lparr>dep_id = Key (TString ''A''), dep_token = TString ''A'', options = OPT_DEFAULT OR OPT_OPTIONAL\<rparr> AND OPT_CHECK_SELF \<noteq> 0 \<and> map_of [(Key (TString ''A''), \<lparr>r_token = TString ''A'', r_fn = UserFn 1, r_useNew = False, r_deps = [], r_value = EMPTY\<rparr>)] (dep_id \<lparr>dep_id = Key (TString ''A''), dep_token = TString ''A'', options = OPT_DEFAULT OR OPT_OPTIONAL\<rparr>) = Some \<lparr>r_token = TString ''A'', r_fn = UserFn 1, r_useNew = False, r_deps = [], r_value = EMPTY\<rparr>
     \<and> tryResolveToken (Suc (Suc (Suc 0))) (\<lambda>f this args. Inl ''boom'') (dep_token \<lparr>dep_id = Key (TString ''A''), dep_token = TString ''A'', options = OPT_DEFAULT OR OPT_OPTIONAL\<rparr>) (Some (dep_id \<lparr>dep_id = Key (TString ''A''), dep_token = TString ''A'', options = OPT_DEFAULT OR OPT_OPTIONAL\<rparr>)) [(Key (TString ''A''), \<lparr>r_token = TString ''A'', r_fn = UserFn 1, r_useNew = False, r_deps = [], r_value = EMPTY\<rparr>)] NULL_INJECTOR VNull 0 = Some (Inl \<lparr>msg = Thrown ''boom'', ngTempTokenPath = Some [TString ''A''], ngTokenPath = None\<rparr>, ([(Key (TString ''A''), \<lparr>r_token = TString ''A'', r_fn = UserFn 1, r_useNew = False, r_deps = [], r_value = EMPTY\<rparr>)], NULL_INJECTOR, 0))"
    by (simp add: getId_def lookup_record_def set_value_def OPT_DEFAULT_def OPT_CHECK_SELF_def OPT_CHECK_PARENT_def OPT_OPTIONAL_def is_circular_def path_token_def newError_def get_catch_def nullInjector_get_def Injector_def Let_def)
  have hD: "options \<lparr>dep_id = Key (TString ''A''), dep_token = TString ''A'', options = OPT_DEFAULT OR OPT_OPTIONAL\<rparr> AND OPT_CHECK_SELF \<noteq> 0 \<and> map_of [(Key (TString ''A''), \<lparr>r_token = TString ''A'', r_fn = UserFn 1, r_useNew = False, r_deps = [\<lparr>dep_id = Key (TString ''A''), dep_token = TString ''A'', options = OPT_DEFAULT\<rparr>], r_value = CIRCULAR\<rparr>)] (dep_id \<lparr>dep_id = Key (TString ''A''), dep_token = TString ''A'', options = OPT_DEFAULT OR OPT_OPTIONAL\<rparr>) = Some \<lparr>r_token = TString ''A'', r_fn = UserFn 1, r_useNew = False, r_deps = [\<lparr>dep_id = Key (TString ''A''), dep_token = TString ''A'', options = OPT_DEFAULT\<rparr>], r_value = CIRCULAR\<rparr> \<and> r_value \<lparr>r_token = TString ''A'', r_fn = UserFn 1, r_useNew = False, r_deps = [\<lparr>dep_id = Key (TString ''A''), dep_token = TString ''A'', options = OPT_DEFAULT\<rparr>], r_value = CIRCULAR\<rparr> = CIRCULAR"
    by (simp add: getId_def lookup_record_def set_value_def OPT_DEFAULT_def OPT_CHECK_SELF_def OPT_CHECK_PARENT_def OPT_OPTIONAL_def is_circular_def path_token_def newError_def get_catch_def nullInjector_get_def Injector_def Let_def)
  have hE: "options \<lparr>dep_id = Key (TString ''A''), dep_token = TString ''A'', options = OPT_DEFAULT OR OPT_OPTIONAL\<rparr> AND OPT_CHECK_SELF \<noteq> 0 \<and> map_of [(Key (TString ''A''), \<lparr>r_token = TString ''A'', r_fn = UserFn 1, r_useNew = False, r_deps = [], r_value = EMPTY\<rparr>)] (dep_id \<lparr>dep_id = Key (TString ''A''), dep_token = TString ''A'', options = OPT_DEFAULT OR OPT_OPTIONAL\<rparr>) = Some \<lparr>r_token = TString ''A'', r_fn = UserFn 1, r_useNew = False, r_deps = [], r_value = EMPTY\<rparr>
     \<and> r_value \<lparr>r_token = TString ''A'', r_fn = UserFn 1, r_useNew = False, r_deps = [], r_value = EMPTY\<rparr> = EMPTY \<and> r_deps \<lparr>r_token = TString ''A'', r_fn = UserFn 1, r_useNew = False, r_deps = [], r_value = EMPTY\<rparr> = []
     \<and> apply_fn (\<lambda>f this args. Inl ''boom'') (r_fn \<lparr>r_token = TString ''A'', r_fn = UserFn 1, r_useNew = False, r_deps = [], r_value = EMPTY\<rparr>) (if r_useNew \<lparr>r_token = TString ''A'', r_fn = UserFn 1, r_useNew = False, r_deps = [], r_value = EMPTY\<rparr> then VObject 0 else VUndefined) [] = Inl ''boom''
"
    by (simp add: getId_def lookup_record_def set_value_def OPT_DEFAULT_def OPT_CHECK_SELF_def OPT_CHECK_PARENT_def OPT_OPTIONAL_def is_circular_def path_token_def newError_def get_catch_def nullInjector_get_def Injector_def Let_def)
  have hF: "getId (TString ''B'') = Inr (Key (TString ''B'')) \<and> map_of [(Key (TString ''B''), \<lparr>r_token = TString ''B'', r_fn = UserFn 1, r_useNew = False, r_deps = [\<lparr>dep_id = Key (TString ''A''), dep_token = TString ''A'', options = OPT_DEFAULT\<rparr>], r_value = EMPTY\<rparr>)] (Key (TString ''B'')) = Some \<lparr>r_token = TString ''B'', r_fn = UserFn 1, r_useNew = False, r_deps = [\<lparr>dep_id = Key (TString ''A''), dep_token = TString ''A'', options = OPT_DEFAULT\<rparr>], r_value = EMPTY\<rparr>
     \<and> r_value \<lparr>r_token = TString ''B'', r_fn = UserFn 1, r_useNew = False, r_deps = [\<lparr>dep_id = Key (TString ''A''), dep_token = TString ''A'', options = OPT_DEFAULT\<rparr>], r_value = EMPTY\<rparr> = EMPTY
     \<and> resolveDeps (Suc (Suc (Suc (Suc 0)))) (\<lambda>f this args. Inr VUndefined) (r_deps \<lparr>r_token = TString ''B'', r_fn = UserFn 1, r_useNew = False, r_deps = [\<lparr>dep_id = Key (TString ''A''), dep_token = TString ''A'', options = OPT_DEFAULT\<rparr>], r_value = EMPTY\<rparr>) (set_value [(Key (TString ''B''), \<lparr>r_token = TString ''B'', r_fn = UserFn 1, r_useNew = False, r_deps = [\<lparr>dep_id = Key (TString ''A''), dep_token = TString ''A'', options = OPT_DEFAULT\<rparr>], r_value = EMPTY\<rparr>)] (Key (TString ''B'')) CIRCULAR) NULL_INJECTOR 0
         = Some (Inl \<lparr>msg = NullInjectorError (TString ''A''), ngTempTokenPath = Some [TString ''A''], ngTokenPath = None\<rparr>, ([(Key (TString ''B''), \<lparr>r_token = TString ''B'', r_fn = UserFn 1, r_useNew = False, r_deps = [\<lparr>dep_id = Key (TString ''A''), dep_token = TString ''A'', options = OPT_DEFAULT\<rparr>], r_value = CIRCULAR\<rparr>)], NULL_INJECTOR, 0))"
    by (simp add: getId_def lookup_record_def set_value_def OPT_DEFAULT_def OPT_CHECK_SELF_def OPT_CHECK_PARENT_def OPT_OPTIONAL_def is_circular_def path_token_def newError_def get_catch_def nullInjector_get_def Injector_def Let_def)
  have cA: "\<exists>N. \<forall>n \<ge> N. resolveDeps (Suc n) (\<lambda>f this args. Inr VUndefined) (\<lparr>dep_id = Key (TString ''A''), dep_token = TString ''A'', options = OPT_DEFAULT OR OPT_OPTIONAL\<rparr> # []) [] (StaticInjector 1 [(Key (TString ''Z''), \<lparr>r_token = TString ''Z'', r_fn = IDENT, r_useNew = False, r_deps = [], r_value = Resolved (VNumber 1)\<rparr>)] NULL_INJECTOR) 0 =
        (case resolveDeps n (\<lambda>f this args. Inr VUndefined) [] [] (StaticInjector 1 [(Key (TString ''Z''), \<lparr>r_token = TString ''Z'', r_fn = IDENT, r_useNew = False, r_deps = [], r_value = Resolved (VNumber 1)\<rparr>)] NULL_INJECTOR) 0 of
           None \<Rightarrow> None
         | Some (Inl e, st) \<Rightarrow> Some (Inl e, st)
         | Some (Inr vs, st) \<Rightarrow> Some (Inr (VNull # vs), st))"
    by (rule optional_dependency_yields_null [where app = "(\<lambda>f this args. Inr VUndefined)" and h = 0 and d = "\<lparr>dep_id = Key (TString ''A''), dep_token = TString ''A'', options = OPT_DEFAULT OR OPT_OPTIONAL\<rparr>" and records = "[]" and parent = "(StaticInjector 1 [(Key (TString ''Z''), \<lparr>r_token = TString ''Z'', r_fn = IDENT, r_useNew = False, r_deps = [], r_value = Resolved (VNumber 1)\<rparr>)] NULL_INJECTOR)" and rest = "[]", THEN conjunct1, THEN mp, OF hA])
  have cB: "resolveDeps (Suc (Suc (Suc (Suc 0)))) (\<lambda>f this args. Inl ''boom'') (\<lparr>dep_id = Key (TString ''A''), dep_token = TString ''A'', options = OPT_DEFAULT OR OPT_OPTIONAL\<rparr> # []) [(Key (TString ''A''), \<lparr>r_token = TString ''A'', r_fn = UserFn 1, r_useNew = False, r_deps = [], r_value = EMPTY\<rparr>)] NULL_INJECTOR 0
       = resolveDeps (Suc (Suc (Suc (Suc 0)))) (\<lambda>f this args. Inl ''boom'') (\<lparr>dep_id = Key (TString ''A''), dep_token = TString ''A'', options = OPT_DEFAULT OR OPT_OPTIONAL\<rparr>\<lparr>options := options \<lparr>dep_id = Key (TString ''A''), dep_token = TString ''A'', options = OPT_DEFAULT OR OPT_OPTIONAL\<rparr> AND NOT OPT_OPTIONAL\<rparr> # []) [(Key (TString ''A''), \<lparr>r_token = TString ''A'', r_fn = UserFn 1, r_useNew = False, r_deps = [], r_value = EMPTY\<rparr>)] NULL_INJECTOR 0"
    by (rule optional_dependency_yields_null [where app = "(\<lambda>f this args. Inl ''boom'')" and h = 0 and d = "\<lparr>dep_id = Key (TString ''A''), dep_token = TString ''A'', options = OPT_DEFAULT OR OPT_OPTIONAL\<rparr>" and records = "[(Key (TString ''A''), \<lparr>r_token = TString ''A'', r_fn = UserFn 1, r_useNew = False, r_deps = [], r_value = EMPTY\<rparr>)]" and parent = "NULL_INJECTOR" and rest = "[]" and n = "(Suc (Suc (Suc (Suc 0))))", THEN conjunct2, THEN conjunct1, THEN mp, OF hB])
  have cC: "\<exists>N. \<forall>n \<ge> N. resolveDeps n (\<lambda>f this args. Inl ''boom'') ([] @ \<lparr>dep_id = Key (TString ''A''), dep_token = TString ''A'', options = OPT_DEFAULT OR OPT_OPTIONAL\<rparr> # []) [(Key (TString ''A''), \<lparr>r_token = TString ''A'', r_fn = UserFn 1, r_useNew = False, r_deps = [], r_value = EMPTY\<rparr>)] NULL_INJECTOR 0 = Some (Inl \<lparr>msg = Thrown ''boom'', ngTempTokenPath = Some [TString ''A''], ngTokenPath = None\<rparr>, ([(Key (TString ''A''), \<lparr>r_token = TString ''A'', r_fn = UserFn 1, r_useNew = False, r_deps = [], r_value = EMPTY\<rparr>)], NULL_INJECTOR, 0))"
    by (rule optional_dependency_yields_null [where app = "(\<lambda>f this args. Inl ''boom'')" and h = 0 and k = "Suc 0" and xs = "[]" and records = "[(Key (TString ''A''), \<lparr>r_token = TString ''A'', r_fn = UserFn 1, r_useNew = False, r_deps = [], r_value = EMPTY\<rparr>)]" and parent = "NULL_INJECTOR" and vs = "[]" and ?records1.0 = "[(Key (TString ''A''), \<lparr>r_token = TString ''A'', r_fn = UserFn 1, r_useNew = False, r_deps = [], r_value = EMPTY\<rparr>)]"
      and ?parent1.0 = "NULL_INJECTOR" and ?h1.0 = 0 and k' = "(Suc (Suc (Suc 0)))" and d' = "\<lparr>dep_id = Key (TString ''A''), dep_token = TString ''A'', options = OPT_DEFAULT OR OPT_OPTIONAL\<rparr>" and r' = "\<lparr>r_token = TString ''A'', r_fn = UserFn 1, r_useNew = False, r_deps = [], r_value = EMPTY\<rparr>" and nfv = VNull and e = "\<lparr>msg = Thrown ''boom'', ngTempTokenPath = Some [TString ''A''], ngTokenPath = None\<rparr>"
      and st = "([(Key (TString ''A''), \<lparr>r_token = TString ''A'', r_fn = UserFn 1, r_useNew = False, r_deps = [], r_value = EMPTY\<rparr>)], NULL_INJECTOR, 0)" and rest' = "[]", THEN conjunct2, THEN conjunct2, THEN conjunct1, THEN mp, OF hC])
  have cD: "\<exists>e. resolveDeps (Suc (Suc (Suc 0))) (\<lambda>f this args. Inr VUndefined) (\<lparr>dep_id = Key (TString ''A''), dep_token = TString ''A'', options = OPT_DEFAULT OR OPT_OPTIONAL\<rparr> # []) [(Key (TString ''A''), \<lparr>r_token = TString ''A'', r_fn = UserFn 1, r_useNew = False, r_deps = [\<lparr>dep_id = Key (TString ''A''), dep_token = TString ''A'', options = OPT_DEFAULT\<rparr>], r_value = CIRCULAR\<rparr>)] NULL_INJECTOR 0
               = Some (Inl e, set_value [(Key (TString ''A''), \<lparr>r_token = TString ''A'', r_fn = UserFn 1, r_useNew = False, r_deps = [\<lparr>dep_id = Key (TString ''A''), dep_token = TString ''A'', options = OPT_DEFAULT\<rparr>], r_value = CIRCULAR\<rparr>)] (dep_id \<lparr>dep_id = Key (TString ''A''), dep_token = TString ''A'', options = OPT_DEFAULT OR OPT_OPTIONAL\<rparr>) EMPTY, NULL_INJECTOR, 0)
          \<and> msg e = CircularDependency"
    by (rule optional_dependency_yields_null [where app = "(\<lambda>f this args. Inr VUndefined)" and h = 0 and d = "\<lparr>dep_id = Key (TString ''A''), dep_token = TString ''A'', options = OPT_DEFAULT OR OPT_OPTIONAL\<rparr>" and records = "[(Key (TString ''A''), \<lparr>r_token = TString ''A'', r_fn = UserFn 1, r_useNew = False, r_deps = [\<lparr>dep_id = Key (TString ''A''), dep_token = TString ''A'', options = OPT_DEFAULT\<rparr>], r_value = CIRCULAR\<rparr>)]" and r = "\<lparr>r_token = TString ''A'', r_fn = UserFn 1, r_useNew = False, r_deps = [\<lparr>dep_id = Key (TString ''A''), dep_token = TString ''A'', options = OPT_DEFAULT\<rparr>], r_value = CIRCULAR\<rparr>" and parent = "NULL_INJECTOR" and rest = "[]" and n = 0, THEN conjunct2, THEN conjunct2, THEN conjunct2, THEN conjunct1, THEN mp, OF hD])
  have cE: "\<exists>e st. resolveDeps (Suc (Suc (Suc (Suc 0)))) (\<lambda>f this args. Inl ''boom'') (\<lparr>dep_id = Key (TString ''A''), dep_token = TString ''A'', options = OPT_DEFAULT OR OPT_OPTIONAL\<rparr> # []) [(Key (TString ''A''), \<lparr>r_token = TString ''A'', r_fn = UserFn 1, r_useNew = False, r_deps = [], r_value = EMPTY\<rparr>)] NULL_INJECTOR 0 = Some (Inl e, st)
          \<and> msg e = Thrown ''boom''
"
    by (rule optional_dependency_yields_null [where app = "(\<lambda>f this args. Inl ''boom'')" and h = 0 and d = "\<lparr>dep_id = Key (TString ''A''), dep_token = TString ''A'', options = OPT_DEFAULT OR OPT_OPTIONAL\<rparr>" and records = "[(Key (TString ''A''), \<lparr>r_token = TString ''A'', r_fn = UserFn 1, r_useNew = False, r_deps = [], r_value = EMPTY\<rparr>)]" and r = "\<lparr>r_token = TString ''A'', r_fn = UserFn 1, r_useNew = False, r_deps = [], r_value = EMPTY\<rparr>" and parent = "NULL_INJECTOR" and rest = "[]" and n = 0 and t = "''boom''", THEN conjunct2, THEN conjunct2, THEN conjunct2, THEN conjunct2, THEN conjunct1, THEN mp, OF hE])
  have cF: "\<exists>e' scope' h'. injector_get (Suc (Suc (Suc (Suc (Suc (Suc (Suc 0))))))) (\<lambda>f this args. Inr VUndefined) (StaticInjector 2 [(Key (TString ''B''), \<lparr>r_token = TString ''B'', r_fn = UserFn 1, r_useNew = False, r_deps = [\<lparr>dep_id = Key (TString ''A''), dep_token = TString ''A'', options = OPT_DEFAULT\<rparr>], r_value = EMPTY\<rparr>)] NULL_INJECTOR) (TString ''B'') VUndefined 0
                       = Some (Inl e', scope', h')
                  \<and> cause (msg e') = cause (msg \<lparr>msg = NullInjectorError (TString ''A''), ngTempTokenPath = Some [TString ''A''], ngTokenPath = None\<rparr>)"
    by (rule optional_dependency_yields_null [where app = "(\<lambda>f this args. Inr VUndefined)" and h = 0 and token = "TString ''B''" and rid = "Key (TString ''B'')" and records = "[(Key (TString ''B''), \<lparr>r_token = TString ''B'', r_fn = UserFn 1, r_useNew = False, r_deps = [\<lparr>dep_id = Key (TString ''A''), dep_token = TString ''A'', options = OPT_DEFAULT\<rparr>], r_value = EMPTY\<rparr>)]" and r = "\<lparr>r_token = TString ''B'', r_fn = UserFn 1, r_useNew = False, r_deps = [\<lparr>dep_id = Key (TString ''A''), dep_token = TString ''A'', options = OPT_DEFAULT\<rparr>], r_value = EMPTY\<rparr>"
      and k = "(Suc (Suc (Suc (Suc 0))))" and parent = NULL_INJECTOR and e = "\<lparr>msg = NullInjectorError (TString ''A''), ngTempTokenPath = Some [TString ''A''], ngTokenPath = None\<rparr>" and st = "([(Key (TString ''B''), \<lparr>r_token = TString ''B'', r_fn = UserFn 1, r_useNew = False, r_deps = [\<lparr>dep_id = Key (TString ''A''), dep_token = TString ''A'', options = OPT_DEFAULT\<rparr>], r_value = CIRCULAR\<rparr>)], NULL_INJECTOR, 0)"
      and a = 2 and notFoundValue = VUndefined, THEN conjunct2, THEN conjunct2, THEN conjunct2, THEN conjunct2, THEN conjunct2, THEN mp, OF hF])
  show ?thesis
    by (rule conjI [OF hA0], rule conjI [OF cA], rule conjI [OF hB0], rule conjI [OF cB], rule conjI [OF hC], rule conjI [OF cC], rule conjI [OF hD], rule conjI [OF cD], rule conjI [OF hE], rule conjI [OF cE], rule conjI [OF hF], rule cF)
qed

subsection \<open>Mixing multi and regular providers\<close>


lemma resolveProvider_not_multi: "resolveProvider provider = Inr r \<Longrightarrow> r_fn r \<noteq> MULTI_PROVIDER_FN"
  by (auto simp: resolveProvider_def Let_def split: sum.splits option.splits token.splits)

lemma processProvider_kind:
  assumes "processProvider records provider t = Inr records'"
  shows "kind records' t' = (if t' = t then Some (multi provider) else kind records t')"
    and "kind records t = None \<or> kind records t = Some (multi provider)"
proof -
  from assms obtain r where r: "resolveProvider provider = Inr r" and g: "getId t = Inr (Key t)"
    by (auto simp: processProvider_def getId_def split: sum.splits if_splits)
  note n = resolveProvider_not_multi [OF r]
  show "kind records' t' = (if t' = t then Some (multi provider) else kind records t')"
    using assms r g n
    by (auto simp: processProvider_def kind_def Let_def update_conv' map_of_map_entry holds_multi_def
             split: if_splits option.splits)
  show "kind records t = None \<or> kind records t = Some (multi provider)"
    using assms r g n
    by (auto simp: processProvider_def kind_def Let_def holds_multi_def
             split: if_splits option.splits)
qed

lemma build_kind:
  "recursivelyProcessProviders records p = Inr records'
     \<Longrightarrow> (\<forall>t b. kind records t = Some b \<longrightarrow> kind records' t = Some b)
       \<and> (\<forall>t b. registers b t p \<longrightarrow> kind records' t = Some b)"
  and build_kind_array: "processArray records ps = Inr records'
     \<Longrightarrow> (\<forall>t b. kind records t = Some b \<longrightarrow> kind records' t = Some b)
       \<and> (\<forall>t b. registers b t (PArray ps) \<longrightarrow> kind records' t = Some b)"
proof (induction records p and records ps arbitrary: records' and records'
        rule: recursivelyProcessProviders_processArray.induct)
  case (8 records provider)
  then obtain t where t: "provide provider = Some t"
    and p: "processProvider records provider t = Inr records'"
    by (auto split: option.splits)
  from processProvider_kind [OF p] t show ?case by auto
next
  case (11 records p ps)
  from "11.prems" obtain records1 where
    a: "recursivelyProcessProviders records p = Inr records1"
    and b: "processArray records1 ps = Inr records'"
    by (auto split: sum.splits)
  from "11.IH"(1) [OF a] "11.IH"(2) [OF a b] show ?case
    by auto
qed auto

lemma build_errors:
  "recursivelyProcessProviders records p = Inl e \<Longrightarrow> acceptable p
     \<Longrightarrow> \<exists>t. e = multiProviderMixError t"
  and build_errors_array: "processArray records ps = Inl e \<Longrightarrow> acceptable (PArray ps)
     \<Longrightarrow> \<exists>t. e = multiProviderMixError t"
proof (induction records p and records ps
        rule: recursivelyProcessProviders_processArray.induct)
  case (8 records provider)
  then show ?case
    by (auto simp: processProvider_def getId_def Let_def split: option.splits sum.splits if_splits)
next
  case (11 records p ps)
  then show ?case by (auto split: sum.splits)
qed auto

text \<open>
  C8 (as amended).  A provider list that registers a token both with \<^verbatim>\<open>multi: true\<close>
  and without it never builds a scope, in either order and whatever else it holds; when
  every entry of the list is acceptable by itself, the failure is "Cannot mix multi
  providers and regular providers".
\<close>

theorem mixed_multi_provider_fails:
  "(registers True t providers \<and> registers False t providers \<longrightarrow>
      (\<exists>e. new_StaticInjector this providers parent = Inl e))
 \<and> (registers True t providers \<and> registers False t providers \<and> acceptable providers \<longrightarrow>
      (\<exists>t'. new_StaticInjector this providers parent = Inl (multiProviderMixError t')))"
proof -
  let ?seed = "[(Key Injector, \<lparr>r_token = Injector, r_fn = IDENT, r_useNew = False, r_deps = [],
                                 r_value = Resolved (VInjector this)\<rparr>)]"
  have n: "new_StaticInjector this providers parent =
      (case recursivelyProcessProviders ?seed providers of
         Inl e \<Rightarrow> Inl e | Inr records' \<Rightarrow> Inr (StaticInjector this records' parent))"
    by (simp add: new_StaticInjector_def getId_def Injector_def)
  have f: "\<exists>e. recursivelyProcessProviders ?seed providers = Inl e"
    if "registers True t providers" "registers False t providers"
  proof (cases "recursivelyProcessProviders ?seed providers")
    case (Inl e)
    then show ?thesis by blast
  next
    case (Inr records')
    from build_kind [OF Inr] that have "kind records' t = Some True" "kind records' t = Some False"
      by blast+
    then show ?thesis by simp
  qed
  show ?thesis
  proof (intro conjI impI)
    assume "registers True t providers \<and> registers False t providers"
    with f n show "\<exists>e. new_StaticInjector this providers parent = Inl e" by auto
  next
    assume a: "registers True t providers \<and> registers False t providers \<and> acceptable providers"
    with f obtain e where e: "recursivelyProcessProviders ?seed providers = Inl e" by blast
    from build_errors [OF e] a obtain t' where "e = multiProviderMixError t'" by blast
    with e n show "\<exists>t'. new_StaticInjector this providers parent = Inl (multiProviderMixError t')"
      by auto
  qed
qed

theorem mixed_multi_provider_fails_witness:
  "(registers True (TString ''T'') (PArray [PObject \<lparr>provide = Some (TString ''T''), useValue = Some (VNumber 1), useFactory = None, useExisting = None, useClass = None, deps = None, multi = True\<rparr>,
        PObject \<lparr>provide = Some (TString ''T''), useValue = Some (VNumber 2), useFactory = None, useExisting = None, useClass = None, deps = None, multi = False\<rparr>]) \<and> registers False (TString ''T'') (PArray [PObject \<lparr>provide = Some (TString ''T''), useValue = Some (VNumber 1), useFactory = None, useExisting = None, useClass = None, deps = None, multi = True\<rparr>,
        PObject \<lparr>provide = Some (TString ''T''), useValue = Some (VNumber 2), useFactory = None, useExisting = None, useClass = None, deps = None, multi = False\<rparr>]) \<and> acceptable (PArray [PObject \<lparr>provide = Some (TString ''T''), useValue = Some (VNumber 1), useFactory = None, useExisting = None, useClass = None, deps = None, multi = True\<rparr>,
        PObject \<lparr>provide = Some (TString ''T''), useValue = Some (VNumber 2), useFactory = None, useExisting = None, useClass = None, deps = None, multi = False\<rparr>]))
   \<and> (\<exists>t'. new_StaticInjector 1 (PArray [PObject \<lparr>provide = Some (TString ''T''), useValue = Some (VNumber 1), useFactory = None, useExisting = None, useClass = None, deps = None, multi = True\<rparr>,
        PObject \<lparr>provide = Some (TString ''T''), useValue = Some (VNumber 2), useFactory = None, useExisting = None, useClass = None, deps = None, multi = False\<rparr>]) NULL_INJECTOR = Inl (multiProviderMixError t'))
   \<and> (registers True (TString ''T'') (PArray [PObject \<lparr>provide = Some (TString ''T''), useValue = Some (VNumber 2), useFactory = None, useExisting = None, useClass = None, deps = None, multi = False\<rparr>,
        PArray [PNull, PObject \<lparr>provide = Some (TString ''T''), useValue = Some (VNumber 1), useFactory = None, useExisting = None, useClass = None, deps = None, multi = True\<rparr>]]) \<and> registers False (TString ''T'') (PArray [PObject \<lparr>provide = Some (TString ''T''), useValue = Some (VNumber 2), useFactory = None, useExisting = None, useClass = None, deps = None, multi = False\<rparr>,
        PArray [PNull, PObject \<lparr>provide = Some (TString ''T''), useValue = Some (VNumber 1), useFactory = None, useExisting = None, useClass = None, deps = None, multi = True\<rparr>]]) \<and> acceptable (PArray [PObject \<lparr>provide = Some (TString ''T''), useValue = Some (VNumber 2), useFactory = None, useExisting = None, useClass = None, deps = None, multi = False\<rparr>,
        PArray [PNull, PObject \<lparr>provide = Some (TString ''T''), useValue = Some (VNumber 1), useFactory = None, useExisting = None, useClass = None, deps = None, multi = True\<rparr>]]))
   \<and> (\<exists>t'. new_StaticInjector 1 (PArray [PObject \<lparr>provide = Some (TString ''T''), useValue = Some (VNumber 2), useFactory = None, useExisting = None, useClass = None, deps = None, multi = False\<rparr>,
        PArray [PNull, PObject \<lparr>provide = Some (TString ''T''), useValue = Some (VNumber 1), useFactory = None, useExisting = None, useClass = None, deps = None, multi = True\<rparr>]]) NULL_INJECTOR = Inl (multiProviderMixError t'))
   \<and> new_StaticInjector 1 (PArray [PObject \<lparr>provide = Some (TString ''T''), useValue = Some (VNumber 1), useFactory = None, useExisting = None, useClass = None, deps = None, multi = True\<rparr>,
        PObject \<lparr>provide = Some (TString ''T''), useValue = Some (VNumber 2), useFactory = None, useExisting = None, useClass = None, deps = None, multi = False\<rparr>]) NULL_INJECTOR = Inl (multiProviderMixError (TString ''T''))
   \<and> new_StaticInjector 1 (PArray [PObject \<lparr>provide = Some (TString ''T''), useValue = Some (VNumber 2), useFactory = None, useExisting = None, useClass = None, deps = None, multi = False\<rparr>,
        PArray [PNull, PObject \<lparr>provide = Some (TString ''T''), useValue = Some (VNumber 1), useFactory = None, useExisting = None, useClass = None, deps = None, multi = True\<rparr>]]) NULL_INJECTOR = Inl (multiProviderMixError (TString ''T''))"
proof -
  have h1: "registers True (TString ''T'') (PArray [PObject \<lparr>provide = Some (TString ''T''), useValue = Some (VNumber 1), useFactory = None, useExisting = None, useClass = None, deps = None, multi = True\<rparr>,
        PObject \<lparr>provide = Some (TString ''T''), useValue = Some (VNumber 2), useFactory = None, useExisting = None, useClass = None, deps = None, multi = False\<rparr>]) \<and> registers False (TString ''T'') (PArray [PObject \<lparr>provide = Some (TString ''T''), useValue = Some (VNumber 1), useFactory = None, useExisting = None, useClass = None, deps = None, multi = True\<rparr>,
        PObject \<lparr>provide = Some (TString ''T''), useValue = Some (VNumber 2), useFactory = None, useExisting = None, useClass = None, deps = None, multi = False\<rparr>]) \<and> acceptable (PArray [PObject \<lparr>provide = Some (TString ''T''), useValue = Some (VNumber 1), useFactory = None, useExisting = None, useClass = None, deps = None, multi = True\<rparr>,
        PObject \<lparr>provide = Some (TString ''T''), useValue = Some (VNumber 2), useFactory = None, useExisting = None, useClass = None, deps = None, multi = False\<rparr>])"
    by (simp add: resolveProvider_def computeDeps_def)
  have h2: "registers True (TString ''T'') (PArray [PObject \<lparr>provide = Some (TString ''T''), useValue = Some (VNumber 2), useFactory = None, useExisting = None, useClass = None, deps = None, multi = False\<rparr>,
        PArray [PNull, PObject \<lparr>provide = Some (TString ''T''), useValue = Some (VNumber 1), useFactory = None, useExisting = None, useClass = None, deps = None, multi = True\<rparr>]]) \<and> registers False (TString ''T'') (PArray [PObject \<lparr>provide = Some (TString ''T''), useValue = Some (VNumber 2), useFactory = None, useExisting = None, useClass = None, deps = None, multi = False\<rparr>,
        PArray [PNull, PObject \<lparr>provide = Some (TString ''T''), useValue = Some (VNumber 1), useFactory = None, useExisting = None, useClass = None, deps = None, multi = True\<rparr>]]) \<and> acceptable (PArray [PObject \<lparr>provide = Some (TString ''T''), useValue = Some (VNumber 2), useFactory = None, useExisting = None, useClass = None, deps = None, multi = False\<rparr>,
        PArray [PNull, PObject \<lparr>provide = Some (TString ''T''), useValue = Some (VNumber 1), useFactory = None, useExisting = None, useClass = None, deps = None, multi = True\<rparr>]])"
    by (simp add: resolveProvider_def computeDeps_def)
  have c1: "\<exists>t'. new_StaticInjector 1 (PArray [PObject \<lparr>provide = Some (TString ''T''), useValue = Some (VNumber 1), useFactory = None, useExisting = None, useClass = None, deps = None, multi = True\<rparr>,
        PObject \<lparr>provide = Some (TString ''T''), useValue = Some (VNumber 2), useFactory = None, useExisting = None, useClass = None, deps = None, multi = False\<rparr>]) NULL_INJECTOR = Inl (multiProviderMixError t')"
    by (rule mixed_multi_provider_fails [where t = "TString ''T''" and providers = "(PArray [PObject \<lparr>provide = Some (TString ''T''), useValue = Some (VNumber 1), useFactory = None, useExisting = None, useClass = None, deps = None, multi = True\<rparr>,
        PObject \<lparr>provide = Some (TString ''T''), useValue = Some (VNumber 2), useFactory = None, useExisting = None, useClass = None, deps = None, multi = False\<rparr>])" and this = 1 and parent = NULL_INJECTOR,
          THEN conjunct2, THEN mp, OF h1])
  have c2: "\<exists>t'. new_StaticInjector 1 (PArray [PObject \<lparr>provide = Some (TString ''T''), useValue = Some (VNumber 2), useFactory = None, useExisting = None, useClass = None, deps = None, multi = False\<rparr>,
        PArray [PNull, PObject \<lparr>provide = Some (TString ''T''), useValue = Some (VNumber 1), useFactory = None, useExisting = None, useClass = None, deps = None, multi = True\<rparr>]]) NULL_INJECTOR = Inl (multiProviderMixError t')"
    by (rule mixed_multi_provider_fails [where t = "TString ''T''" and providers = "(PArray [PObject \<lparr>provide = Some (TString ''T''), useValue = Some (VNumber 2), useFactory = None, useExisting = None, useClass = None, deps = None, multi = False\<rparr>,
        PArray [PNull, PObject \<lparr>provide = Some (TString ''T''), useValue = Some (VNumber 1), useFactory = None, useExisting = None, useClass = None, deps = None, multi = True\<rparr>]])" and this = 1 and parent = NULL_INJECTOR,
          THEN conjunct2, THEN mp, OF h2])
  have e1: "new_StaticInjector 1 (PArray [PObject \<lparr>provide = Some (TString ''T''), useValue = Some (VNumber 1), useFactory = None, useExisting = None, useClass = None, deps = None, multi = True\<rparr>,
        PObject \<lparr>provide = Some (TString ''T''), useValue = Some (VNumber 2), useFactory = None, useExisting = None, useClass = None, deps = None, multi = False\<rparr>]) NULL_INJECTOR = Inl (multiProviderMixError (TString ''T''))"
    by (simp add: new_StaticInjector_def getId_def Injector_def processProvider_def resolveProvider_def
          computeDeps_def holds_multi_def Let_def)
  have e2: "new_StaticInjector 1 (PArray [PObject \<lparr>provide = Some (TString ''T''), useValue = Some (VNumber 2), useFactory = None, useExisting = None, useClass = None, deps = None, multi = False\<rparr>,
        PArray [PNull, PObject \<lparr>provide = Some (TString ''T''), useValue = Some (VNumber 1), useFactory = None, useExisting = None, useClass = None, deps = None, multi = True\<rparr>]]) NULL_INJECTOR = Inl (multiProviderMixError (TString ''T''))"
    by (simp add: new_StaticInjector_def getId_def Injector_def processProvider_def resolveProvider_def
          computeDeps_def holds_multi_def Let_def)
  show ?thesis
    by (rule conjI [OF h1], rule conjI [OF c1], rule conjI [OF h2], rule conjI [OF c2],
        rule conjI [OF e1], rule e2)
qed

text \<open>
  With a description that is not acceptable by itself the failure can be another one:
  \<^verbatim>\<open>[{provide: 'T', useValue: 1, multi: true}, {provide: 'T', useFactory: f}]\<close> registers
  \<^verbatim>\<open>'T'\<close> both ways and fails with "'deps' required", which \<^verbatim>\<open>resolveProvider\<close> raises
  before the builder compares the two descriptions.
\<close>

theorem mixed_multi_provider_other_error_counterexample:
  "registers True (TString ''T'') (PArray [PObject \<lparr>provide = Some (TString ''T''), useValue = Some (VNumber 1), useFactory = None, useExisting = None, useClass = None, deps = None, multi = True\<rparr>,
        PObject \<lparr>provide = Some (TString ''T''), useValue = None, useFactory = Some 1, useExisting = None, useClass = None, deps = None, multi = False\<rparr>])
   \<and> registers False (TString ''T'') (PArray [PObject \<lparr>provide = Some (TString ''T''), useValue = Some (VNumber 1), useFactory = None, useExisting = None, useClass = None, deps = None, multi = True\<rparr>,
        PObject \<lparr>provide = Some (TString ''T''), useValue = None, useFactory = Some 1, useExisting = None, useClass = None, deps = None, multi = False\<rparr>])
   \<and> new_StaticInjector 1 (PArray [PObject \<lparr>provide = Some (TString ''T''), useValue = Some (VNumber 1), useFactory = None, useExisting = None, useClass = None, deps = None, multi = True\<rparr>,
        PObject \<lparr>provide = Some (TString ''T''), useValue = None, useFactory = Some 1, useExisting = None, useClass = None, deps = None, multi = False\<rparr>]) NULL_INJECTOR
       = Inl (newError (DepsRequired \<lparr>provide = Some (TString ''T''), useValue = None, useFactory = Some 1, useExisting = None, useClass = None, deps = None, multi = False\<rparr>))
   \<and> newError (DepsRequired \<lparr>provide = Some (TString ''T''), useValue = None, useFactory = Some 1, useExisting = None, useClass = None, deps = None, multi = False\<rparr>) \<noteq> multiProviderMixError (TString ''T'')"
  by (simp add: new_StaticInjector_def getId_def Injector_def processProvider_def resolveProvider_def
        computeDeps_def holds_multi_def multiProviderMixError_def newError_def Let_def)

subsection \<open>Multi providers\<close>


lemma processProvider_frame:
  assumes "processProvider records provider t' = Inr records'"
      and "k \<noteq> Key t'" and "\<And>j. k \<noteq> MultiKey j (Key t')"
  shows "map_of records' k = map_of records k"
  using assms
  by (auto simp: processProvider_def getId_def Let_def update_conv' map_of_map_entry
           split: sum.splits if_splits option.splits)

lemma multi_deps_Suc:
  "multi_deps t (Suc n) = multi_deps t n @ [\<lparr>dep_id = MultiKey n (Key t), dep_token = t, options = OPT_DEFAULT\<rparr>]"
  by (simp add: multi_deps_def)

lemma processProvider_multi_registered:
  assumes p: "processProvider records provider t' = Inr records'"
      and m: "multi_registered t records ms"
  shows "multi_registered t records' (if t' = t \<and> multi provider then ms @ [provider] else ms)"
proof -
  from p obtain r where r: "resolveProvider provider = Inr r" and g: "getId t' = Inr (Key t')"
    by (auto simp: processProvider_def getId_def split: sum.splits if_splits)
  note n = resolveProvider_not_multi [OF r]
  show ?thesis
  proof (cases "t' = t")
    case False
    have "map_of records' (Key t) = map_of records (Key t)"
      using False by (intro processProvider_frame [OF p]) auto
    moreover have "map_of records' (MultiKey i (Key t)) = map_of records (MultiKey i (Key t))" for i
      using False by (intro processProvider_frame [OF p]) auto
    ultimately show ?thesis using m False
      by (simp add: multi_registered_def holds_multi_def)
  next
    case True
    show ?thesis
    proof (cases "multi provider")
      case nm: False
      with p r g True have h: "\<not> holds_multi records (Key t)"
        and e: "records' = AList.update (Key t) r records"
        by (auto simp: processProvider_def split: if_splits)
      from h m have "ms = []"
        by (auto simp: multi_registered_def holds_multi_def)
      then show ?thesis using nm e n
        by (simp add: multi_registered_def holds_multi_def update_conv')
    next
      case mu: True
      show ?thesis
      proof (cases "ms = []")
        case e: True
        with m have h: "\<not> holds_multi records (Key t)" by (simp add: multi_registered_def)
        from p r g True mu h have none: "map_of records (Key t) = None"
          by (auto simp: processProvider_def holds_multi_def split: option.splits if_splits)
        from p r g True mu none have
          "records' = AList.update (MultiKey 0 (Key t)) r
             (AList.map_entry (Key t) (\<lambda>r. r\<lparr>r_deps := r_deps r @
                  [\<lparr>dep_id = MultiKey 0 (Key t), dep_token = t, options = OPT_DEFAULT\<rparr>]\<rparr>)
               (AList.update (Key t) \<lparr>r_token = t, r_fn = MULTI_PROVIDER_FN, r_useNew = False,
                                        r_deps = [], r_value = EMPTY\<rparr> records))"
          by (auto simp: processProvider_def Let_def split: if_splits)
        then show ?thesis using e True mu r
          by (simp add: multi_registered_def update_conv' map_of_map_entry multi_deps_def)
      next
        case ne: False
        with m have pl: "map_of records (Key t)
          = Some \<lparr>r_token = t, r_fn = MULTI_PROVIDER_FN, r_useNew = False,
                  r_deps = multi_deps t (length ms), r_value = EMPTY\<rparr>"
          and old: "\<forall>i < length ms. \<exists>r. resolveProvider (ms ! i) = Inr r
                            \<and> map_of records (MultiKey i (Key t)) = Some r"
          by (simp_all add: multi_registered_def)
        have len: "length (multi_deps t (length ms)) = length ms" by (simp add: multi_deps_def)
        from p r g True mu pl len have
          e: "records' = AList.update (MultiKey (length ms) (Key t)) r
             (AList.map_entry (Key t) (\<lambda>r. r\<lparr>r_deps := r_deps r @
                  [\<lparr>dep_id = MultiKey (length ms) (Key t), dep_token = t, options = OPT_DEFAULT\<rparr>]\<rparr>)
               records)"
          by (auto simp: processProvider_def Let_def split: if_splits)
        have a: "map_of records' (Key t)
          = Some \<lparr>r_token = t, r_fn = MULTI_PROVIDER_FN, r_useNew = False,
                  r_deps = multi_deps t (Suc (length ms)), r_value = EMPTY\<rparr>"
          using e pl by (simp add: update_conv' map_of_map_entry multi_deps_Suc)
        have b: "\<exists>r'. resolveProvider ((ms @ [provider]) ! i) = Inr r'
                            \<and> map_of records' (MultiKey i (Key t)) = Some r'"
          if "i < Suc (length ms)" for i
        proof (cases "i = length ms")
          case True
          then show ?thesis using e r by (simp add: update_conv')
        next
          case False
          with that have i: "i < length ms" by simp
          with old obtain r' where "resolveProvider (ms ! i) = Inr r'"
            "map_of records (MultiKey i (Key t)) = Some r'" by blast
          then show ?thesis using e i False
            by (simp add: update_conv' map_of_map_entry nth_append)
        qed
        show ?thesis using True mu a b
          by (simp add: multi_registered_def)
      qed
    qed
  qed
qed

lemma build_multi_registered:
  "recursivelyProcessProviders records p = Inr records' \<Longrightarrow> multi_registered t records ms
     \<Longrightarrow> multi_registered t records' (ms @ contributions t p)"
  and build_multi_registered_array:
  "processArray records ps = Inr records' \<Longrightarrow> multi_registered t records ms
     \<Longrightarrow> multi_registered t records' (ms @ contributions t (PArray ps))"
proof (induction records p and records ps arbitrary: records' ms and records' ms
        rule: recursivelyProcessProviders_processArray.induct)
  case (8 records provider)
  then obtain t' where t: "provide provider = Some t'"
    and p: "processProvider records provider t' = Inr records'"
    by (auto split: option.splits)
  from processProvider_multi_registered [OF p "8.prems"(2)] t show ?case
    by (auto simp: contributions_def)
next
  case (11 records p ps)
  from "11.prems" obtain records1 where
    a: "recursivelyProcessProviders records p = Inr records1"
    and b: "processArray records1 ps = Inr records'"
    by (auto split: sum.splits)
  from "11.IH"(2) [OF a b "11.IH"(1) [OF a "11.prems"(2)]] show ?case
    by (simp add: contributions_def)
qed (auto simp: contributions_def)


lemma try_success_is_resolve:
  "tryResolveToken n app token rcd records parent nfv h = Some (Inr v, st)
     \<Longrightarrow> \<exists>k. n = Suc k \<and> resolveToken k app token rcd records parent nfv h = Some (Inr v, st)"
  by (cases n) (auto simp: Let_def split: option.splits sum.splits)

lemma registry_rel_resolved_kept:
  "registry_rel (\<lambda>k. fills) records records' \<Longrightarrow> map_of records k = Some r
     \<Longrightarrow> r_value r = Resolved v \<Longrightarrow> map_of records' k = Some r"
  by (auto dest!: registry_rel_Some [where k = k] simp: fills_def)

lemma resolveDeps_values:
  "resolveDeps n app ds records parent h = Some (Inr vs, records', parent', h')
     \<Longrightarrow> length vs = length ds
       \<and> (\<forall>i < length ds. options (ds ! i) AND OPT_CHECK_SELF \<noteq> 0
             \<longrightarrow> map_of records (dep_id (ds ! i)) \<noteq> None
             \<longrightarrow> (\<exists>r. map_of records' (dep_id (ds ! i)) = Some r \<and> r_value r = Resolved (vs ! i)))"
proof (induction ds arbitrary: n records parent h vs)
  case Nil
  then show ?case by (cases n) auto
next
  case (Cons d rest)
  from Cons.prems obtain k where n: "n = Suc k" by (cases n) auto
  define childRecord where "childRecord =
     (if options d AND OPT_CHECK_SELF \<noteq> 0 then lookup_record records (dep_id d) else None)"
  define useNull where "useNull = (childRecord = None \<and> options d AND OPT_CHECK_PARENT = 0)"
  define nfv' where "nfv' = (if options d AND OPT_OPTIONAL \<noteq> 0 then VNull else THROW_IF_NOT_FOUND)"
  define p where "p = (if useNull then NULL_INJECTOR else parent)"
  note defs = childRecord_def [symmetric] useNull_def [symmetric] nfv'_def [symmetric] p_def [symmetric]
  from Cons.prems n obtain v recordsA parentA hA vs' where
    a: "tryResolveToken k app (dep_token d) childRecord records p nfv' h = Some (Inr v, recordsA, parentA, hA)"
    and b: "resolveDeps k app rest recordsA (if useNull then parent else parentA) hA
              = Some (Inr vs', records', parent', h')"
    and vs: "vs = v # vs'"
    by (auto simp: Let_def defs split: option.splits sum.splits)
  note ih = Cons.IH [OF b]
  from resolver_rel_try [OF a] have relA: "registry_rel (\<lambda>k. fills) records recordsA" by simp
  from resolver_rel_deps [OF b] have relB: "registry_rel (\<lambda>k. fills) recordsA records'" by simp
  have "\<exists>r. map_of records' (dep_id ((d # rest) ! i)) = Some r \<and> r_value r = Resolved (vs ! i)"
    if i: "i < length (d # rest)" and o: "options ((d # rest) ! i) AND OPT_CHECK_SELF \<noteq> 0"
       and l: "map_of records (dep_id ((d # rest) ! i)) \<noteq> None" for i
  proof (cases i)
    case 0
    with o l have c: "childRecord = Some (dep_id d)"
      by (auto simp: childRecord_def lookup_record_def)
    from try_success_is_resolve [OF a] c obtain k' where
      "resolveToken k' app (dep_token d) (Some (dep_id d)) records p nfv' h = Some (Inr v, recordsA, parentA, hA)"
      by auto
    from resolveToken_memoizes [OF this] obtain r where
      r: "map_of recordsA (dep_id d) = Some r" "r_value r = Resolved v" by blast
    from registry_rel_resolved_kept [OF relB r] r(2) 0 vs show ?thesis by auto
  next
    case (Suc j)
    with l obtain r0 where "map_of records (dep_id (rest ! j)) = Some r0" by auto
    from registry_rel_Some [OF relA this] have "map_of recordsA (dep_id (rest ! j)) \<noteq> None" by auto
    with ih Suc i o vs show ?thesis by auto
  qed
  with ih vs show ?case by auto
qed

lemma build_truthy:
  "recursivelyProcessProviders records p = Inr records' \<Longrightarrow> provider \<in> set (descriptions p)
     \<Longrightarrow> provide provider = Some t \<Longrightarrow> truthy t"
  and build_truthy_array:
  "processArray records ps = Inr records' \<Longrightarrow> provider \<in> set (descriptions (PArray ps))
     \<Longrightarrow> provide provider = Some t \<Longrightarrow> truthy t"
proof (induction records p and records ps arbitrary: records' and records'
        rule: recursivelyProcessProviders_processArray.induct)
  case (8 records provider')
  then show ?case
    by (auto simp: processProvider_def getId_def split: option.splits sum.splits if_splits)
next
  case (11 records p ps)
  then show ?case by (auto split: sum.splits)
qed auto

lemma multi_deps_nth:
  "i < n \<Longrightarrow> multi_deps t n ! i = \<lparr>dep_id = MultiKey i (Key t), dep_token = t, options = OPT_DEFAULT\<rparr>"
  by (simp add: multi_deps_def)

lemma length_multi_deps [simp]: "length (multi_deps t n) = n"
  by (simp add: multi_deps_def)

lemma built_scope:
  assumes "new_StaticInjector this providers parent = Inr scope"
      and "contributions t providers = ms" and "ms \<noteq> []"
  obtains records where "scope = StaticInjector this records parent"
      and "multi_registered t records ms" and "getId t = Inr (Key t)"
proof -
  let ?seed = "[(Key Injector, \<lparr>r_token = Injector, r_fn = IDENT, r_useNew = False, r_deps = [],
                                 r_value = Resolved (VInjector this)\<rparr>)]"
  from assms(1) obtain records where b: "recursivelyProcessProviders ?seed providers = Inr records"
    and s: "scope = StaticInjector this records parent"
    by (auto simp: new_StaticInjector_def getId_def Injector_def split: sum.splits)
  have "multi_registered t ?seed []"
    by (simp add: multi_registered_def holds_multi_def)
  from build_multi_registered [OF b this] assms(2) have m: "multi_registered t records ms" by simp
  from assms(2,3) have "hd ms \<in> set ms" by simp
  with assms(2) have "hd ms \<in> set (descriptions providers)" "provide (hd ms) = Some t"
    by (auto simp: contributions_def)
  from build_truthy [OF b this] have "getId t = Inr (Key t)" by (simp add: getId_def)
  with s m that show thesis by blast
qed


lemma multi_get_result:
  assumes "multi_registered t records ms" "ms \<noteq> []"
      and "injector_get n app (StaticInjector this records parent) t nfv h = Some (Inr v, scope', h')"
  shows "\<exists>vs. v = VArray vs \<and> length vs = length ms
           \<and> (\<forall>i < length ms. slot_at scope' 0 (MultiKey i (Key t)) = Some (Resolved (vs ! i)))"
proof -
  let ?pl = "\<lparr>r_token = t, r_fn = MULTI_PROVIDER_FN, r_useNew = False,
                r_deps = multi_deps t (length ms), r_value = EMPTY\<rparr>"
  from assms(1,2) have pl: "map_of records (Key t) = Some ?pl"
    and each: "\<forall>i < length ms. \<exists>r. resolveProvider (ms ! i) = Inr r
                            \<and> map_of records (MultiKey i (Key t)) = Some r"
    by (simp_all add: multi_registered_def)
  from assms(3) obtain n1 where n: "n = Suc n1" by (cases n) auto
  from assms(3) n have g: "getId t = Inr (Key t)"
    by (auto simp: getId_def split: if_splits)
  from assms(3) n g pl obtain recordsF parentF where
    t: "tryResolveToken n1 app t (Some (Key t)) records parent nfv h = Some (Inr v, recordsF, parentF, h')"
    and s: "scope' = StaticInjector this recordsF parentF"
    by (auto simp: lookup_record_def split: option.splits sum.splits)
  from try_success_is_resolve [OF t] obtain n2 where
    r: "resolveToken n2 app t (Some (Key t)) records parent nfv h = Some (Inr v, recordsF, parentF, h')"
    by blast
  then obtain n3 where n2: "n2 = Suc n3" by (cases n2) auto
  from r n2 pl obtain vs records1 h1 where
    d: "resolveDeps n3 app (multi_deps t (length ms)) (set_value records (Key t) CIRCULAR) parent h
          = Some (Inr vs, records1, parentF, h1)"
    and v: "v = VArray vs" and f: "recordsF = set_value records1 (Key t) (Resolved v)"
    by (auto simp: Let_def split: option.splits sum.splits)
  from resolveDeps_values [OF d] have len: "length vs = length ms"
    and vals: "\<forall>i < length ms. options (multi_deps t (length ms) ! i) AND OPT_CHECK_SELF \<noteq> 0
             \<longrightarrow> map_of (set_value records (Key t) CIRCULAR) (dep_id (multi_deps t (length ms) ! i)) \<noteq> None
             \<longrightarrow> (\<exists>r. map_of records1 (dep_id (multi_deps t (length ms) ! i)) = Some r
                     \<and> r_value r = Resolved (vs ! i))"
    by simp_all
  have "slot_at scope' 0 (MultiKey i (Key t)) = Some (Resolved (vs ! i))" if i: "i < length ms" for i
  proof -
    from each i obtain ri where ri: "resolveProvider (ms ! i) = Inr ri"
      "map_of records (MultiKey i (Key t)) = Some ri" by blast
    from vals i ri(2) obtain r where "map_of records1 (MultiKey i (Key t)) = Some r"
      "r_value r = Resolved (vs ! i)"
      by (auto simp: multi_deps_nth map_of_set_value)
    then show ?thesis
      by (simp add: s f map_of_set_value)
  qed
  with v len show ?thesis by blast
qed

lemma try_success_record:
  assumes "tryResolveToken n app token (Some rid) records parent nfv h = Some x"
  shows "map_of records rid \<noteq> None"
proof (cases n)
  case 0
  with assms show ?thesis by simp
next
  case (Suc m)
  with assms show ?thesis
    by (cases m) (auto split: option.splits)
qed

lemma resolve_each_length:
  "resolve_each k app ds records parent h = Some (vs, st) \<Longrightarrow> length vs = length ds"
  by (induction ds arbitrary: records parent h vs)
     (auto split: option.splits sum.splits prod.splits simp del: tryResolveToken.simps)

lemma direct_values_length:
  "direct_values app rs h = Some (vs, h') \<Longrightarrow> length vs = length rs"
  by (induction rs arbitrary: h vs)
     (auto split: option.splits prod.splits simp del: direct_value.simps)

lemma resolve_each_resolveDeps:
  assumes "resolve_each k app ds records parent h = Some (vs, st)"
      and "\<forall>d \<in> set ds. options d AND OPT_CHECK_SELF \<noteq> 0"
  shows "\<exists>N. \<forall>n \<ge> N. resolveDeps n app ds records parent h = Some (Inr vs, st)"
  using assms
proof (induction ds arbitrary: records parent h vs)
  case Nil
  then have "resolveDeps (Suc n) app [] records parent h = Some (Inr vs, st)" for n
    by simp
  then have "\<forall>n \<ge> Suc 0. resolveDeps n app [] records parent h = Some (Inr vs, st)"
    by (metis Suc_le_D)
  then show ?case by blast
next
  case (Cons d ds)
  obtain records2 parent2 h2 where st: "st = (records2, parent2, h2)" by (cases st) auto
  from Cons.prems(1) obtain v records1 parent1 h1 vs' where
    t: "tryResolveToken k app (dep_token d) (Some (dep_id d)) records parent THROW_IF_NOT_FOUND h
          = Some (Inr v, records1, parent1, h1)"
    and r: "resolve_each k app ds records1 parent1 h1 = Some (vs', st)"
    and vs: "vs = v # vs'"
    by (auto split: option.splits sum.splits prod.splits simp del: tryResolveToken.simps)
  from Cons.IH [OF r] Cons.prems(2) obtain N where
    N: "\<forall>n \<ge> N. resolveDeps n app ds records1 parent1 h1 = Some (Inr vs', st)" by auto
  from try_success_record [OF t] have c: "lookup_record records (dep_id d) = Some (dep_id d)"
    by (auto simp: lookup_record_def)
  from Cons.prems(2) have o: "options d AND OPT_CHECK_SELF \<noteq> 0" by simp
  have "resolveDeps (Suc n) app (d # ds) records parent h = Some (Inr vs, st)" if n: "max k N \<le> n" for n
  proof -
    from fuel_mono_try [OF t, of n] n
    have "tryResolveToken n app (dep_token d) (Some (dep_id d)) records parent THROW_IF_NOT_FOUND h
            = Some (Inr v, records1, parent1, h1)" by simp
    moreover have "tryResolveToken n app (dep_token d) (Some (dep_id d)) records parent
            (if options d AND OPT_OPTIONAL \<noteq> 0 then VNull else THROW_IF_NOT_FOUND) h
          = tryResolveToken n app (dep_token d) (Some (dep_id d)) records parent THROW_IF_NOT_FOUND h"
      by (rule try_record_nfv)
    ultimately have "tryResolveToken n app (dep_token d) (Some (dep_id d)) records parent
            (if options d AND OPT_OPTIONAL \<noteq> 0 then VNull else THROW_IF_NOT_FOUND) h
          = Some (Inr v, records1, parent1, h1)" by simp
    moreover from N n have "resolveDeps n app ds records1 parent1 h1 = Some (Inr vs', records2, parent2, h2)"
      by (simp add: st)
    ultimately show ?thesis using c o
      by (simp add: Let_def vs st del: tryResolveToken.simps)
  qed
  then have "\<forall>n \<ge> Suc (max k N). resolveDeps n app (d # ds) records parent h = Some (Inr vs, st)"
    by (metis Suc_le_D Suc_le_mono)
  then show ?case by blast
qed

lemma multi_get_total:
  assumes "multi_registered t records ms" "ms \<noteq> []" "getId t = Inr (Key t)"
      and "resolveDeps n app (multi_deps t (length ms)) (set_value records (Key t) CIRCULAR) parent h
             = Some (Inr vs, records1, parent1, h1)"
  shows "injector_get (Suc (Suc (Suc n))) app (StaticInjector this records parent) t nfv h
           = Some (Inr (VArray vs),
                   StaticInjector this (set_value records1 (Key t) (Resolved (VArray vs))) parent1, h1)"
proof -
  let ?pl = "\<lparr>r_token = t, r_fn = MULTI_PROVIDER_FN, r_useNew = False,
                r_deps = multi_deps t (length ms), r_value = EMPTY\<rparr>"
  from assms(1,2) have pl: "map_of records (Key t) = Some ?pl"
    by (simp_all add: multi_registered_def)
  have "resolveToken (Suc n) app t (Some (Key t)) records parent nfv h
          = Some (Inr (VArray vs), set_value records1 (Key t) (Resolved (VArray vs)), parent1, h1)"
    using pl assms(4) by (simp add: Let_def)
  then have "tryResolveToken (Suc (Suc n)) app t (Some (Key t)) records parent nfv h
          = Some (Inr (VArray vs), set_value records1 (Key t) (Resolved (VArray vs)), parent1, h1)"
    by (simp del: resolveToken.simps)
  then show ?thesis using assms(3) pl
    by (simp add: lookup_record_def del: tryResolveToken.simps)
qed

lemma direct_resolve_each:
  assumes "distinct (map dep_id ds)"
      and "list_all2 (\<lambda>d r. map_of records (dep_id d) = Some r) ds rs"
      and "direct_values app rs h = Some (vs, h')"
  shows "\<exists>records'. resolve_each (Suc (Suc (Suc k))) app ds records parent h
                       = Some (vs, records', parent, h')"
  using assms
proof (induction ds arbitrary: rs records h vs)
  case Nil
  then show ?case by auto
next
  case (Cons d ds)
  from Cons.prems(2) obtain r rs' where rs: "rs = r # rs'"
    and r: "map_of records (dep_id d) = Some r"
    and rest: "list_all2 (\<lambda>d r. map_of records (dep_id d) = Some r) ds rs'"
    by (auto simp: list_all2_Cons1)
  from Cons.prems(3) rs obtain v h1 vs' where
    v: "direct_value app r h = Some (v, h1)"
    and vs': "direct_values app rs' h1 = Some (vs', h')" and vs: "vs = v # vs'"
    by (auto split: option.splits prod.splits simp del: direct_value.simps)
  from direct_try [OF r v, of k "dep_token d" parent THROW_IF_NOT_FOUND] obtain records1 where
    t: "tryResolveToken (Suc (Suc (Suc k))) app (dep_token d) (Some (dep_id d)) records parent
          THROW_IF_NOT_FOUND h = Some (Inr v, records1, parent, h1)"
    and frame: "\<forall>k'. k' \<noteq> dep_id d \<longrightarrow> map_of records1 k' = map_of records k'"
    by blast
  from Cons.prems(1) have "dep_id d \<notin> dep_id ` set ds" by simp
  then have "\<forall>d' \<in> set ds. dep_id d' \<noteq> dep_id d" by (metis imageI)
  with rest frame have "list_all2 (\<lambda>d r. map_of records1 (dep_id d) = Some r) ds rs'"
    by (auto simp: list_all2_conv_all_nth)
  from Cons.IH [OF _ this vs'] Cons.prems(1) obtain records' where
    "resolve_each (Suc (Suc (Suc k))) app ds records1 parent h1 = Some (vs', records', parent, h')"
    by auto
  with t show ?case by (simp add: vs del: tryResolveToken.simps)
qed

lemma distinct_multi_deps: "distinct (map dep_id (multi_deps t n))"
  by (simp add: multi_deps_def distinct_map comp_def inj_on_def)

lemma multi_deps_check_self: "\<forall>d \<in> set (multi_deps t n). options d AND OPT_CHECK_SELF \<noteq> 0"
  by (auto simp: multi_deps_def)

lemma multi_get_each:
  assumes "multi_registered t records ms" "ms \<noteq> []" "getId t = Inr (Key t)"
      and "resolve_each k app (multi_deps t (length ms)) (set_value records (Key t) CIRCULAR) parent h
             = Some (vs, records1, parent1, h1)"
  shows "\<exists>N. \<forall>n \<ge> N. injector_get n app (StaticInjector this records parent) t nfv h
           = Some (Inr (VArray vs),
                   StaticInjector this (set_value records1 (Key t) (Resolved (VArray vs))) parent1, h1)"
proof -
  from resolve_each_resolveDeps [OF assms(4) multi_deps_check_self] obtain N where
    "resolveDeps N app (multi_deps t (length ms)) (set_value records (Key t) CIRCULAR) parent h
       = Some (Inr vs, records1, parent1, h1)" by blast
  from multi_get_total [OF assms(1,2,3) this]
  show ?thesis by (blast intro: fuel_mono_get)
qed

lemma multi_get_direct:
  assumes "multi_registered t records ms" "ms \<noteq> []" "getId t = Inr (Key t)"
      and "list_all2 (\<lambda>provider r. resolveProvider provider = Inr r) ms rs"
      and "direct_values app rs h = Some (ws, h2)"
  shows "\<exists>N scope''. \<forall>n \<ge> N. injector_get n app (StaticInjector this records parent) t nfv h
           = Some (Inr (VArray ws), scope'', h2)"
proof -
  from assms(1) have each: "\<forall>i < length ms. \<exists>r. resolveProvider (ms ! i) = Inr r
                            \<and> map_of records (MultiKey i (Key t)) = Some r"
    by (simp add: multi_registered_def)
  have "list_all2 (\<lambda>d r. map_of (set_value records (Key t) CIRCULAR) (dep_id d) = Some r)
          (multi_deps t (length ms)) rs"
    unfolding list_all2_conv_all_nth
  proof (intro conjI allI impI)
    from assms(4) show "length (multi_deps t (length ms)) = length rs"
      by (simp add: list_all2_lengthD)
  next
    fix i assume "i < length (multi_deps t (length ms))"
    then have i: "i < length ms" by simp
    from each i obtain ri where ri: "resolveProvider (ms ! i) = Inr ri"
      "map_of records (MultiKey i (Key t)) = Some ri" by blast
    from assms(4) i have "resolveProvider (ms ! i) = Inr (rs ! i)"
      by (simp add: list_all2_conv_all_nth)
    with ri i show "map_of (set_value records (Key t) CIRCULAR) (dep_id (multi_deps t (length ms) ! i))
                    = Some (rs ! i)"
      by (simp add: multi_deps_nth map_of_set_value)
  qed
  from direct_resolve_each [OF distinct_multi_deps this assms(5), of 0 parent] obtain records' where
    "resolve_each (Suc (Suc (Suc 0))) app (multi_deps t (length ms))
        (set_value records (Key t) CIRCULAR) parent h = Some (ws, records', parent, h2)"
    by blast
  from multi_get_each [OF assms(1,2,3) this] show ?thesis by blast
qed

text \<open>
  C7.  In a scope built from a provider list, let \<open>ms\<close> be the descriptions flagged
  \<^verbatim>\<open>multi: true\<close> for a token, in the order of the list.  The registry holds the record
  built from the \<open>i\<close>-th of them under the \<open>i\<close>-th private key of the token.  When the
  records of the contributions resolve one after the other, \<^verbatim>\<open>get\<close> on the token
  returns the sequence of their values: one element per description, in the order of
  the list, and the sequence is stored as the value of the token.  In particular, when
  the recipe of each contribution needs no other token (a given value, a factory or a
  class without dependencies), \<^verbatim>\<open>get\<close> returns the sequence of what the recipes give.
  Whenever \<^verbatim>\<open>get\<close> on the token returns a value, it is a sequence with one element per
  description, the \<open>i\<close>-th being the value the record of the \<open>i\<close>-th one holds.
\<close>

theorem multi_provider_sequence:
  assumes "new_StaticInjector this providers parent = Inr scope"
      and "contributions t providers = ms"
      and "ms \<noteq> []"
  shows "(\<forall>i < length ms. \<exists>r. resolveProvider (ms ! i) = Inr r
                              \<and> map_of (records_of scope) (MultiKey i (Key t)) = Some r)
       \<and> (resolve_each k app (multi_deps t (length ms))
              (set_value (records_of scope) (Key t) CIRCULAR) parent h
            = Some (vs, records1, parent1, h1) \<longrightarrow>
            length vs = length ms
          \<and> (\<exists>N. \<forall>n \<ge> N. injector_get n app scope t notFoundValue h
                 = Some (Inr (VArray vs),
                         StaticInjector this (set_value records1 (Key t) (Resolved (VArray vs))) parent1,
                         h1)))
       \<and> (list_all2 (\<lambda>provider r. resolveProvider provider = Inr r) ms rs
            \<and> direct_values app rs h = Some (ws, h2) \<longrightarrow>
            length ws = length ms
          \<and> (\<exists>N scope''. \<forall>n \<ge> N. injector_get n app scope t notFoundValue h
                 = Some (Inr (VArray ws), scope'', h2)))
       \<and> (injector_get n app scope t notFoundValue h = Some (Inr v, scope', h') \<longrightarrow>
            (\<exists>vs. v = VArray vs \<and> length vs = length ms
               \<and> (\<forall>i < length ms. slot_at scope' 0 (MultiKey i (Key t)) = Some (Resolved (vs ! i)))))"
proof -
  from assms obtain records where s: "scope = StaticInjector this records parent"
    and m: "multi_registered t records ms" and g: "getId t = Inr (Key t)"
    by (rule built_scope)
  have a: "\<forall>i < length ms. \<exists>r. resolveProvider (ms ! i) = Inr r
                              \<and> map_of (records_of scope) (MultiKey i (Key t)) = Some r"
    using m by (simp add: s multi_registered_def)
  have b: "length vs = length ms
          \<and> (\<exists>N. \<forall>n \<ge> N. injector_get n app scope t notFoundValue h
                 = Some (Inr (VArray vs),
                         StaticInjector this (set_value records1 (Key t) (Resolved (VArray vs))) parent1,
                         h1))"
    if e: "resolve_each k app (multi_deps t (length ms))
              (set_value (records_of scope) (Key t) CIRCULAR) parent h
            = Some (vs, records1, parent1, h1)"
  proof
    from resolve_each_length [OF e] show "length vs = length ms" by simp
    from e have "resolve_each k app (multi_deps t (length ms))
              (set_value records (Key t) CIRCULAR) parent h = Some (vs, records1, parent1, h1)"
      by (simp add: s)
    from multi_get_each [OF m assms(3) g this]
    show "\<exists>N. \<forall>n \<ge> N. injector_get n app scope t notFoundValue h
                 = Some (Inr (VArray vs),
                         StaticInjector this (set_value records1 (Key t) (Resolved (VArray vs))) parent1,
                         h1)"
      unfolding s .
  qed
  have c: "length ws = length ms
          \<and> (\<exists>N scope''. \<forall>n \<ge> N. injector_get n app scope t notFoundValue h
                 = Some (Inr (VArray ws), scope'', h2))"
    if l: "list_all2 (\<lambda>provider r. resolveProvider provider = Inr r) ms rs"
      and d: "direct_values app rs h = Some (ws, h2)"
  proof
    from direct_values_length [OF d] list_all2_lengthD [OF l] show "length ws = length ms" by simp
    from multi_get_direct [OF m assms(3) g l d]
    show "\<exists>N scope''. \<forall>n \<ge> N. injector_get n app scope t notFoundValue h
                 = Some (Inr (VArray ws), scope'', h2)"
      unfolding s .
  qed
  have d: "\<exists>vs. v = VArray vs \<and> length vs = length ms
               \<and> (\<forall>i < length ms. slot_at scope' 0 (MultiKey i (Key t)) = Some (Resolved (vs ! i)))"
    if "injector_get n app scope t notFoundValue h = Some (Inr v, scope', h')"
    using multi_get_result [OF m assms(3) that [unfolded s]] .
  from a b c d show ?thesis by blast
qed

theorem multi_provider_sequence_witness:
  "(new_StaticInjector 1 (PArray [PObject \<lparr>provide = Some (TString ''T''), useValue = Some (VNumber 1), useFactory = None, useExisting = None, useClass = None, deps = None, multi = True\<rparr>,
        PObject \<lparr>provide = Some (TString ''A''), useValue = Some (VNumber 9), useFactory = None, useExisting = None, useClass = None, deps = None, multi = False\<rparr>,
        PArray [PObject \<lparr>provide = Some (TString ''T''), useValue = None, useFactory = None, useExisting = Some (TString ''A''), useClass = None, deps = None, multi = True\<rparr>],
        PObject \<lparr>provide = Some (TString ''T''), useValue = None, useFactory = Some 5, useExisting = None, useClass = None, deps = Some [DepToken (TString ''A'')], multi = True\<rparr>]) NULL_INJECTOR
       = Inr (StaticInjector 1 [(Key (Injector), \<lparr>r_token = Injector, r_fn = IDENT, r_useNew = False, r_deps = [], r_value = Resolved (VInjector 1)\<rparr>), (Key (TString ''T''), \<lparr>r_token = TString ''T'', r_fn = MULTI_PROVIDER_FN, r_useNew = False, r_deps = [\<lparr>dep_id = MultiKey 0 (Key (TString ''T'')), dep_token = TString ''T'', options = OPT_DEFAULT\<rparr>, \<lparr>dep_id = MultiKey 1 (Key (TString ''T'')), dep_token = TString ''T'', options = OPT_DEFAULT\<rparr>, \<lparr>dep_id = MultiKey 2 (Key (TString ''T'')), dep_token = TString ''T'', options = OPT_DEFAULT\<rparr>], r_value = EMPTY\<rparr>), (MultiKey 0 (Key (TString ''T'')), \<lparr>r_token = TString ''T'', r_fn = IDENT, r_useNew = False, r_deps = [], r_value = Resolved (VNumber 1)\<rparr>), (Key (TString ''A''), \<lparr>r_token = TString ''A'', r_fn = IDENT, r_useNew = False, r_deps = [], r_value = Resolved (VNumber 9)\<rparr>), (MultiKey 1 (Key (TString ''T'')), \<lparr>r_token = TString ''T'', r_fn = IDENT, r_useNew = False, r_deps = [\<lparr>dep_id = Key (TString ''A''), dep_token = TString ''A'', options = OPT_DEFAULT\<rparr>], r_value = EMPTY\<rparr>), (MultiKey 2 (Key (TString ''T'')), \<lparr>r_token = TString ''T'', r_fn = UserFn 5, r_useNew = False, r_deps = [\<lparr>dep_id = Key (TString ''A''), dep_token = TString ''A'', options = OPT_DEFAULT\<rparr>], r_value = EMPTY\<rparr>)] NULL_INJECTOR))
   \<and> (contributions (TString ''T'') (PArray [PObject \<lparr>provide = Some (TString ''T''), useValue = Some (VNumber 1), useFactory = None, useExisting = None, useClass = None, deps = None, multi = True\<rparr>,
        PObject \<lparr>provide = Some (TString ''A''), useValue = Some (VNumber 9), useFactory = None, useExisting = None, useClass = None, deps = None, multi = False\<rparr>,
        PArray [PObject \<lparr>provide = Some (TString ''T''), useValue = None, useFactory = None, useExisting = Some (TString ''A''), useClass = None, deps = None, multi = True\<rparr>],
        PObject \<lparr>provide = Some (TString ''T''), useValue = None, useFactory = Some 5, useExisting = None, useClass = None, deps = Some [DepToken (TString ''A'')], multi = True\<rparr>])
       = [\<lparr>provide = Some (TString ''T''), useValue = Some (VNumber 1), useFactory = None, useExisting = None, useClass = None, deps = None, multi = True\<rparr>,
        \<lparr>provide = Some (TString ''T''), useValue = None, useFactory = None, useExisting = Some (TString ''A''), useClass = None, deps = None, multi = True\<rparr>,
        \<lparr>provide = Some (TString ''T''), useValue = None, useFactory = Some 5, useExisting = None, useClass = None, deps = Some [DepToken (TString ''A'')], multi = True\<rparr>])
   \<and> ([\<lparr>provide = Some (TString ''T''), useValue = Some (VNumber 1), useFactory = None, useExisting = None, useClass = None, deps = None, multi = True\<rparr>,
        \<lparr>provide = Some (TString ''T''), useValue = None, useFactory = None, useExisting = Some (TString ''A''), useClass = None, deps = None, multi = True\<rparr>,
        \<lparr>provide = Some (TString ''T''), useValue = None, useFactory = Some 5, useExisting = None, useClass = None, deps = Some [DepToken (TString ''A'')], multi = True\<rparr>] \<noteq> [])
   \<and> (resolve_each (Suc (Suc (Suc (Suc (Suc (Suc 0)))))) (\<lambda>f this args. Inr (VArray args)) (multi_deps (TString ''T'') (length [\<lparr>provide = Some (TString ''T''), useValue = Some (VNumber 1), useFactory = None, useExisting = None, useClass = None, deps = None, multi = True\<rparr>,
        \<lparr>provide = Some (TString ''T''), useValue = None, useFactory = None, useExisting = Some (TString ''A''), useClass = None, deps = None, multi = True\<rparr>,
        \<lparr>provide = Some (TString ''T''), useValue = None, useFactory = Some 5, useExisting = None, useClass = None, deps = Some [DepToken (TString ''A'')], multi = True\<rparr>]))
       (set_value (records_of (StaticInjector 1 [(Key (Injector), \<lparr>r_token = Injector, r_fn = IDENT, r_useNew = False, r_deps = [], r_value = Resolved (VInjector 1)\<rparr>), (Key (TString ''T''), \<lparr>r_token = TString ''T'', r_fn = MULTI_PROVIDER_FN, r_useNew = False, r_deps = [\<lparr>dep_id = MultiKey 0 (Key (TString ''T'')), dep_token = TString ''T'', options = OPT_DEFAULT\<rparr>, \<lparr>dep_id = MultiKey 1 (Key (TString ''T'')), dep_token = TString ''T'', options = OPT_DEFAULT\<rparr>, \<lparr>dep_id = MultiKey 2 (Key (TString ''T'')), dep_token = TString ''T'', options = OPT_DEFAULT\<rparr>], r_value = EMPTY\<rparr>), (MultiKey 0 (Key (TString ''T'')), \<lparr>r_token = TString ''T'', r_fn = IDENT, r_useNew = False, r_deps = [], r_value = Resolved (VNumber 1)\<rparr>), (Key (TString ''A''), \<lparr>r_token = TString ''A'', r_fn = IDENT, r_useNew = False, r_deps = [], r_value = Resolved (VNumber 9)\<rparr>), (MultiKey 1 (Key (TString ''T'')), \<lparr>r_token = TString ''T'', r_fn = IDENT, r_useNew = False, r_deps = [\<lparr>dep_id = Key (TString ''A''), dep_token = TString ''A'', options = OPT_DEFAULT\<rparr>], r_value = EMPTY\<rparr>), (MultiKey 2 (Key (TString ''T'')), \<lparr>r_token = TString ''T'', r_fn = UserFn 5, r_useNew = False, r_deps = [\<lparr>dep_id = Key (TString ''A''), dep_token = TString ''A'', options = OPT_DEFAULT\<rparr>], r_value = EMPTY\<rparr>)] NULL_INJECTOR)) (Key (TString ''T'')) CIRCULAR) NULL_INJECTOR 0
       = Some ([VNumber 1, VNumber 9, VArray [VNumber 9]], [(Key (Injector), \<lparr>r_token = Injector, r_fn = IDENT, r_useNew = False, r_deps = [], r_value = Resolved (VInjector 1)\<rparr>), (Key (TString ''T''), \<lparr>r_token = TString ''T'', r_fn = MULTI_PROVIDER_FN, r_useNew = False, r_deps = [\<lparr>dep_id = MultiKey 0 (Key (TString ''T'')), dep_token = TString ''T'', options = OPT_DEFAULT\<rparr>, \<lparr>dep_id = MultiKey 1 (Key (TString ''T'')), dep_token = TString ''T'', options = OPT_DEFAULT\<rparr>, \<lparr>dep_id = MultiKey 2 (Key (TString ''T'')), dep_token = TString ''T'', options = OPT_DEFAULT\<rparr>], r_value = CIRCULAR\<rparr>), (MultiKey 0 (Key (TString ''T'')), \<lparr>r_token = TString ''T'', r_fn = IDENT, r_useNew = False, r_deps = [], r_value = Resolved (VNumber 1)\<rparr>), (Key (TString ''A''), \<lparr>r_token = TString ''A'', r_fn = IDENT, r_useNew = False, r_deps = [], r_value = Resolved (VNumber 9)\<rparr>), (MultiKey 1 (Key (TString ''T'')), \<lparr>r_token = TString ''T'', r_fn = IDENT, r_useNew = False, r_deps = [\<lparr>dep_id = Key (TString ''A''), dep_token = TString ''A'', options = OPT_DEFAULT\<rparr>], r_value = Resolved (VNumber 9)\<rparr>), (MultiKey 2 (Key (TString ''T'')), \<lparr>r_token = TString ''T'', r_fn = UserFn 5, r_useNew = False, r_deps = [\<lparr>dep_id = Key (TString ''A''), dep_token = TString ''A'', options = OPT_DEFAULT\<rparr>], r_value = Resolved (VArray [VNumber 9])\<rparr>)], NULL_INJECTOR, 0))
   \<and> (length [VNumber 1, VNumber 9, VArray [VNumber 9]] = length [\<lparr>provide = Some (TString ''T''), useValue = Some (VNumber 1), useFactory = None, useExisting = None, useClass = None, deps = None, multi = True\<rparr>,
        \<lparr>provide = Some (TString ''T''), useValue = None, useFactory = None, useExisting = Some (TString ''A''), useClass = None, deps = None, multi = True\<rparr>,
        \<lparr>provide = Some (TString ''T''), useValue = None, useFactory = Some 5, useExisting = None, useClass = None, deps = Some [DepToken (TString ''A'')], multi = True\<rparr>]
     \<and> (\<exists>N. \<forall>n \<ge> N. injector_get n (\<lambda>f this args. Inr (VArray args)) (StaticInjector 1 [(Key (Injector), \<lparr>r_token = Injector, r_fn = IDENT, r_useNew = False, r_deps = [], r_value = Resolved (VInjector 1)\<rparr>), (Key (TString ''T''), \<lparr>r_token = TString ''T'', r_fn = MULTI_PROVIDER_FN, r_useNew = False, r_deps = [\<lparr>dep_id = MultiKey 0 (Key (TString ''T'')), dep_token = TString ''T'', options = OPT_DEFAULT\<rparr>, \<lparr>dep_id = MultiKey 1 (Key (TString ''T'')), dep_token = TString ''T'', options = OPT_DEFAULT\<rparr>, \<lparr>dep_id = MultiKey 2 (Key (TString ''T'')), dep_token = TString ''T'', options = OPT_DEFAULT\<rparr>], r_value = EMPTY\<rparr>), (MultiKey 0 (Key (TString ''T'')), \<lparr>r_token = TString ''T'', r_fn = IDENT, r_useNew = False, r_deps = [], r_value = Resolved (VNumber 1)\<rparr>), (Key (TString ''A''), \<lparr>r_token = TString ''A'', r_fn = IDENT, r_useNew = False, r_deps = [], r_value = Resolved (VNumber 9)\<rparr>), (MultiKey 1 (Key (TString ''T'')), \<lparr>r_token = TString ''T'', r_fn = IDENT, r_useNew = False, r_deps = [\<lparr>dep_id = Key (TString ''A''), dep_token = TString ''A'', options = OPT_DEFAULT\<rparr>], r_value = EMPTY\<rparr>), (MultiKey 2 (Key (TString ''T'')), \<lparr>r_token = TString ''T'', r_fn = UserFn 5, r_useNew = False, r_deps = [\<lparr>dep_id = Key (TString ''A''), dep_token = TString ''A'', options = OPT_DEFAULT\<rparr>], r_value = EMPTY\<rparr>)] NULL_INJECTOR) (TString ''T'') VUndefined 0
       = Some (Inr (VArray [VNumber 1, VNumber 9, VArray [VNumber 9]]), StaticInjector 1 (set_value [(Key (Injector), \<lparr>r_token = Injector, r_fn = IDENT, r_useNew = False, r_deps = [], r_value = Resolved (VInjector 1)\<rparr>), (Key (TString ''T''), \<lparr>r_token = TString ''T'', r_fn = MULTI_PROVIDER_FN, r_useNew = False, r_deps = [\<lparr>dep_id = MultiKey 0 (Key (TString ''T'')), dep_token = TString ''T'', options = OPT_DEFAULT\<rparr>, \<lparr>dep_id = MultiKey 1 (Key (TString ''T'')), dep_token = TString ''T'', options = OPT_DEFAULT\<rparr>, \<lparr>dep_id = MultiKey 2 (Key (TString ''T'')), dep_token = TString ''T'', options = OPT_DEFAULT\<rparr>], r_value = CIRCULAR\<rparr>), (MultiKey 0 (Key (TString ''T'')), \<lparr>r_token = TString ''T'', r_fn = IDENT, r_useNew = False, r_deps = [], r_value = Resolved (VNumber 1)\<rparr>), (Key (TString ''A''), \<lparr>r_token = TString ''A'', r_fn = IDENT, r_useNew = False, r_deps = [], r_value = Resolved (VNumber 9)\<rparr>), (MultiKey 1 (Key (TString ''T'')), \<lparr>r_token = TString ''T'', r_fn = IDENT, r_useNew = False, r_deps = [\<lparr>dep_id = Key (TString ''A''), dep_token = TString ''A'', options = OPT_DEFAULT\<rparr>], r_value = Resolved (VNumber 9)\<rparr>), (MultiKey 2 (Key (TString ''T'')), \<lparr>r_token = TString ''T'', r_fn = UserFn 5, r_useNew = False, r_deps = [\<lparr>dep_id = Key (TString ''A''), dep_token = TString ''A'', options = OPT_DEFAULT\<rparr>], r_value = Resolved (VArray [VNumber 9])\<rparr>)] (Key (TString ''T'')) (Resolved (VArray [VNumber 1, VNumber 9, VArray [VNumber 9]]))) NULL_INJECTOR, 0)))
   \<and> (injector_get (Suc (Suc (Suc (Suc (Suc (Suc (Suc (Suc (Suc (Suc (Suc (Suc 0)))))))))))) (\<lambda>f this args. Inr (VArray args)) (StaticInjector 1 [(Key (Injector), \<lparr>r_token = Injector, r_fn = IDENT, r_useNew = False, r_deps = [], r_value = Resolved (VInjector 1)\<rparr>), (Key (TString ''T''), \<lparr>r_token = TString ''T'', r_fn = MULTI_PROVIDER_FN, r_useNew = False, r_deps = [\<lparr>dep_id = MultiKey 0 (Key (TString ''T'')), dep_token = TString ''T'', options = OPT_DEFAULT\<rparr>, \<lparr>dep_id = MultiKey 1 (Key (TString ''T'')), dep_token = TString ''T'', options = OPT_DEFAULT\<rparr>, \<lparr>dep_id = MultiKey 2 (Key (TString ''T'')), dep_token = TString ''T'', options = OPT_DEFAULT\<rparr>], r_value = EMPTY\<rparr>), (MultiKey 0 (Key (TString ''T'')), \<lparr>r_token = TString ''T'', r_fn = IDENT, r_useNew = False, r_deps = [], r_value = Resolved (VNumber 1)\<rparr>), (Key (TString ''A''), \<lparr>r_token = TString ''A'', r_fn = IDENT, r_useNew = False, r_deps = [], r_value = Resolved (VNumber 9)\<rparr>), (MultiKey 1 (Key (TString ''T'')), \<lparr>r_token = TString ''T'', r_fn = IDENT, r_useNew = False, r_deps = [\<lparr>dep_id = Key (TString ''A''), dep_token = TString ''A'', options = OPT_DEFAULT\<rparr>], r_value = EMPTY\<rparr>), (MultiKey 2 (Key (TString ''T'')), \<lparr>r_token = TString ''T'', r_fn = UserFn 5, r_useNew = False, r_deps = [\<lparr>dep_id = Key (TString ''A''), dep_token = TString ''A'', options = OPT_DEFAULT\<rparr>], r_value = EMPTY\<rparr>)] NULL_INJECTOR) (TString ''T'') VUndefined 0
       = Some (Inr (VArray [VNumber 1, VNumber 9, VArray [VNumber 9]]), StaticInjector 1 [(Key (Injector), \<lparr>r_token = Injector, r_fn = IDENT, r_useNew = False, r_deps = [], r_value = Resolved (VInjector 1)\<rparr>), (Key (TString ''T''), \<lparr>r_token = TString ''T'', r_fn = MULTI_PROVIDER_FN, r_useNew = False, r_deps = [\<lparr>dep_id = MultiKey 0 (Key (TString ''T'')), dep_token = TString ''T'', options = OPT_DEFAULT\<rparr>, \<lparr>dep_id = MultiKey 1 (Key (TString ''T'')), dep_token = TString ''T'', options = OPT_DEFAULT\<rparr>, \<lparr>dep_id = MultiKey 2 (Key (TString ''T'')), dep_token = TString ''T'', options = OPT_DEFAULT\<rparr>], r_value = Resolved (VArray [VNumber 1, VNumber 9, VArray [VNumber 9]])\<rparr>), (MultiKey 0 (Key (TString ''T'')), \<lparr>r_token = TString ''T'', r_fn = IDENT, r_useNew = False, r_deps = [], r_value = Resolved (VNumber 1)\<rparr>), (Key (TString ''A''), \<lparr>r_token = TString ''A'', r_fn = IDENT, r_useNew = False, r_deps = [], r_value = Resolved (VNumber 9)\<rparr>), (MultiKey 1 (Key (TString ''T'')), \<lparr>r_token = TString ''T'', r_fn = IDENT, r_useNew = False, r_deps = [\<lparr>dep_id = Key (TString ''A''), dep_token = TString ''A'', options = OPT_DEFAULT\<rparr>], r_value = Resolved (VNumber 9)\<rparr>), (MultiKey 2 (Key (TString ''T'')), \<lparr>r_token = TString ''T'', r_fn = UserFn 5, r_useNew = False, r_deps = [\<lparr>dep_id = Key (TString ''A''), dep_token = TString ''A'', options = OPT_DEFAULT\<rparr>], r_value = Resolved (VArray [VNumber 9])\<rparr>)] NULL_INJECTOR, 0))
   \<and> (\<exists>vs. VArray [VNumber 1, VNumber 9, VArray [VNumber 9]] = VArray vs \<and> length vs = length [\<lparr>provide = Some (TString ''T''), useValue = Some (VNumber 1), useFactory = None, useExisting = None, useClass = None, deps = None, multi = True\<rparr>,
        \<lparr>provide = Some (TString ''T''), useValue = None, useFactory = None, useExisting = Some (TString ''A''), useClass = None, deps = None, multi = True\<rparr>,
        \<lparr>provide = Some (TString ''T''), useValue = None, useFactory = Some 5, useExisting = None, useClass = None, deps = Some [DepToken (TString ''A'')], multi = True\<rparr>]
       \<and> (\<forall>i < length [\<lparr>provide = Some (TString ''T''), useValue = Some (VNumber 1), useFactory = None, useExisting = None, useClass = None, deps = None, multi = True\<rparr>,
        \<lparr>provide = Some (TString ''T''), useValue = None, useFactory = None, useExisting = Some (TString ''A''), useClass = None, deps = None, multi = True\<rparr>,
        \<lparr>provide = Some (TString ''T''), useValue = None, useFactory = Some 5, useExisting = None, useClass = None, deps = Some [DepToken (TString ''A'')], multi = True\<rparr>]. slot_at (StaticInjector 1 [(Key (Injector), \<lparr>r_token = Injector, r_fn = IDENT, r_useNew = False, r_deps = [], r_value = Resolved (VInjector 1)\<rparr>), (Key (TString ''T''), \<lparr>r_token = TString ''T'', r_fn = MULTI_PROVIDER_FN, r_useNew = False, r_deps = [\<lparr>dep_id = MultiKey 0 (Key (TString ''T'')), dep_token = TString ''T'', options = OPT_DEFAULT\<rparr>, \<lparr>dep_id = MultiKey 1 (Key (TString ''T'')), dep_token = TString ''T'', options = OPT_DEFAULT\<rparr>, \<lparr>dep_id = MultiKey 2 (Key (TString ''T'')), dep_token = TString ''T'', options = OPT_DEFAULT\<rparr>], r_value = Resolved (VArray [VNumber 1, VNumber 9, VArray [VNumber 9]])\<rparr>), (MultiKey 0 (Key (TString ''T'')), \<lparr>r_token = TString ''T'', r_fn = IDENT, r_useNew = False, r_deps = [], r_value = Resolved (VNumber 1)\<rparr>), (Key (TString ''A''), \<lparr>r_token = TString ''A'', r_fn = IDENT, r_useNew = False, r_deps = [], r_value = Resolved (VNumber 9)\<rparr>), (MultiKey 1 (Key (TString ''T'')), \<lparr>r_token = TString ''T'', r_fn = IDENT, r_useNew = False, r_deps = [\<lparr>dep_id = Key (TString ''A''), dep_token = TString ''A'', options = OPT_DEFAULT\<rparr>], r_value = Resolved (VNumber 9)\<rparr>), (MultiKey 2 (Key (TString ''T'')), \<lparr>r_token = TString ''T'', r_fn = UserFn 5, r_useNew = False, r_deps = [\<lparr>dep_id = Key (TString ''A''), dep_token = TString ''A'', options = OPT_DEFAULT\<rparr>], r_value = Resolved (VArray [VNumber 9])\<rparr>)] NULL_INJECTOR) 0 (MultiKey i (Key (TString ''T''))) = Some (Resolved (vs ! i))))
   \<and> (new_StaticInjector 1 (PArray [PObject \<lparr>provide = Some (TString ''T''), useValue = Some (VNumber 1), useFactory = None, useExisting = None, useClass = None, deps = None, multi = True\<rparr>,
        PArray [PObject \<lparr>provide = Some (TString ''T''), useValue = None, useFactory = Some 5, useExisting = None, useClass = None, deps = Some [], multi = True\<rparr>],
        PObject \<lparr>provide = Some (TString ''T''), useValue = None, useFactory = None, useExisting = None, useClass = Some 6, deps = Some [], multi = True\<rparr>]) NULL_INJECTOR
       = Inr (StaticInjector 1 [(Key (Injector), \<lparr>r_token = Injector, r_fn = IDENT, r_useNew = False, r_deps = [], r_value = Resolved (VInjector 1)\<rparr>), (Key (TString ''T''), \<lparr>r_token = TString ''T'', r_fn = MULTI_PROVIDER_FN, r_useNew = False, r_deps = [\<lparr>dep_id = MultiKey 0 (Key (TString ''T'')), dep_token = TString ''T'', options = OPT_DEFAULT\<rparr>, \<lparr>dep_id = MultiKey 1 (Key (TString ''T'')), dep_token = TString ''T'', options = OPT_DEFAULT\<rparr>, \<lparr>dep_id = MultiKey 2 (Key (TString ''T'')), dep_token = TString ''T'', options = OPT_DEFAULT\<rparr>], r_value = EMPTY\<rparr>), (MultiKey 0 (Key (TString ''T'')), \<lparr>r_token = TString ''T'', r_fn = IDENT, r_useNew = False, r_deps = [], r_value = Resolved (VNumber 1)\<rparr>), (MultiKey 1 (Key (TString ''T'')), \<lparr>r_token = TString ''T'', r_fn = UserFn 5, r_useNew = False, r_deps = [], r_value = EMPTY\<rparr>), (MultiKey 2 (Key (TString ''T'')), \<lparr>r_token = TString ''T'', r_fn = UserFn 6, r_useNew = True, r_deps = [], r_value = EMPTY\<rparr>)] NULL_INJECTOR))
   \<and> (contributions (TString ''T'') (PArray [PObject \<lparr>provide = Some (TString ''T''), useValue = Some (VNumber 1), useFactory = None, useExisting = None, useClass = None, deps = None, multi = True\<rparr>,
        PArray [PObject \<lparr>provide = Some (TString ''T''), useValue = None, useFactory = Some 5, useExisting = None, useClass = None, deps = Some [], multi = True\<rparr>],
        PObject \<lparr>provide = Some (TString ''T''), useValue = None, useFactory = None, useExisting = None, useClass = Some 6, deps = Some [], multi = True\<rparr>])
       = [\<lparr>provide = Some (TString ''T''), useValue = Some (VNumber 1), useFactory = None, useExisting = None, useClass = None, deps = None, multi = True\<rparr>,
        \<lparr>provide = Some (TString ''T''), useValue = None, useFactory = Some 5, useExisting = None, useClass = None, deps = Some [], multi = True\<rparr>,
        \<lparr>provide = Some (TString ''T''), useValue = None, useFactory = None, useExisting = None, useClass = Some 6, deps = Some [], multi = True\<rparr>])
   \<and> ([\<lparr>provide = Some (TString ''T''), useValue = Some (VNumber 1), useFactory = None, useExisting = None, useClass = None, deps = None, multi = True\<rparr>,
        \<lparr>provide = Some (TString ''T''), useValue = None, useFactory = Some 5, useExisting = None, useClass = None, deps = Some [], multi = True\<rparr>,
        \<lparr>provide = Some (TString ''T''), useValue = None, useFactory = None, useExisting = None, useClass = Some 6, deps = Some [], multi = True\<rparr>] \<noteq> [])
   \<and> (list_all2 (\<lambda>provider r. resolveProvider provider = Inr r) [\<lparr>provide = Some (TString ''T''), useValue = Some (VNumber 1), useFactory = None, useExisting = None, useClass = None, deps = None, multi = True\<rparr>,
        \<lparr>provide = Some (TString ''T''), useValue = None, useFactory = Some 5, useExisting = None, useClass = None, deps = Some [], multi = True\<rparr>,
        \<lparr>provide = Some (TString ''T''), useValue = None, useFactory = None, useExisting = None, useClass = Some 6, deps = Some [], multi = True\<rparr>]
       [\<lparr>r_token = TString ''T'', r_fn = IDENT, r_useNew = False, r_deps = [], r_value = Resolved (VNumber 1)\<rparr>, \<lparr>r_token = TString ''T'', r_fn = UserFn 5, r_useNew = False, r_deps = [], r_value = EMPTY\<rparr>, \<lparr>r_token = TString ''T'', r_fn = UserFn 6, r_useNew = True, r_deps = [], r_value = EMPTY\<rparr>]
     \<and> direct_values (\<lambda>f this args. if f = 5 then Inr (VNumber 7) else Inr VUndefined) [\<lparr>r_token = TString ''T'', r_fn = IDENT, r_useNew = False, r_deps = [], r_value = Resolved (VNumber 1)\<rparr>, \<lparr>r_token = TString ''T'', r_fn = UserFn 5, r_useNew = False, r_deps = [], r_value = EMPTY\<rparr>, \<lparr>r_token = TString ''T'', r_fn = UserFn 6, r_useNew = True, r_deps = [], r_value = EMPTY\<rparr>] 0 = Some ([VNumber 1, VNumber 7, VObject 0], 1))
   \<and> (length [VNumber 1, VNumber 7, VObject 0] = length [\<lparr>provide = Some (TString ''T''), useValue = Some (VNumber 1), useFactory = None, useExisting = None, useClass = None, deps = None, multi = True\<rparr>,
        \<lparr>provide = Some (TString ''T''), useValue = None, useFactory = Some 5, useExisting = None, useClass = None, deps = Some [], multi = True\<rparr>,
        \<lparr>provide = Some (TString ''T''), useValue = None, useFactory = None, useExisting = None, useClass = Some 6, deps = Some [], multi = True\<rparr>]
     \<and> (\<exists>N scope''. \<forall>n \<ge> N. injector_get n (\<lambda>f this args. if f = 5 then Inr (VNumber 7) else Inr VUndefined) (StaticInjector 1 [(Key (Injector), \<lparr>r_token = Injector, r_fn = IDENT, r_useNew = False, r_deps = [], r_value = Resolved (VInjector 1)\<rparr>), (Key (TString ''T''), \<lparr>r_token = TString ''T'', r_fn = MULTI_PROVIDER_FN, r_useNew = False, r_deps = [\<lparr>dep_id = MultiKey 0 (Key (TString ''T'')), dep_token = TString ''T'', options = OPT_DEFAULT\<rparr>, \<lparr>dep_id = MultiKey 1 (Key (TString ''T'')), dep_token = TString ''T'', options = OPT_DEFAULT\<rparr>, \<lparr>dep_id = MultiKey 2 (Key (TString ''T'')), dep_token = TString ''T'', options = OPT_DEFAULT\<rparr>], r_value = EMPTY\<rparr>), (MultiKey 0 (Key (TString ''T'')), \<lparr>r_token = TString ''T'', r_fn = IDENT, r_useNew = False, r_deps = [], r_value = Resolved (VNumber 1)\<rparr>), (MultiKey 1 (Key (TString ''T'')), \<lparr>r_token = TString ''T'', r_fn = UserFn 5, r_useNew = False, r_deps = [], r_value = EMPTY\<rparr>), (MultiKey 2 (Key (TString ''T'')), \<lparr>r_token = TString ''T'', r_fn = UserFn 6, r_useNew = True, r_deps = [], r_value = EMPTY\<rparr>)] NULL_INJECTOR) (TString ''T'') VUndefined 0
       = Some (Inr (VArray [VNumber 1, VNumber 7, VObject 0]), scope'', 1)))"
proof -
  have h1: "new_StaticInjector 1 (PArray [PObject \<lparr>provide = Some (TString ''T''), useValue = Some (VNumber 1), useFactory = None, useExisting = None, useClass = None, deps = None, multi = True\<rparr>,
        PObject \<lparr>provide = Some (TString ''A''), useValue = Some (VNumber 9), useFactory = None, useExisting = None, useClass = None, deps = None, multi = False\<rparr>,
        PArray [PObject \<lparr>provide = Some (TString ''T''), useValue = None, useFactory = None, useExisting = Some (TString ''A''), useClass = None, deps = None, multi = True\<rparr>],
        PObject \<lparr>provide = Some (TString ''T''), useValue = None, useFactory = Some 5, useExisting = None, useClass = None, deps = Some [DepToken (TString ''A'')], multi = True\<rparr>]) NULL_INJECTOR
       = Inr (StaticInjector 1 [(Key (Injector), \<lparr>r_token = Injector, r_fn = IDENT, r_useNew = False, r_deps = [], r_value = Resolved (VInjector 1)\<rparr>), (Key (TString ''T''), \<lparr>r_token = TString ''T'', r_fn = MULTI_PROVIDER_FN, r_useNew = False, r_deps = [\<lparr>dep_id = MultiKey 0 (Key (TString ''T'')), dep_token = TString ''T'', options = OPT_DEFAULT\<rparr>, \<lparr>dep_id = MultiKey 1 (Key (TString ''T'')), dep_token = TString ''T'', options = OPT_DEFAULT\<rparr>, \<lparr>dep_id = MultiKey 2 (Key (TString ''T'')), dep_token = TString ''T'', options = OPT_DEFAULT\<rparr>], r_value = EMPTY\<rparr>), (MultiKey 0 (Key (TString ''T'')), \<lparr>r_token = TString ''T'', r_fn = IDENT, r_useNew = False, r_deps = [], r_value = Resolved (VNumber 1)\<rparr>), (Key (TString ''A''), \<lparr>r_token = TString ''A'', r_fn = IDENT, r_useNew = False, r_deps = [], r_value = Resolved (VNumber 9)\<rparr>), (MultiKey 1 (Key (TString ''T'')), \<lparr>r_token = TString ''T'', r_fn = IDENT, r_useNew = False, r_deps = [\<lparr>dep_id = Key (TString ''A''), dep_token = TString ''A'', options = OPT_DEFAULT\<rparr>], r_value = EMPTY\<rparr>), (MultiKey 2 (Key (TString ''T'')), \<lparr>r_token = TString ''T'', r_fn = UserFn 5, r_useNew = False, r_deps = [\<lparr>dep_id = Key (TString ''A''), dep_token = TString ''A'', options = OPT_DEFAULT\<rparr>], r_value = EMPTY\<rparr>)] NULL_INJECTOR)"
    by (simp add: create_def new_StaticInjector_def getId_def Injector_def processProvider_def resolveProvider_def computeDeps_def holds_multi_def Let_def)
  have h2: "contributions (TString ''T'') (PArray [PObject \<lparr>provide = Some (TString ''T''), useValue = Some (VNumber 1), useFactory = None, useExisting = None, useClass = None, deps = None, multi = True\<rparr>,
        PObject \<lparr>provide = Some (TString ''A''), useValue = Some (VNumber 9), useFactory = None, useExisting = None, useClass = None, deps = None, multi = False\<rparr>,
        PArray [PObject \<lparr>provide = Some (TString ''T''), useValue = None, useFactory = None, useExisting = Some (TString ''A''), useClass = None, deps = None, multi = True\<rparr>],
        PObject \<lparr>provide = Some (TString ''T''), useValue = None, useFactory = Some 5, useExisting = None, useClass = None, deps = Some [DepToken (TString ''A'')], multi = True\<rparr>])
       = [\<lparr>provide = Some (TString ''T''), useValue = Some (VNumber 1), useFactory = None, useExisting = None, useClass = None, deps = None, multi = True\<rparr>,
        \<lparr>provide = Some (TString ''T''), useValue = None, useFactory = None, useExisting = Some (TString ''A''), useClass = None, deps = None, multi = True\<rparr>,
        \<lparr>provide = Some (TString ''T''), useValue = None, useFactory = Some 5, useExisting = None, useClass = None, deps = Some [DepToken (TString ''A'')], multi = True\<rparr>]"
    by (simp add: contributions_def)
  have h3: "[\<lparr>provide = Some (TString ''T''), useValue = Some (VNumber 1), useFactory = None, useExisting = None, useClass = None, deps = None, multi = True\<rparr>,
        \<lparr>provide = Some (TString ''T''), useValue = None, useFactory = None, useExisting = Some (TString ''A''), useClass = None, deps = None, multi = True\<rparr>,
        \<lparr>provide = Some (TString ''T''), useValue = None, useFactory = Some 5, useExisting = None, useClass = None, deps = Some [DepToken (TString ''A'')], multi = True\<rparr>] \<noteq> []"
    by simp
  have hb: "resolve_each (Suc (Suc (Suc (Suc (Suc (Suc 0)))))) (\<lambda>f this args. Inr (VArray args)) (multi_deps (TString ''T'') (length [\<lparr>provide = Some (TString ''T''), useValue = Some (VNumber 1), useFactory = None, useExisting = None, useClass = None, deps = None, multi = True\<rparr>,
        \<lparr>provide = Some (TString ''T''), useValue = None, useFactory = None, useExisting = Some (TString ''A''), useClass = None, deps = None, multi = True\<rparr>,
        \<lparr>provide = Some (TString ''T''), useValue = None, useFactory = Some 5, useExisting = None, useClass = None, deps = Some [DepToken (TString ''A'')], multi = True\<rparr>]))
       (set_value (records_of (StaticInjector 1 [(Key (Injector), \<lparr>r_token = Injector, r_fn = IDENT, r_useNew = False, r_deps = [], r_value = Resolved (VInjector 1)\<rparr>), (Key (TString ''T''), \<lparr>r_token = TString ''T'', r_fn = MULTI_PROVIDER_FN, r_useNew = False, r_deps = [\<lparr>dep_id = MultiKey 0 (Key (TString ''T'')), dep_token = TString ''T'', options = OPT_DEFAULT\<rparr>, \<lparr>dep_id = MultiKey 1 (Key (TString ''T'')), dep_token = TString ''T'', options = OPT_DEFAULT\<rparr>, \<lparr>dep_id = MultiKey 2 (Key (TString ''T'')), dep_token = TString ''T'', options = OPT_DEFAULT\<rparr>], r_value = EMPTY\<rparr>), (MultiKey 0 (Key (TString ''T'')), \<lparr>r_token = TString ''T'', r_fn = IDENT, r_useNew = False, r_deps = [], r_value = Resolved (VNumber 1)\<rparr>), (Key (TString ''A''), \<lparr>r_token = TString ''A'', r_fn = IDENT, r_useNew = False, r_deps = [], r_value = Resolved (VNumber 9)\<rparr>), (MultiKey 1 (Key (TString ''T'')), \<lparr>r_token = TString ''T'', r_fn = IDENT, r_useNew = False, r_deps = [\<lparr>dep_id = Key (TString ''A''), dep_token = TString ''A'', options = OPT_DEFAULT\<rparr>], r_value = EMPTY\<rparr>), (MultiKey 2 (Key (TString ''T'')), \<lparr>r_token = TString ''T'', r_fn = UserFn 5, r_useNew = False, r_deps = [\<lparr>dep_id = Key (TString ''A''), dep_token = TString ''A'', options = OPT_DEFAULT\<rparr>], r_value = EMPTY\<rparr>)] NULL_INJECTOR)) (Key (TString ''T'')) CIRCULAR) NULL_INJECTOR 0
       = Some ([VNumber 1, VNumber 9, VArray [VNumber 9]], [(Key (Injector), \<lparr>r_token = Injector, r_fn = IDENT, r_useNew = False, r_deps = [], r_value = Resolved (VInjector 1)\<rparr>), (Key (TString ''T''), \<lparr>r_token = TString ''T'', r_fn = MULTI_PROVIDER_FN, r_useNew = False, r_deps = [\<lparr>dep_id = MultiKey 0 (Key (TString ''T'')), dep_token = TString ''T'', options = OPT_DEFAULT\<rparr>, \<lparr>dep_id = MultiKey 1 (Key (TString ''T'')), dep_token = TString ''T'', options = OPT_DEFAULT\<rparr>, \<lparr>dep_id = MultiKey 2 (Key (TString ''T'')), dep_token = TString ''T'', options = OPT_DEFAULT\<rparr>], r_value = CIRCULAR\<rparr>), (MultiKey 0 (Key (TString ''T'')), \<lparr>r_token = TString ''T'', r_fn = IDENT, r_useNew = False, r_deps = [], r_value = Resolved (VNumber 1)\<rparr>), (Key (TString ''A''), \<lparr>r_token = TString ''A'', r_fn = IDENT, r_useNew = False, r_deps = [], r_value = Resolved (VNumber 9)\<rparr>), (MultiKey 1 (Key (TString ''T'')), \<lparr>r_token = TString ''T'', r_fn = IDENT, r_useNew = False, r_deps = [\<lparr>dep_id = Key (TString ''A''), dep_token = TString ''A'', options = OPT_DEFAULT\<rparr>], r_value = Resolved (VNumber 9)\<rparr>), (MultiKey 2 (Key (TString ''T'')), \<lparr>r_token = TString ''T'', r_fn = UserFn 5, r_useNew = False, r_deps = [\<lparr>dep_id = Key (TString ''A''), dep_token = TString ''A'', options = OPT_DEFAULT\<rparr>], r_value = Resolved (VArray [VNumber 9])\<rparr>)], NULL_INJECTOR, 0)"
    by (simp add: getId_def lookup_record_def set_value_def OPT_DEFAULT_def OPT_CHECK_SELF_def OPT_CHECK_PARENT_def OPT_OPTIONAL_def is_circular_def path_token_def newError_def get_catch_def nullInjector_get_def Injector_def Let_def multi_deps_def)
  have cb: "length [VNumber 1, VNumber 9, VArray [VNumber 9]] = length [\<lparr>provide = Some (TString ''T''), useValue = Some (VNumber 1), useFactory = None, useExisting = None, useClass = None, deps = None, multi = True\<rparr>,
        \<lparr>provide = Some (TString ''T''), useValue = None, useFactory = None, useExisting = Some (TString ''A''), useClass = None, deps = None, multi = True\<rparr>,
        \<lparr>provide = Some (TString ''T''), useValue = None, useFactory = Some 5, useExisting = None, useClass = None, deps = Some [DepToken (TString ''A'')], multi = True\<rparr>]
     \<and> (\<exists>N. \<forall>n \<ge> N. injector_get n (\<lambda>f this args. Inr (VArray args)) (StaticInjector 1 [(Key (Injector), \<lparr>r_token = Injector, r_fn = IDENT, r_useNew = False, r_deps = [], r_value = Resolved (VInjector 1)\<rparr>), (Key (TString ''T''), \<lparr>r_token = TString ''T'', r_fn = MULTI_PROVIDER_FN, r_useNew = False, r_deps = [\<lparr>dep_id = MultiKey 0 (Key (TString ''T'')), dep_token = TString ''T'', options = OPT_DEFAULT\<rparr>, \<lparr>dep_id = MultiKey 1 (Key (TString ''T'')), dep_token = TString ''T'', options = OPT_DEFAULT\<rparr>, \<lparr>dep_id = MultiKey 2 (Key (TString ''T'')), dep_token = TString ''T'', options = OPT_DEFAULT\<rparr>], r_value = EMPTY\<rparr>), (MultiKey 0 (Key (TString ''T'')), \<lparr>r_token = TString ''T'', r_fn = IDENT, r_useNew = False, r_deps = [], r_value = Resolved (VNumber 1)\<rparr>), (Key (TString ''A''), \<lparr>r_token = TString ''A'', r_fn = IDENT, r_useNew = False, r_deps = [], r_value = Resolved (VNumber 9)\<rparr>), (MultiKey 1 (Key (TString ''T'')), \<lparr>r_token = TString ''T'', r_fn = IDENT, r_useNew = False, r_deps = [\<lparr>dep_id = Key (TString ''A''), dep_token = TString ''A'', options = OPT_DEFAULT\<rparr>], r_value = EMPTY\<rparr>), (MultiKey 2 (Key (TString ''T'')), \<lparr>r_token = TString ''T'', r_fn = UserFn 5, r_useNew = False, r_deps = [\<lparr>dep_id = Key (TString ''A''), dep_token = TString ''A'', options = OPT_DEFAULT\<rparr>], r_value = EMPTY\<rparr>)] NULL_INJECTOR) (TString ''T'') VUndefined 0
       = Some (Inr (VArray [VNumber 1, VNumber 9, VArray [VNumber 9]]), StaticInjector 1 (set_value [(Key (Injector), \<lparr>r_token = Injector, r_fn = IDENT, r_useNew = False, r_deps = [], r_value = Resolved (VInjector 1)\<rparr>), (Key (TString ''T''), \<lparr>r_token = TString ''T'', r_fn = MULTI_PROVIDER_FN, r_useNew = False, r_deps = [\<lparr>dep_id = MultiKey 0 (Key (TString ''T'')), dep_token = TString ''T'', options = OPT_DEFAULT\<rparr>, \<lparr>dep_id = MultiKey 1 (Key (TString ''T'')), dep_token = TString ''T'', options = OPT_DEFAULT\<rparr>, \<lparr>dep_id = MultiKey 2 (Key (TString ''T'')), dep_token = TString ''T'', options = OPT_DEFAULT\<rparr>], r_value = CIRCULAR\<rparr>), (MultiKey 0 (Key (TString ''T'')), \<lparr>r_token = TString ''T'', r_fn = IDENT, r_useNew = False, r_deps = [], r_value = Resolved (VNumber 1)\<rparr>), (Key (TString ''A''), \<lparr>r_token = TString ''A'', r_fn = IDENT, r_useNew = False, r_deps = [], r_value = Resolved (VNumber 9)\<rparr>), (MultiKey 1 (Key (TString ''T'')), \<lparr>r_token = TString ''T'', r_fn = IDENT, r_useNew = False, r_deps = [\<lparr>dep_id = Key (TString ''A''), dep_token = TString ''A'', options = OPT_DEFAULT\<rparr>], r_value = Resolved (VNumber 9)\<rparr>), (MultiKey 2 (Key (TString ''T'')), \<lparr>r_token = TString ''T'', r_fn = UserFn 5, r_useNew = False, r_deps = [\<lparr>dep_id = Key (TString ''A''), dep_token = TString ''A'', options = OPT_DEFAULT\<rparr>], r_value = Resolved (VArray [VNumber 9])\<rparr>)] (Key (TString ''T'')) (Resolved (VArray [VNumber 1, VNumber 9, VArray [VNumber 9]]))) NULL_INJECTOR, 0))"
    by (rule multi_provider_sequence [OF h1 h2 h3, THEN conjunct2, THEN conjunct1, THEN mp, OF hb])
  have hd: "injector_get (Suc (Suc (Suc (Suc (Suc (Suc (Suc (Suc (Suc (Suc (Suc (Suc 0)))))))))))) (\<lambda>f this args. Inr (VArray args)) (StaticInjector 1 [(Key (Injector), \<lparr>r_token = Injector, r_fn = IDENT, r_useNew = False, r_deps = [], r_value = Resolved (VInjector 1)\<rparr>), (Key (TString ''T''), \<lparr>r_token = TString ''T'', r_fn = MULTI_PROVIDER_FN, r_useNew = False, r_deps = [\<lparr>dep_id = MultiKey 0 (Key (TString ''T'')), dep_token = TString ''T'', options = OPT_DEFAULT\<rparr>, \<lparr>dep_id = MultiKey 1 (Key (TString ''T'')), dep_token = TString ''T'', options = OPT_DEFAULT\<rparr>, \<lparr>dep_id = MultiKey 2 (Key (TString ''T'')), dep_token = TString ''T'', options = OPT_DEFAULT\<rparr>], r_value = EMPTY\<rparr>), (MultiKey 0 (Key (TString ''T'')), \<lparr>r_token = TString ''T'', r_fn = IDENT, r_useNew = False, r_deps = [], r_value = Resolved (VNumber 1)\<rparr>), (Key (TString ''A''), \<lparr>r_token = TString ''A'', r_fn = IDENT, r_useNew = False, r_deps = [], r_value = Resolved (VNumber 9)\<rparr>), (MultiKey 1 (Key (TString ''T'')), \<lparr>r_token = TString ''T'', r_fn = IDENT, r_useNew = False, r_deps = [\<lparr>dep_id = Key (TString ''A''), dep_token = TString ''A'', options = OPT_DEFAULT\<rparr>], r_value = EMPTY\<rparr>), (MultiKey 2 (Key (TString ''T'')), \<lparr>r_token = TString ''T'', r_fn = UserFn 5, r_useNew = False, r_deps = [\<lparr>dep_id = Key (TString ''A''), dep_token = TString ''A'', options = OPT_DEFAULT\<rparr>], r_value = EMPTY\<rparr>)] NULL_INJECTOR) (TString ''T'') VUndefined 0
       = Some (Inr (VArray [VNumber 1, VNumber 9, VArray [VNumber 9]]), StaticInjector 1 [(Key (Injector), \<lparr>r_token = Injector, r_fn = IDENT, r_useNew = False, r_deps = [], r_value = Resolved (VInjector 1)\<rparr>), (Key (TString ''T''), \<lparr>r_token = TString ''T'', r_fn = MULTI_PROVIDER_FN, r_useNew = False, r_deps = [\<lparr>dep_id = MultiKey 0 (Key (TString ''T'')), dep_token = TString ''T'', options = OPT_DEFAULT\<rparr>, \<lparr>dep_id = MultiKey 1 (Key (TString ''T'')), dep_token = TString ''T'', options = OPT_DEFAULT\<rparr>, \<lparr>dep_id = MultiKey 2 (Key (TString ''T'')), dep_token = TString ''T'', options = OPT_DEFAULT\<rparr>], r_value = Resolved (VArray [VNumber 1, VNumber 9, VArray [VNumber 9]])\<rparr>), (MultiKey 0 (Key (TString ''T'')), \<lparr>r_token = TString ''T'', r_fn = IDENT, r_useNew = False, r_deps = [], r_value = Resolved (VNumber 1)\<rparr>), (Key (TString ''A''), \<lparr>r_token = TString ''A'', r_fn = IDENT, r_useNew = False, r_deps = [], r_value = Resolved (VNumber 9)\<rparr>), (MultiKey 1 (Key (TString ''T'')), \<lparr>r_token = TString ''T'', r_fn = IDENT, r_useNew = False, r_deps = [\<lparr>dep_id = Key (TString ''A''), dep_token = TString ''A'', options = OPT_DEFAULT\<rparr>], r_value = Resolved (VNumber 9)\<rparr>), (MultiKey 2 (Key (TString ''T'')), \<lparr>r_token = TString ''T'', r_fn = UserFn 5, r_useNew = False, r_deps = [\<lparr>dep_id = Key (TString ''A''), dep_token = TString ''A'', options = OPT_DEFAULT\<rparr>], r_value = Resolved (VArray [VNumber 9])\<rparr>)] NULL_INJECTOR, 0)"
    by (simp add: getId_def lookup_record_def set_value_def OPT_DEFAULT_def OPT_CHECK_SELF_def OPT_CHECK_PARENT_def OPT_OPTIONAL_def is_circular_def path_token_def newError_def get_catch_def nullInjector_get_def Injector_def Let_def multi_deps_def)
  have cd: "\<exists>vs. VArray [VNumber 1, VNumber 9, VArray [VNumber 9]] = VArray vs \<and> length vs = length [\<lparr>provide = Some (TString ''T''), useValue = Some (VNumber 1), useFactory = None, useExisting = None, useClass = None, deps = None, multi = True\<rparr>,
        \<lparr>provide = Some (TString ''T''), useValue = None, useFactory = None, useExisting = Some (TString ''A''), useClass = None, deps = None, multi = True\<rparr>,
        \<lparr>provide = Some (TString ''T''), useValue = None, useFactory = Some 5, useExisting = None, useClass = None, deps = Some [DepToken (TString ''A'')], multi = True\<rparr>]
       \<and> (\<forall>i < length [\<lparr>provide = Some (TString ''T''), useValue = Some (VNumber 1), useFactory = None, useExisting = None, useClass = None, deps = None, multi = True\<rparr>,
        \<lparr>provide = Some (TString ''T''), useValue = None, useFactory = None, useExisting = Some (TString ''A''), useClass = None, deps = None, multi = True\<rparr>,
        \<lparr>provide = Some (TString ''T''), useValue = None, useFactory = Some 5, useExisting = None, useClass = None, deps = Some [DepToken (TString ''A'')], multi = True\<rparr>]. slot_at (StaticInjector 1 [(Key (Injector), \<lparr>r_token = Injector, r_fn = IDENT, r_useNew = False, r_deps = [], r_value = Resolved (VInjector 1)\<rparr>), (Key (TString ''T''), \<lparr>r_token = TString ''T'', r_fn = MULTI_PROVIDER_FN, r_useNew = False, r_deps = [\<lparr>dep_id = MultiKey 0 (Key (TString ''T'')), dep_token = TString ''T'', options = OPT_DEFAULT\<rparr>, \<lparr>dep_id = MultiKey 1 (Key (TString ''T'')), dep_token = TString ''T'', options = OPT_DEFAULT\<rparr>, \<lparr>dep_id = MultiKey 2 (Key (TString ''T'')), dep_token = TString ''T'', options = OPT_DEFAULT\<rparr>], r_value = Resolved (VArray [VNumber 1, VNumber 9, VArray [VNumber 9]])\<rparr>), (MultiKey 0 (Key (TString ''T'')), \<lparr>r_token = TString ''T'', r_fn = IDENT, r_useNew = False, r_deps = [], r_value = Resolved (VNumber 1)\<rparr>), (Key (TString ''A''), \<lparr>r_token = TString ''A'', r_fn = IDENT, r_useNew = False, r_deps = [], r_value = Resolved (VNumber 9)\<rparr>), (MultiKey 1 (Key (TString ''T'')), \<lparr>r_token = TString ''T'', r_fn = IDENT, r_useNew = False, r_deps = [\<lparr>dep_id = Key (TString ''A''), dep_token = TString ''A'', options = OPT_DEFAULT\<rparr>], r_value = Resolved (VNumber 9)\<rparr>), (MultiKey 2 (Key (TString ''T'')), \<lparr>r_token = TString ''T'', r_fn = UserFn 5, r_useNew = False, r_deps = [\<lparr>dep_id = Key (TString ''A''), dep_token = TString ''A'', options = OPT_DEFAULT\<rparr>], r_value = Resolved (VArray [VNumber 9])\<rparr>)] NULL_INJECTOR) 0 (MultiKey i (Key (TString ''T''))) = Some (Resolved (vs ! i)))"
    by (rule multi_provider_sequence [OF h1 h2 h3, THEN conjunct2, THEN conjunct2, THEN conjunct2, THEN mp, OF hd])
  have g1: "new_StaticInjector 1 (PArray [PObject \<lparr>provide = Some (TString ''T''), useValue = Some (VNumber 1), useFactory = None, useExisting = None, useClass = None, deps = None, multi = True\<rparr>,
        PArray [PObject \<lparr>provide = Some (TString ''T''), useValue = None, useFactory = Some 5, useExisting = None, useClass = None, deps = Some [], multi = True\<rparr>],
        PObject \<lparr>provide = Some (TString ''T''), useValue = None, useFactory = None, useExisting = None, useClass = Some 6, deps = Some [], multi = True\<rparr>]) NULL_INJECTOR
       = Inr (StaticInjector 1 [(Key (Injector), \<lparr>r_token = Injector, r_fn = IDENT, r_useNew = False, r_deps = [], r_value = Resolved (VInjector 1)\<rparr>), (Key (TString ''T''), \<lparr>r_token = TString ''T'', r_fn = MULTI_PROVIDER_FN, r_useNew = False, r_deps = [\<lparr>dep_id = MultiKey 0 (Key (TString ''T'')), dep_token = TString ''T'', options = OPT_DEFAULT\<rparr>, \<lparr>dep_id = MultiKey 1 (Key (TString ''T'')), dep_token = TString ''T'', options = OPT_DEFAULT\<rparr>, \<lparr>dep_id = MultiKey 2 (Key (TString ''T'')), dep_token = TString ''T'', options = OPT_DEFAULT\<rparr>], r_value = EMPTY\<rparr>), (MultiKey 0 (Key (TString ''T'')), \<lparr>r_token = TString ''T'', r_fn = IDENT, r_useNew = False, r_deps = [], r_value = Resolved (VNumber 1)\<rparr>), (MultiKey 1 (Key (TString ''T'')), \<lparr>r_token = TString ''T'', r_fn = UserFn 5, r_useNew = False, r_deps = [], r_value = EMPTY\<rparr>), (MultiKey 2 (Key (TString ''T'')), \<lparr>r_token = TString ''T'', r_fn = UserFn 6, r_useNew = True, r_deps = [], r_value = EMPTY\<rparr>)] NULL_INJECTOR)"
    by (simp add: create_def new_StaticInjector_def getId_def Injector_def processProvider_def resolveProvider_def computeDeps_def holds_multi_def Let_def)
  have g2: "contributions (TString ''T'') (PArray [PObject \<lparr>provide = Some (TString ''T''), useValue = Some (VNumber 1), useFactory = None, useExisting = None, useClass = None, deps = None, multi = True\<rparr>,
        PArray [PObject \<lparr>provide = Some (TString ''T''), useValue = None, useFactory = Some 5, useExisting = None, useClass = None, deps = Some [], multi = True\<rparr>],
        PObject \<lparr>provide = Some (TString ''T''), useValue = None, useFactory = None, useExisting = None, useClass = Some 6, deps = Some [], multi = True\<rparr>])
       = [\<lparr>provide = Some (TString ''T''), useValue = Some (VNumber 1), useFactory = None, useExisting = None, useClass = None, deps = None, multi = True\<rparr>,
        \<lparr>provide = Some (TString ''T''), useValue = None, useFactory = Some 5, useExisting = None, useClass = None, deps = Some [], multi = True\<rparr>,
        \<lparr>provide = Some (TString ''T''), useValue = None, useFactory = None, useExisting = None, useClass = Some 6, deps = Some [], multi = True\<rparr>]"
    by (simp add: contributions_def)
  have g3: "[\<lparr>provide = Some (TString ''T''), useValue = Some (VNumber 1), useFactory = None, useExisting = None, useClass = None, deps = None, multi = True\<rparr>,
        \<lparr>provide = Some (TString ''T''), useValue = None, useFactory = Some 5, useExisting = None, useClass = None, deps = Some [], multi = True\<rparr>,
        \<lparr>provide = Some (TString ''T''), useValue = None, useFactory = None, useExisting = None, useClass = Some 6, deps = Some [], multi = True\<rparr>] \<noteq> []"
    by simp
  have hc: "list_all2 (\<lambda>provider r. resolveProvider provider = Inr r) [\<lparr>provide = Some (TString ''T''), useValue = Some (VNumber 1), useFactory = None, useExisting = None, useClass = None, deps = None, multi = True\<rparr>,
        \<lparr>provide = Some (TString ''T''), useValue = None, useFactory = Some 5, useExisting = None, useClass = None, deps = Some [], multi = True\<rparr>,
        \<lparr>provide = Some (TString ''T''), useValue = None, useFactory = None, useExisting = None, useClass = Some 6, deps = Some [], multi = True\<rparr>]
       [\<lparr>r_token = TString ''T'', r_fn = IDENT, r_useNew = False, r_deps = [], r_value = Resolved (VNumber 1)\<rparr>, \<lparr>r_token = TString ''T'', r_fn = UserFn 5, r_useNew = False, r_deps = [], r_value = EMPTY\<rparr>, \<lparr>r_token = TString ''T'', r_fn = UserFn 6, r_useNew = True, r_deps = [], r_value = EMPTY\<rparr>]
     \<and> direct_values (\<lambda>f this args. if f = 5 then Inr (VNumber 7) else Inr VUndefined) [\<lparr>r_token = TString ''T'', r_fn = IDENT, r_useNew = False, r_deps = [], r_value = Resolved (VNumber 1)\<rparr>, \<lparr>r_token = TString ''T'', r_fn = UserFn 5, r_useNew = False, r_deps = [], r_value = EMPTY\<rparr>, \<lparr>r_token = TString ''T'', r_fn = UserFn 6, r_useNew = True, r_deps = [], r_value = EMPTY\<rparr>] 0 = Some ([VNumber 1, VNumber 7, VObject 0], 1)"
    by (simp add: resolveProvider_def computeDeps_def Let_def)
  have cc: "length [VNumber 1, VNumber 7, VObject 0] = length [\<lparr>provide = Some (TString ''T''), useValue = Some (VNumber 1), useFactory = None, useExisting = None, useClass = None, deps = None, multi = True\<rparr>,
        \<lparr>provide = Some (TString ''T''), useValue = None, useFactory = Some 5, useExisting = None, useClass = None, deps = Some [], multi = True\<rparr>,
        \<lparr>provide = Some (TString ''T''), useValue = None, useFactory = None, useExisting = None, useClass = Some 6, deps = Some [], multi = True\<rparr>]
     \<and> (\<exists>N scope''. \<forall>n \<ge> N. injector_get n (\<lambda>f this args. if f = 5 then Inr (VNumber 7) else Inr VUndefined) (StaticInjector 1 [(Key (Injector), \<lparr>r_token = Injector, r_fn = IDENT, r_useNew = False, r_deps = [], r_value = Resolved (VInjector 1)\<rparr>), (Key (TString ''T''), \<lparr>r_token = TString ''T'', r_fn = MULTI_PROVIDER_FN, r_useNew = False, r_deps = [\<lparr>dep_id = MultiKey 0 (Key (TString ''T'')), dep_token = TString ''T'', options = OPT_DEFAULT\<rparr>, \<lparr>dep_id = MultiKey 1 (Key (TString ''T'')), dep_token = TString ''T'', options = OPT_DEFAULT\<rparr>, \<lparr>dep_id = MultiKey 2 (Key (TString ''T'')), dep_token = TString ''T'', options = OPT_DEFAULT\<rparr>], r_value = EMPTY\<rparr>), (MultiKey 0 (Key (TString ''T'')), \<lparr>r_token = TString ''T'', r_fn = IDENT, r_useNew = False, r_deps = [], r_value = Resolved (VNumber 1)\<rparr>), (MultiKey 1 (Key (TString ''T'')), \<lparr>r_token = TString ''T'', r_fn = UserFn 5, r_useNew = False, r_deps = [], r_value = EMPTY\<rparr>), (MultiKey 2 (Key (TString ''T'')), \<lparr>r_token = TString ''T'', r_fn = UserFn 6, r_useNew = True, r_deps = [], r_value = EMPTY\<rparr>)] NULL_INJECTOR) (TString ''T'') VUndefined 0
       = Some (Inr (VArray [VNumber 1, VNumber 7, VObject 0]), scope'', 1))"
    by (rule multi_provider_sequence [OF g1 g2 g3, THEN conjunct2, THEN conjunct2, THEN conjunct1, THEN mp, OF hc])
  show ?thesis
    by (rule conjI [OF h1], rule conjI [OF h2], rule conjI [OF h3], rule conjI [OF hb], rule conjI [OF cb], rule conjI [OF hd], rule conjI [OF cd], rule conjI [OF g1], rule conjI [OF g2], rule conjI [OF g3], rule conjI [OF hc], rule cc)
qed

text \<open>
  A contribution that fails makes \<^verbatim>\<open>get\<close> fail: no sequence is returned.  With the one
  contribution a factory that depends on a token nobody provides, \<^verbatim>\<open>get\<close> on the token
  of the multi provider throws the \<^verbatim>\<open>No provider\<close> error of the missing token.
\<close>

theorem failing_contribution_counterexample:
  "(new_StaticInjector 1 (PArray [PObject \<lparr>provide = Some (TString ''T''), useValue = None, useFactory = Some 5, useExisting = None, useClass = None, deps = Some [DepToken (TString ''M'')], multi = True\<rparr>]) NULL_INJECTOR
       = Inr (StaticInjector 1 [(Key (Injector), \<lparr>r_token = Injector, r_fn = IDENT, r_useNew = False, r_deps = [], r_value = Resolved (VInjector 1)\<rparr>), (Key (TString ''T''), \<lparr>r_token = TString ''T'', r_fn = MULTI_PROVIDER_FN, r_useNew = False, r_deps = [\<lparr>dep_id = MultiKey 0 (Key (TString ''T'')), dep_token = TString ''T'', options = OPT_DEFAULT\<rparr>], r_value = EMPTY\<rparr>), (MultiKey 0 (Key (TString ''T'')), \<lparr>r_token = TString ''T'', r_fn = UserFn 5, r_useNew = False, r_deps = [\<lparr>dep_id = Key (TString ''M''), dep_token = TString ''M'', options = OPT_DEFAULT\<rparr>], r_value = EMPTY\<rparr>)] NULL_INJECTOR))
   \<and> (contributions (TString ''T'') (PArray [PObject \<lparr>provide = Some (TString ''T''), useValue = None, useFactory = Some 5, useExisting = None, useClass = None, deps = Some [DepToken (TString ''M'')], multi = True\<rparr>])
       = [\<lparr>provide = Some (TString ''T''), useValue = None, useFactory = Some 5, useExisting = None, useClass = None, deps = Some [DepToken (TString ''M'')], multi = True\<rparr>])
   \<and> (injector_get (Suc (Suc (Suc (Suc (Suc (Suc (Suc (Suc (Suc (Suc 0)))))))))) (\<lambda>f this args. Inr (VArray args)) (StaticInjector 1 [(Key (Injector), \<lparr>r_token = Injector, r_fn = IDENT, r_useNew = False, r_deps = [], r_value = Resolved (VInjector 1)\<rparr>), (Key (TString ''T''), \<lparr>r_token = TString ''T'', r_fn = MULTI_PROVIDER_FN, r_useNew = False, r_deps = [\<lparr>dep_id = MultiKey 0 (Key (TString ''T'')), dep_token = TString ''T'', options = OPT_DEFAULT\<rparr>], r_value = EMPTY\<rparr>), (MultiKey 0 (Key (TString ''T'')), \<lparr>r_token = TString ''T'', r_fn = UserFn 5, r_useNew = False, r_deps = [\<lparr>dep_id = Key (TString ''M''), dep_token = TString ''M'', options = OPT_DEFAULT\<rparr>], r_value = EMPTY\<rparr>)] NULL_INJECTOR) (TString ''T'') THROW_IF_NOT_FOUND 0
       = Some (Inl \<lparr>msg = Formatted (Some [TString ''T'', TString ''T'', TString ''M'']) (NullInjectorError (TString ''M'')), ngTempTokenPath = None, ngTokenPath = Some [TString ''T'', TString ''T'', TString ''M'']\<rparr>, StaticInjector 1 [(Key (Injector), \<lparr>r_token = Injector, r_fn = IDENT, r_useNew = False, r_deps = [], r_value = Resolved (VInjector 1)\<rparr>), (Key (TString ''T''), \<lparr>r_token = TString ''T'', r_fn = MULTI_PROVIDER_FN, r_useNew = False, r_deps = [\<lparr>dep_id = MultiKey 0 (Key (TString ''T'')), dep_token = TString ''T'', options = OPT_DEFAULT\<rparr>], r_value = EMPTY\<rparr>), (MultiKey 0 (Key (TString ''T'')), \<lparr>r_token = TString ''T'', r_fn = UserFn 5, r_useNew = False, r_deps = [\<lparr>dep_id = Key (TString ''M''), dep_token = TString ''M'', options = OPT_DEFAULT\<rparr>], r_value = EMPTY\<rparr>)] NULL_INJECTOR, 0))"
proof -
  have c1: "new_StaticInjector 1 (PArray [PObject \<lparr>provide = Some (TString ''T''), useValue = None, useFactory = Some 5, useExisting = None, useClass = None, deps = Some [DepToken (TString ''M'')], multi = True\<rparr>]) NULL_INJECTOR
       = Inr (StaticInjector 1 [(Key (Injector), \<lparr>r_token = Injector, r_fn = IDENT, r_useNew = False, r_deps = [], r_value = Resolved (VInjector 1)\<rparr>), (Key (TString ''T''), \<lparr>r_token = TString ''T'', r_fn = MULTI_PROVIDER_FN, r_useNew = False, r_deps = [\<lparr>dep_id = MultiKey 0 (Key (TString ''T'')), dep_token = TString ''T'', options = OPT_DEFAULT\<rparr>], r_value = EMPTY\<rparr>), (MultiKey 0 (Key (TString ''T'')), \<lparr>r_token = TString ''T'', r_fn = UserFn 5, r_useNew = False, r_deps = [\<lparr>dep_id = Key (TString ''M''), dep_token = TString ''M'', options = OPT_DEFAULT\<rparr>], r_value = EMPTY\<rparr>)] NULL_INJECTOR)"
    by (simp add: create_def new_StaticInjector_def getId_def Injector_def processProvider_def resolveProvider_def computeDeps_def holds_multi_def Let_def)
  have c2: "contributions (TString ''T'') (PArray [PObject \<lparr>provide = Some (TString ''T''), useValue = None, useFactory = Some 5, useExisting = None, useClass = None, deps = Some [DepToken (TString ''M'')], multi = True\<rparr>])
       = [\<lparr>provide = Some (TString ''T''), useValue = None, useFactory = Some 5, useExisting = None, useClass = None, deps = Some [DepToken (TString ''M'')], multi = True\<rparr>]"
    by (simp add: contributions_def)
  have c3: "injector_get (Suc (Suc (Suc (Suc (Suc (Suc (Suc (Suc (Suc (Suc 0)))))))))) (\<lambda>f this args. Inr (VArray args)) (StaticInjector 1 [(Key (Injector), \<lparr>r_token = Injector, r_fn = IDENT, r_useNew = False, r_deps = [], r_value = Resolved (VInjector 1)\<rparr>), (Key (TString ''T''), \<lparr>r_token = TString ''T'', r_fn = MULTI_PROVIDER_FN, r_useNew = False, r_deps = [\<lparr>dep_id = MultiKey 0 (Key (TString ''T'')), dep_token = TString ''T'', options = OPT_DEFAULT\<rparr>], r_value = EMPTY\<rparr>), (MultiKey 0 (Key (TString ''T'')), \<lparr>r_token = TString ''T'', r_fn = UserFn 5, r_useNew = False, r_deps = [\<lparr>dep_id = Key (TString ''M''), dep_token = TString ''M'', options = OPT_DEFAULT\<rparr>], r_value = EMPTY\<rparr>)] NULL_INJECTOR) (TString ''T'') THROW_IF_NOT_FOUND 0
       = Some (Inl \<lparr>msg = Formatted (Some [TString ''T'', TString ''T'', TString ''M'']) (NullInjectorError (TString ''M'')), ngTempTokenPath = None, ngTokenPath = Some [TString ''T'', TString ''T'', TString ''M'']\<rparr>, StaticInjector 1 [(Key (Injector), \<lparr>r_token = Injector, r_fn = IDENT, r_useNew = False, r_deps = [], r_value = Resolved (VInjector 1)\<rparr>), (Key (TString ''T''), \<lparr>r_token = TString ''T'', r_fn = MULTI_PROVIDER_FN, r_useNew = False, r_deps = [\<lparr>dep_id = MultiKey 0 (Key (TString ''T'')), dep_token = TString ''T'', options = OPT_DEFAULT\<rparr>], r_value = EMPTY\<rparr>), (MultiKey 0 (Key (TString ''T'')), \<lparr>r_token = TString ''T'', r_fn = UserFn 5, r_useNew = False, r_deps = [\<lparr>dep_id = Key (TString ''M''), dep_token = TString ''M'', options = OPT_DEFAULT\<rparr>], r_value = EMPTY\<rparr>)] NULL_INJECTOR, 0)"
    by (simp add: getId_def lookup_record_def set_value_def OPT_DEFAULT_def OPT_CHECK_SELF_def OPT_CHECK_PARENT_def OPT_OPTIONAL_def is_circular_def path_token_def newError_def get_catch_def nullInjector_get_def Injector_def Let_def)
  show ?thesis
    by (rule conjI [OF c1], rule conjI [OF c2], rule c3)
qed

subsection \<open>Scopes with no record in progress\<close>


text \<open>
  Scopes with no record in progress are the ones a caller meets: a new scope has none,
  and no \<^verbatim>\<open>get\<close>, failed or not, leaves one.
\<close>

lemma get_keeps_clean:
  assumes "clean scope" and "injector_get n app scope token nfv h = Some (res, scope', h')"
  shows "clean scope'"
proof -
  from resolver_rel_get [OF assms(2)] have "chain_rel fills_or_clears scope scope'"
    by (auto split: if_splits intro: chain_rel_mono fills_imp_clears)
  from chain_clean [OF this assms(1)] show ?thesis by simp
qed

lemma resolveProvider_not_circular: "resolveProvider provider = Inr r \<Longrightarrow> r_value r \<noteq> CIRCULAR"
  by (auto simp: resolveProvider_def Let_def split: sum.splits option.splits token.splits)

lemma processProvider_no_circular:
  assumes "processProvider records provider t = Inr records'" "no_circular records"
  shows "no_circular records'"
proof -
  from assms(1) obtain r where r: "resolveProvider provider = Inr r"
    by (auto simp: processProvider_def split: sum.splits)
  note n = resolveProvider_not_circular [OF r]
  show ?thesis
    using assms r n unfolding no_circular_iff
    by (auto simp: processProvider_def Let_def update_conv' map_of_map_entry
             split: sum.splits if_splits option.splits)
qed

lemma build_no_circular:
  "recursivelyProcessProviders records p = Inr records' \<Longrightarrow> no_circular records
     \<Longrightarrow> no_circular records'"
  and build_no_circular_array:
  "processArray records ps = Inr records' \<Longrightarrow> no_circular records \<Longrightarrow> no_circular records'"
proof (induction records p and records ps arbitrary: records' and records'
        rule: recursivelyProcessProviders_processArray.induct)
  case (8 records provider)
  then show ?case by (auto split: option.splits dest: processProvider_no_circular)
next
  case (11 records p ps)
  then show ?case by (auto split: sum.splits)
qed auto

lemma new_scope_clean:
  assumes "new_StaticInjector this providers parent = Inr scope" and "clean parent"
  shows "clean scope"
proof -
  let ?seed = "[(Key Injector, \<lparr>r_token = Injector, r_fn = IDENT, r_useNew = False, r_deps = [],
                                 r_value = Resolved (VInjector this)\<rparr>)]"
  from assms(1) obtain records where b: "recursivelyProcessProviders ?seed providers = Inr records"
    and s: "scope = StaticInjector this records parent"
    by (auto simp: new_StaticInjector_def getId_def Injector_def split: sum.splits)
  have "no_circular ?seed" by (simp add: no_circular_def is_circular_def)
  from build_no_circular [OF b this] assms(2) s show ?thesis by simp
qed

end
